theory Spec2Isabelle
  imports Complex_Main
begin

section \<open>Numbers, constants and errors\<close>

text \<open>
  The simulation and its metrics compute on Python and numpy floats. They are modelled
  as exact real numbers: rounding error, overflow and the infinities are outside the
  model, except where \<open>holding_period_returns\<close> rounds a value whose sixth decimal is a
  tie (see \<open>round_with_tie\<close>). A value that the code holds as NaN (an indicator during its warm-up, the first
  entry of the return column) is \<open>None\<close>; a defined value \<open>x\<close> is \<open>Some x\<close>.
  Python's unbounded integers are \<open>int\<close>.

  The constants of \<^verbatim>\<open>utils.py\<close>.
\<close>

definition ASSET_VALUE :: real where
  "ASSET_VALUE = 2 * 10 ^ 8"

definition TAX :: real where
  "TAX = 47 / 100"

definition MARGIN_RATIO :: real where
  "MARGIN_RATIO = 175 / 1000"

definition ACCOUNT_RATIO :: real where
  "ACCOUNT_RATIO = 8 / 10"

definition MULTIPLIER :: real where
  "MULTIPLIER = 10 ^ 5"

text \<open>
  Every exception the modelled code can raise: the two \<^verbatim>\<open>ValueError\<close>s of the metrics
  (told apart by their message), the \<^verbatim>\<open>IndexError\<close> of \<^verbatim>\<open>.iloc\<close> on an empty
  column, and the error of \<^verbatim>\<open>math.floor\<close> on the non-finite quotient that a zero
  divisor produces.
\<close>

datatype error =
    PeriodReturnsEmpty
  | AllCapitalLost
  | IndexError
  | FloorNonFinite

section \<open>The output table\<close>

text \<open>
  \<^verbatim>\<open>trading_data\<close>: a table indexed by the timestamps of the input, with the
  columns \<^verbatim>\<open>Asset\<close> and \<^verbatim>\<open>Return\<close>. Timestamps are natural numbers.
\<close>

record trading_data =
  Index :: "nat list"
  Asset :: "real list"
  Return :: "real option list"

text \<open>\<^verbatim>\<open>Series.dropna()\<close>: the defined values, in order.\<close>

fun dropna :: "real option list \<Rightarrow> real list" where
  "dropna [] = []"
| "dropna (None # xs) = dropna xs"
| "dropna (Some x # xs) = x # dropna xs"

text \<open>\<^verbatim>\<open>np.mean\<close> of a non-empty sequence.\<close>

definition mean :: "real list \<Rightarrow> real" where
  "mean xs = sum_list xs / real (length xs)"

text \<open>
  \<^verbatim>\<open>round(x, n)\<close>: the multiple of \<open>10 ^ -n\<close> nearest to \<open>x\<close>, a tie going to the
  even multiple.
\<close>

definition round_half_even :: "real \<Rightarrow> int" where
  "round_half_even x =
     (let f = \<lfloor>x\<rfloor>; d = x - of_int f
      in if d < 1 / 2 then f
         else if 1 / 2 < d then f + 1
         else if even f then f else f + 1)"

definition py_round :: "real \<Rightarrow> nat \<Rightarrow> real" where
  "py_round x n = of_int (round_half_even (x * 10 ^ n)) / 10 ^ n"

section \<open>Metrics (\<^verbatim>\<open>utils.py\<close>)\<close>

text \<open>
  \<^verbatim>\<open>round(x, n)\<close> of a float \<open>x\<close> that carries the rounding error of the arithmetic
  before it. Where the exact value lies midway between two multiples of \<open>10 ^ -n\<close> the
  float lies on one side of the midpoint or the other, and the result is the neighbour on
  that side; \<open>up\<close> says which. Everywhere else the result is the nearest multiple.
\<close>

definition round_with_tie :: "bool \<Rightarrow> real \<Rightarrow> nat \<Rightarrow> real" where
  "round_with_tie up x n =
     (let y = x * 10 ^ n; f = \<lfloor>y\<rfloor>; d = y - of_int f
      in of_int (if d < 1 / 2 then f
                 else if 1 / 2 < d then f + 1
                 else if up then f + 1 else f) / 10 ^ n)"

text \<open>
  \<^verbatim>\<open>holding_period_returns\<close>. \<^verbatim>\<open>.iloc[-1]\<close> and \<^verbatim>\<open>.iloc[0]\<close> raise on an empty
  column. A zero initial value makes the quotient non-finite in floating point, without
  an exception: the result is then \<open>None\<close>. The percentage \<open>(cur / init - 1) * 100\<close> is
  computed in floats before it is rounded, and the asset values of a run make its sixth
  decimal a tie often; the side on which the float falls depends on the two operands and
  is the parameter \<open>tie_up\<close>.
\<close>

definition holding_period_returns ::
  "(real \<Rightarrow> real \<Rightarrow> bool) \<Rightarrow> trading_data \<Rightarrow> error + real option" where
  "holding_period_returns tie_up data =
     (if Asset data = [] then Inl IndexError
      else
        let cur_asset_value = last (Asset data);
            init_asset_value = hd (Asset data)
        in if init_asset_value = 0 then Inr None
           else Inr (Some (round_with_tie (tie_up cur_asset_value init_asset_value)
                             ((cur_asset_value / init_asset_value - 1) * 100) 6)))"

text \<open>
  The loop of \<^verbatim>\<open>maximum_drawdown\<close>, on the loop variables \<^verbatim>\<open>cur_asset\<close>,
  \<^verbatim>\<open>peak\<close> and \<^verbatim>\<open>mdd\<close>.
\<close>

fun mdd_loop :: "real list \<Rightarrow> real \<Rightarrow> real \<Rightarrow> real \<Rightarrow> real" where
  "mdd_loop [] cur_asset peak mdd = mdd"
| "mdd_loop (val # vals) cur_asset peak mdd =
     (let cur_asset' = cur_asset * (1 + val);
          peak' = max peak cur_asset';
          mdd' = min mdd (- (1 - cur_asset' / peak'))
      in mdd_loop vals cur_asset' peak' mdd')"

definition maximum_drawdown :: "trading_data \<Rightarrow> error + real" where
  "maximum_drawdown data =
     (let period_returns = dropna (Return data)
      in if period_returns = [] then Inl PeriodReturnsEmpty
         else if - 1 \<in> set period_returns then Inl AllCapitalLost
         else Inr (py_round (mdd_loop period_returns 1 1 0 * 100) 6))"

text \<open>
  The loop of \<^verbatim>\<open>longest_drawdown\<close>, on \<^verbatim>\<open>cur_asset\<close>, \<^verbatim>\<open>peak\<close>,
  \<^verbatim>\<open>count\<close> and \<^verbatim>\<open>ldd\<close>; the \<^verbatim>\<open>max\<close> after the loop is its base case.
\<close>

fun ldd_loop :: "real list \<Rightarrow> real \<Rightarrow> real \<Rightarrow> int \<Rightarrow> int \<Rightarrow> int" where
  "ldd_loop [] cur_asset peak count ldd = max ldd count"
| "ldd_loop (val # vals) cur_asset peak count ldd =
     (let cur_asset' = cur_asset * (1 + val)
      in if peak \<le> cur_asset'
         then ldd_loop vals cur_asset' cur_asset' 0 (max ldd count)
         else ldd_loop vals cur_asset' peak (count + 1) ldd)"

definition longest_drawdown :: "trading_data \<Rightarrow> error + int" where
  "longest_drawdown data =
     (let period_returns = dropna (Return data)
      in if period_returns = [] then Inl PeriodReturnsEmpty
         else if - 1 \<in> set period_returns then Inl AllCapitalLost
         else Inr (ldd_loop period_returns 1 1 0 0))"

text \<open>
  \<^verbatim>\<open>np.std(xs, ddof=1)\<close>: the sample standard deviation. With a single value it
  divides zero by zero and is NaN.
\<close>

definition std_ddof1 :: "real list \<Rightarrow> real option" where
  "std_ddof1 xs =
     (if length xs \<le> 1 then None
      else Some (sqrt (sum_list (map (\<lambda>x. (x - mean xs) ^ 2) xs) / real (length xs - 1))))"

text \<open>
  \<^verbatim>\<open>sharpe_ratio\<close>. \<^verbatim>\<open>np.mean(data['Return'])\<close> skips the undefined entries, so it
  is the mean of \<^verbatim>\<open>period_returns\<close>. A NaN deviation is not equal to 0 and makes the
  result NaN (\<open>None\<close>).
\<close>

definition sharpe_ratio :: "trading_data \<Rightarrow> real \<Rightarrow> error + real option" where
  "sharpe_ratio data risk_free_return =
     (let period_returns = dropna (Return data)
      in if period_returns = [] then Inl PeriodReturnsEmpty
         else case std_ddof1 period_returns of
           None \<Rightarrow> Inr None
         | Some std \<Rightarrow>
             if std = 0 then Inr (Some 0)
             else Inr (Some (py_round
               ((252 * mean period_returns - risk_free_return) / (sqrt 252 * std)) 6)))"

text \<open>\<^verbatim>\<open>sortino_ratio\<close>.\<close>

definition downside_risk :: "real list \<Rightarrow> real \<Rightarrow> real" where
  "downside_risk period_returns risk_free_return =
     sqrt (mean (map (\<lambda>val. if risk_free_return < val then 0
                             else (val - risk_free_return) ^ 2) period_returns))"

definition sortino_ratio :: "trading_data \<Rightarrow> real \<Rightarrow> error + real" where
  "sortino_ratio data risk_free_return =
     (let period_returns = dropna (Return data)
      in if period_returns = [] then Inl PeriodReturnsEmpty
         else if downside_risk period_returns risk_free_return = 0 then Inr 0
         else Inr (py_round
           ((sqrt 252 * mean period_returns - risk_free_return)
              / downside_risk period_returns risk_free_return) 6))"

text \<open>The default of the parameter \<^verbatim>\<open>risk_free_return\<close>.\<close>

definition default_risk_free_return :: real where
  "default_risk_free_return = 3093 / 100000"

section \<open>Positions and the input table\<close>

datatype pos_type = LONG | SHORT

text \<open>
  An open position: the tuple \<^verbatim>\<open>(entry_date, pos_type, entry_price, quantity,
  stop_loss, take_profit)\<close> of the holdings lists.
\<close>

record position =
  entry_date :: nat
  pos_type :: pos_type
  entry_price :: real
  quantity :: int
  stop_loss :: real
  take_profit :: real

text \<open>
  A row of the input table, after the indicator columns are attached. The indicators are
  computed by the library \<^verbatim>\<open>ta\<close> before the loop starts; the model takes their
  columns as given. \<open>Date\<close> is the row's index label and \<open>Close\<close> its closing price, the
  only price column the loop reads. \<open>row\<close> has the columns of the single-strategy
  functions of \<^verbatim>\<open>optimize.py\<close> (the static ones never read \<open>ATR_short\<close> and
  \<open>ATR_long\<close>), \<open>hrow\<close> those of the two-strategy functions of \<^verbatim>\<open>backtest.py\<close>.
\<close>

record price_row =
  Date :: nat
  Close :: real

record row = price_row +
  MACD_diff :: "real option"
  RSI :: "real option"
  ATR :: "real option"
  ATR_short :: "real option"
  ATR_long :: "real option"

record hrow = price_row +
  MACD_diff_mom :: "real option"
  RSI_mom :: "real option"
  ATR_mom :: "real option"
  ATR_mom_short :: "real option"
  ATR_mom_long :: "real option"
  MACD_diff_rev :: "real option"
  RSI_rev :: "real option"
  ATR_rev :: "real option"
  ATR_rev_short :: "real option"
  ATR_rev_long :: "real option"

text \<open>\<^verbatim>\<open>a > b\<close> on floats: False when either side is NaN.\<close>

definition nan_gt :: "real option \<Rightarrow> real option \<Rightarrow> bool" where
  "nan_gt a b = (case (a, b) of (Some x, Some y) \<Rightarrow> y < x | _ \<Rightarrow> False)"

definition price_multiplier :: real where
  "price_multiplier = MULTIPLIER * MARGIN_RATIO / ACCOUNT_RATIO"

section \<open>The parts of the loop body shared by all strategy functions\<close>

text \<open>The cash and the holdings list of one strategy.\<close>

type_synonym account = "real \<times> position list"

text \<open>
  The exit loop \<^verbatim>\<open>for position in holdings[:]\<close>: it runs over a snapshot of the list
  and, where the exit condition of the position's side holds, books the cash of the
  close and removes the position from the live list (\<^verbatim>\<open>list.remove\<close> deletes the
  first equal element). The exit condition is the argument \<open>exit_cond\<close>; the cash
  movements are the same in all six functions.
\<close>

fun close_positions ::
  "(position \<Rightarrow> bool) \<Rightarrow> real \<Rightarrow> position list \<Rightarrow> account \<Rightarrow> account" where
  "close_positions exit_cond cur_price [] (cash, holdings) = (cash, holdings)"
| "close_positions exit_cond cur_price (position # snapshot) (cash, holdings) =
     close_positions exit_cond cur_price snapshot
       (if exit_cond position then
          (case pos_type position of
             LONG \<Rightarrow>
               (cash + (of_int (quantity position) * cur_price * price_multiplier
                        - of_int (quantity position) * TAX * MULTIPLIER),
                remove1 position holdings)
           | SHORT \<Rightarrow>
               (cash - (of_int (quantity position) * cur_price * price_multiplier
                        + of_int (quantity position) * TAX * MULTIPLIER),
                remove1 position holdings))
        else (cash, holdings))"

text \<open>The unrealized term of the asset value: the sum over the open positions.\<close>

definition total_unrealized :: "real \<Rightarrow> position list \<Rightarrow> real" where
  "total_unrealized cur_price holdings =
     sum_list (map (\<lambda>pos. if pos_type pos = LONG
                          then cur_price * price_multiplier * of_int (quantity pos)
                          else - cur_price * price_multiplier * of_int (quantity pos))
                   holdings)"

text \<open>
  \<^verbatim>\<open>floor(available_cash / (cur_price * price_multiplier))\<close>. With a zero divisor the
  numpy quotient is infinite or NaN and \<^verbatim>\<open>math.floor\<close> raises.
\<close>

definition floor_quantity :: "real \<Rightarrow> real \<Rightarrow> error + int" where
  "floor_quantity available_cash cur_price =
     (if cur_price * price_multiplier = 0 then Inl FloorNonFinite
      else Inr \<lfloor>available_cash / (cur_price * price_multiplier)\<rfloor>)"

text \<open>The block under \<^verbatim>\<open>if quantity > 0\<close> of a LONG entry and of a SHORT entry.\<close>

definition open_long :: "nat \<Rightarrow> real \<Rightarrow> real \<Rightarrow> real \<Rightarrow> int \<Rightarrow> account \<Rightarrow> account" where
  "open_long date cur_price atr atr_multiplier qty st =
     (case st of (cash, holdings) \<Rightarrow>
        if 0 < qty then
          (cash - of_int qty * cur_price * price_multiplier,
           holdings @ [\<lparr>entry_date = date, pos_type = LONG, entry_price = cur_price,
                        quantity = qty,
                        stop_loss = cur_price - atr * atr_multiplier,
                        take_profit = cur_price + atr * atr_multiplier\<rparr>])
        else (cash, holdings))"

definition open_short :: "nat \<Rightarrow> real \<Rightarrow> real \<Rightarrow> real \<Rightarrow> int \<Rightarrow> account \<Rightarrow> account" where
  "open_short date cur_price atr atr_multiplier qty st =
     (case st of (cash, holdings) \<Rightarrow>
        if 0 < qty then
          (cash + of_int qty * cur_price * price_multiplier,
           holdings @ [\<lparr>entry_date = date, pos_type = SHORT, entry_price = cur_price,
                        quantity = qty,
                        stop_loss = cur_price + atr * atr_multiplier,
                        take_profit = cur_price - atr * atr_multiplier\<rparr>])
        else (cash, holdings))"

section \<open>The momentum strategy (\<^verbatim>\<open>momentum_algo\<close>, \<^verbatim>\<open>dynamic_momentum_algo\<close>)\<close>

text \<open>
  The exit conditions of the momentum functions (\<^verbatim>\<open>optimize.py\<close> lines 86 to 97 and
  205 to 216; the momentum exits of \<^verbatim>\<open>backtest.py\<close>, lines 93 to 104 and 258 to
  269, test the same conditions).
\<close>

definition momentum_exit_cond :: "int \<Rightarrow> real \<Rightarrow> real \<Rightarrow> real \<Rightarrow> position \<Rightarrow> bool" where
  "momentum_exit_cond rsi_threshold cur_price rsi macd_diff position =
     (case pos_type position of
        LONG \<Rightarrow>
          take_profit position \<le> cur_price \<or> cur_price \<le> stop_loss position \<or>
          of_int (100 - rsi_threshold) \<le> rsi \<or> macd_diff < 0
      | SHORT \<Rightarrow>
          cur_price \<le> take_profit position \<or> stop_loss position \<le> cur_price \<or>
          rsi \<le> of_int rsi_threshold \<or> 0 < macd_diff)"

text \<open>The exit loop with these conditions, over a snapshot of the holdings.\<close>

definition momentum_exits :: "int \<Rightarrow> real \<Rightarrow> real \<Rightarrow> real \<Rightarrow> account \<Rightarrow> account" where
  "momentum_exits rsi_threshold cur_price rsi macd_diff st =
     close_positions (momentum_exit_cond rsi_threshold cur_price rsi macd_diff)
       cur_price (snd st) st"

text \<open>
  The entry block \<^verbatim>\<open>if not holdings: ...\<close> of the momentum functions
  (\<^verbatim>\<open>optimize.py\<close> lines 108 to 128 and 227 to 247). The SHORT quantity is capped
  at 3.
\<close>

definition momentum_entry ::
  "int \<Rightarrow> real \<Rightarrow> nat \<Rightarrow> real \<Rightarrow> real \<Rightarrow> real \<Rightarrow> real \<Rightarrow> account \<Rightarrow> error + account" where
  "momentum_entry rsi_threshold atr_multiplier date cur_price rsi macd_diff atr st =
     (case st of (cash, holdings) \<Rightarrow>
        if holdings = [] then
          if 0 < macd_diff \<and> 50 < rsi \<and> rsi < of_int (100 - rsi_threshold) then
            (case floor_quantity (cash / 2) cur_price of
               Inl e \<Rightarrow> Inl e
             | Inr qty \<Rightarrow> Inr (open_long date cur_price atr atr_multiplier qty st))
          else if macd_diff < 0 \<and> of_int rsi_threshold < rsi \<and> rsi < 50 then
            (case floor_quantity (cash / 2) cur_price of
               Inl e \<Rightarrow> Inl e
             | Inr qty \<Rightarrow> Inr (open_short date cur_price atr atr_multiplier (min qty 3) st))
          else Inr st
        else Inr st)"

text \<open>
  The loop body after the NaN check (\<^verbatim>\<open>optimize.py\<close> lines 82 to 128, and the same
  text at lines 201 to 247): exits, the asset value written to the output, entries. It
  returns the new account and the asset value.
\<close>

definition momentum_body ::
  "int \<Rightarrow> real \<Rightarrow> nat \<Rightarrow> real \<Rightarrow> real \<Rightarrow> real \<Rightarrow> real \<Rightarrow> account \<Rightarrow> error + account \<times> real" where
  "momentum_body rsi_threshold atr_multiplier date cur_price rsi macd_diff atr st =
     (let st1 = momentum_exits rsi_threshold cur_price rsi macd_diff st;
          asset_value = fst st1 + total_unrealized cur_price (snd st1)
      in case momentum_entry rsi_threshold atr_multiplier date cur_price rsi macd_diff atr st1 of
           Inl e \<Rightarrow> Inl e
         | Inr st2 \<Rightarrow> Inr (st2, asset_value))"

text \<open>
  One iteration of the loop: a row with an undefined indicator is skipped
  (\<^verbatim>\<open>continue\<close>), any other one is processed and its asset value is written at
  the row's label.
\<close>

definition momentum_algo_bar ::
  "int \<Rightarrow> real \<Rightarrow> account \<Rightarrow> row \<Rightarrow> error + account \<times> (nat \<times> real) option" where
  "momentum_algo_bar rsi_threshold atr_multiplier st row =
     (if RSI row = None \<or> MACD_diff row = None \<or> ATR row = None then Inr (st, None)
      else
        case momentum_body rsi_threshold atr_multiplier (Date row) (Close row)
               (the (RSI row)) (the (MACD_diff row)) (the (ATR row)) st of
          Inl e \<Rightarrow> Inl e
        | Inr (st', asset_value) \<Rightarrow> Inr (st', Some (Date row, asset_value)))"

definition dynamic_momentum_algo_bar ::
  "int \<Rightarrow> account \<Rightarrow> row \<Rightarrow> error + account \<times> (nat \<times> real) option" where
  "dynamic_momentum_algo_bar rsi_threshold st row =
     (if RSI row = None \<or> MACD_diff row = None \<or> ATR row = None then Inr (st, None)
      else
        let atr_multiplier = (if nan_gt (ATR_short row) (ATR_long row) then 2 else 15 / 10)
        in case momentum_body rsi_threshold atr_multiplier (Date row) (Close row)
                  (the (RSI row)) (the (MACD_diff row)) (the (ATR row)) st of
             Inl e \<Rightarrow> Inl e
           | Inr (st', asset_value) \<Rightarrow> Inr (st', Some (Date row, asset_value)))"

section \<open>The reversion strategy (\<^verbatim>\<open>reversion_algo\<close>, \<^verbatim>\<open>dynamic_reversion_algo\<close>)\<close>

text \<open>
  The exit conditions of \<^verbatim>\<open>optimize.py\<close> lines 317 to 328 and 434 to 445: a SHORT
  leaves when the RSI is at most 50.
\<close>

definition reversion_exit_cond :: "real \<Rightarrow> real \<Rightarrow> real \<Rightarrow> position \<Rightarrow> bool" where
  "reversion_exit_cond cur_price rsi macd_diff position =
     (case pos_type position of
        LONG \<Rightarrow>
          take_profit position \<le> cur_price \<or> cur_price \<le> stop_loss position \<or>
          50 \<le> rsi \<or> macd_diff < 0
      | SHORT \<Rightarrow>
          cur_price \<le> take_profit position \<or> stop_loss position \<le> cur_price \<or>
          rsi \<le> 50 \<or> 0 < macd_diff)"

definition reversion_exits :: "real \<Rightarrow> real \<Rightarrow> real \<Rightarrow> account \<Rightarrow> account" where
  "reversion_exits cur_price rsi macd_diff st =
     close_positions (reversion_exit_cond cur_price rsi macd_diff) cur_price (snd st) st"

text \<open>The entry block of \<^verbatim>\<open>optimize.py\<close> lines 339 to 359 and 456 to 476.\<close>

definition reversion_entry ::
  "real \<Rightarrow> nat \<Rightarrow> real \<Rightarrow> real \<Rightarrow> real \<Rightarrow> real \<Rightarrow> account \<Rightarrow> error + account" where
  "reversion_entry atr_multiplier date cur_price rsi macd_diff atr st =
     (case st of (cash, holdings) \<Rightarrow>
        if holdings = [] then
          if 0 < macd_diff \<and> rsi < 30 then
            (case floor_quantity (cash / 2) cur_price of
               Inl e \<Rightarrow> Inl e
             | Inr qty \<Rightarrow> Inr (open_long date cur_price atr atr_multiplier qty st))
          else if macd_diff < 0 \<and> 70 < rsi then
            (case floor_quantity (cash / 2) cur_price of
               Inl e \<Rightarrow> Inl e
             | Inr qty \<Rightarrow> Inr (open_short date cur_price atr atr_multiplier (min qty 3) st))
          else Inr st
        else Inr st)"

text \<open>The loop body, \<^verbatim>\<open>optimize.py\<close> lines 313 to 359 and 430 to 476.\<close>

definition reversion_body ::
  "real \<Rightarrow> nat \<Rightarrow> real \<Rightarrow> real \<Rightarrow> real \<Rightarrow> real \<Rightarrow> account \<Rightarrow> error + account \<times> real" where
  "reversion_body atr_multiplier date cur_price rsi macd_diff atr st =
     (let st1 = reversion_exits cur_price rsi macd_diff st;
          asset_value = fst st1 + total_unrealized cur_price (snd st1)
      in case reversion_entry atr_multiplier date cur_price rsi macd_diff atr st1 of
           Inl e \<Rightarrow> Inl e
         | Inr st2 \<Rightarrow> Inr (st2, asset_value))"

definition reversion_algo_bar ::
  "real \<Rightarrow> account \<Rightarrow> row \<Rightarrow> error + account \<times> (nat \<times> real) option" where
  "reversion_algo_bar atr_multiplier st row =
     (if RSI row = None \<or> MACD_diff row = None \<or> ATR row = None then Inr (st, None)
      else
        case reversion_body atr_multiplier (Date row) (Close row)
               (the (RSI row)) (the (MACD_diff row)) (the (ATR row)) st of
          Inl e \<Rightarrow> Inl e
        | Inr (st', asset_value) \<Rightarrow> Inr (st', Some (Date row, asset_value)))"

definition dynamic_reversion_algo_bar ::
  "account \<Rightarrow> row \<Rightarrow> error + account \<times> (nat \<times> real) option" where
  "dynamic_reversion_algo_bar st row =
     (if RSI row = None \<or> MACD_diff row = None \<or> ATR row = None then Inr (st, None)
      else
        let atr_multiplier = (if nan_gt (ATR_short row) (ATR_long row) then 2 else 15 / 10)
        in case reversion_body atr_multiplier (Date row) (Close row)
                  (the (RSI row)) (the (MACD_diff row)) (the (ATR row)) st of
             Inl e \<Rightarrow> Inl e
           | Inr (st', asset_value) \<Rightarrow> Inr (st', Some (Date row, asset_value)))"

section \<open>The two-strategy functions (\<^verbatim>\<open>algo\<close>, \<^verbatim>\<open>dynamic_algo\<close> of \<^verbatim>\<open>backtest.py\<close>)\<close>

text \<open>The shared cash, \<^verbatim>\<open>holdings_momentum\<close> and \<^verbatim>\<open>holdings_reversion\<close>.\<close>

type_synonym hybrid_account = "real \<times> position list \<times> position list"

text \<open>
  The reversion exits of \<^verbatim>\<open>backtest.py\<close> (lines 109 to 118 and 274 to 283): here a
  SHORT leaves when the RSI is at least 50.
\<close>

definition hybrid_reversion_exit_cond :: "real \<Rightarrow> real \<Rightarrow> real \<Rightarrow> position \<Rightarrow> bool" where
  "hybrid_reversion_exit_cond cur_price rsi macd_diff position =
     (case pos_type position of
        LONG \<Rightarrow>
          take_profit position \<le> cur_price \<or> cur_price \<le> stop_loss position \<or>
          50 \<le> rsi \<or> macd_diff < 0
      | SHORT \<Rightarrow>
          cur_price \<le> take_profit position \<or> stop_loss position \<le> cur_price \<or>
          50 \<le> rsi \<or> 0 < macd_diff)"

text \<open>
  The two exit loops, momentum first (\<^verbatim>\<open>backtest.py\<close> lines 90 to 118): both book
  into the same cash.
\<close>

definition hybrid_exits ::
  "int \<Rightarrow> real \<Rightarrow> real \<Rightarrow> real \<Rightarrow> real \<Rightarrow> real \<Rightarrow> hybrid_account \<Rightarrow> hybrid_account" where
  "hybrid_exits momentum_rsi_threshold cur_price rsi_mom macd_diff_mom rsi_rev macd_diff_rev st =
     (case st of (cash, holdings_momentum, holdings_reversion) \<Rightarrow>
        case close_positions
               (momentum_exit_cond momentum_rsi_threshold cur_price rsi_mom macd_diff_mom)
               cur_price holdings_momentum (cash, holdings_momentum) of
          (cash1, holdings_momentum1) \<Rightarrow>
            case close_positions (hybrid_reversion_exit_cond cur_price rsi_rev macd_diff_rev)
                   cur_price holdings_reversion (cash1, holdings_reversion) of
              (cash2, holdings_reversion1) \<Rightarrow> (cash2, holdings_momentum1, holdings_reversion1))"

text \<open>
  The momentum entry of \<^verbatim>\<open>backtest.py\<close> (lines 128 to 142 and 293 to 307). The
  quantity of the SHORT entry is the floor itself.
\<close>

definition hybrid_momentum_entry ::
  "int \<Rightarrow> real \<Rightarrow> nat \<Rightarrow> real \<Rightarrow> real \<Rightarrow> real \<Rightarrow> real \<Rightarrow> real \<Rightarrow> account \<Rightarrow> error + account" where
  "hybrid_momentum_entry momentum_rsi_threshold momentum_atr_multiplier date cur_price
       rsi_mom macd_diff_mom atr_mom available_cash st =
     (case st of (cash, holdings_momentum) \<Rightarrow>
        if holdings_momentum = [] then
          if 0 < macd_diff_mom \<and> 50 < rsi_mom \<and> rsi_mom < of_int (100 - momentum_rsi_threshold) then
            (case floor_quantity available_cash cur_price of
               Inl e \<Rightarrow> Inl e
             | Inr qty \<Rightarrow> Inr (open_long date cur_price atr_mom momentum_atr_multiplier qty st))
          else if macd_diff_mom < 0 \<and> of_int momentum_rsi_threshold < rsi_mom \<and> rsi_mom < 50 then
            (case floor_quantity available_cash cur_price of
               Inl e \<Rightarrow> Inl e
             | Inr qty \<Rightarrow> Inr (open_short date cur_price atr_mom momentum_atr_multiplier qty st))
          else Inr st
        else Inr st)"

text \<open>
  The reversion entry of \<^verbatim>\<open>backtest.py\<close> (lines 145 to 159 and 310 to 324), with
  the cap of 3 on the SHORT quantity.
\<close>

definition hybrid_reversion_entry ::
  "real \<Rightarrow> nat \<Rightarrow> real \<Rightarrow> real \<Rightarrow> real \<Rightarrow> real \<Rightarrow> real \<Rightarrow> account \<Rightarrow> error + account" where
  "hybrid_reversion_entry reversion_atr_multiplier date cur_price rsi_rev macd_diff_rev atr_rev
       available_cash st =
     (case st of (cash, holdings_reversion) \<Rightarrow>
        if holdings_reversion = [] then
          if 0 < macd_diff_rev \<and> rsi_rev < 30 then
            (case floor_quantity available_cash cur_price of
               Inl e \<Rightarrow> Inl e
             | Inr qty \<Rightarrow> Inr (open_long date cur_price atr_rev reversion_atr_multiplier qty st))
          else if macd_diff_rev < 0 \<and> 70 < rsi_rev then
            (case floor_quantity available_cash cur_price of
               Inl e \<Rightarrow> Inl e
             | Inr qty \<Rightarrow>
                 Inr (open_short date cur_price atr_rev reversion_atr_multiplier (min qty 3) st))
          else Inr st
        else Inr st)"

text \<open>
  The two entry blocks (\<^verbatim>\<open>backtest.py\<close> lines 126 to 159). \<^verbatim>\<open>available_cash\<close> is
  half of the cash after the exits; it is computed once, so the reversion entry sizes
  with the same amount after a momentum entry has moved the cash.
\<close>

definition hybrid_entries ::
  "int \<Rightarrow> real \<Rightarrow> real \<Rightarrow> nat \<Rightarrow> real \<Rightarrow> real \<Rightarrow> real \<Rightarrow> real \<Rightarrow> real \<Rightarrow> real \<Rightarrow> real
     \<Rightarrow> hybrid_account \<Rightarrow> error + hybrid_account" where
  "hybrid_entries momentum_rsi_threshold momentum_atr_multiplier reversion_atr_multiplier date
       cur_price rsi_mom macd_diff_mom atr_mom rsi_rev macd_diff_rev atr_rev st =
     (case st of (cash, holdings_momentum, holdings_reversion) \<Rightarrow>
        let available_cash = cash / 2
        in case hybrid_momentum_entry momentum_rsi_threshold momentum_atr_multiplier date
                  cur_price rsi_mom macd_diff_mom atr_mom available_cash
                  (cash, holdings_momentum) of
             Inl e \<Rightarrow> Inl e
           | Inr (cash1, holdings_momentum1) \<Rightarrow>
               (case hybrid_reversion_entry reversion_atr_multiplier date cur_price rsi_rev
                       macd_diff_rev atr_rev available_cash (cash1, holdings_reversion) of
                  Inl e \<Rightarrow> Inl e
                | Inr (cash2, holdings_reversion1) \<Rightarrow>
                    Inr (cash2, holdings_momentum1, holdings_reversion1)))"

text \<open>The loop body, \<^verbatim>\<open>backtest.py\<close> lines 90 to 159 and 255 to 324.\<close>

definition hybrid_body ::
  "int \<Rightarrow> real \<Rightarrow> real \<Rightarrow> nat \<Rightarrow> real \<Rightarrow> real \<Rightarrow> real \<Rightarrow> real \<Rightarrow> real \<Rightarrow> real \<Rightarrow> real
     \<Rightarrow> hybrid_account \<Rightarrow> error + hybrid_account \<times> real" where
  "hybrid_body momentum_rsi_threshold momentum_atr_multiplier reversion_atr_multiplier date
       cur_price rsi_mom macd_diff_mom atr_mom rsi_rev macd_diff_rev atr_rev st =
     (let st1 = hybrid_exits momentum_rsi_threshold cur_price rsi_mom macd_diff_mom rsi_rev
                  macd_diff_rev st;
          asset_value = fst st1 + total_unrealized cur_price (fst (snd st1) @ snd (snd st1))
      in case hybrid_entries momentum_rsi_threshold momentum_atr_multiplier
                reversion_atr_multiplier date cur_price rsi_mom macd_diff_mom atr_mom rsi_rev
                macd_diff_rev atr_rev st1 of
           Inl e \<Rightarrow> Inl e
         | Inr st2 \<Rightarrow> Inr (st2, asset_value))"

definition hrow_undefined :: "hrow \<Rightarrow> bool" where
  "hrow_undefined row =
     (RSI_mom row = None \<or> MACD_diff_mom row = None \<or> ATR_mom row = None \<or>
      RSI_rev row = None \<or> MACD_diff_rev row = None \<or> ATR_rev row = None)"

definition algo_bar ::
  "int \<Rightarrow> real \<Rightarrow> real \<Rightarrow> hybrid_account \<Rightarrow> hrow
     \<Rightarrow> error + hybrid_account \<times> (nat \<times> real) option" where
  "algo_bar momentum_rsi_threshold momentum_atr_multiplier reversion_atr_multiplier st row =
     (if hrow_undefined row then Inr (st, None)
      else
        case hybrid_body momentum_rsi_threshold momentum_atr_multiplier
               reversion_atr_multiplier (Date row) (Close row)
               (the (RSI_mom row)) (the (MACD_diff_mom row)) (the (ATR_mom row))
               (the (RSI_rev row)) (the (MACD_diff_rev row)) (the (ATR_rev row)) st of
          Inl e \<Rightarrow> Inl e
        | Inr (st', asset_value) \<Rightarrow> Inr (st', Some (Date row, asset_value)))"

text \<open>
  \<^verbatim>\<open>dynamic_algo\<close> sets the two multipliers on each processed row; both branches
  of the momentum one give 2.
\<close>

definition dynamic_algo_bar ::
  "int \<Rightarrow> hybrid_account \<Rightarrow> hrow \<Rightarrow> error + hybrid_account \<times> (nat \<times> real) option" where
  "dynamic_algo_bar momentum_rsi_threshold st row =
     (if hrow_undefined row then Inr (st, None)
      else
        let momentum_atr_multiplier =
              (if nan_gt (ATR_mom_short row) (ATR_mom_long row) then 2 else 2);
            reversion_atr_multiplier =
              (if nan_gt (ATR_rev_short row) (ATR_rev_long row) then 2 else 15 / 10)
        in case hybrid_body momentum_rsi_threshold momentum_atr_multiplier
                  reversion_atr_multiplier (Date row) (Close row)
                  (the (RSI_mom row)) (the (MACD_diff_mom row)) (the (ATR_mom row))
                  (the (RSI_rev row)) (the (MACD_diff_rev row)) (the (ATR_rev row)) st of
             Inl e \<Rightarrow> Inl e
           | Inr (st', asset_value) \<Rightarrow> Inr (st', Some (Date row, asset_value)))"

section \<open>The loop over the rows and the output table\<close>

text \<open>
  \<^verbatim>\<open>trading_data.loc[date, 'Asset'] = v\<close>: every row labelled \<open>date\<close> takes the
  value.
\<close>

definition loc_set :: "nat list \<Rightarrow> nat \<Rightarrow> real \<Rightarrow> real list \<Rightarrow> real list" where
  "loc_set index date v column = map (\<lambda>(d, a). if d = date then v else a) (zip index column)"

text \<open>
  The loop \<^verbatim>\<open>for i in range(1, len(data))\<close> over the rows it visits, with the
  iteration \<open>bar\<close> of one of the six functions; an exception ends the run.
\<close>

fun bar_loop ::
  "('s \<Rightarrow> 'r \<Rightarrow> error + 's \<times> (nat \<times> real) option) \<Rightarrow> nat list \<Rightarrow> 'r list
     \<Rightarrow> 's \<times> real list \<Rightarrow> error + 's \<times> real list" where
  "bar_loop bar index [] (st, asset) = Inr (st, asset)"
| "bar_loop bar index (row # rows) (st, asset) =
     (case bar st row of
        Inl e \<Rightarrow> Inl e
      | Inr (st', None) \<Rightarrow> bar_loop bar index rows (st', asset)
      | Inr (st', Some (date, v)) \<Rightarrow> bar_loop bar index rows (st', loc_set index date v asset))"

text \<open>
  \<^verbatim>\<open>Series.pct_change()\<close>: undefined at the first row, then the relative change.
  After a zero value the float quotient is infinite or NaN; the model has no value for
  it and leaves the entry undefined.
\<close>

fun pct_change_from :: "real \<Rightarrow> real list \<Rightarrow> real option list" where
  "pct_change_from prev [] = []"
| "pct_change_from prev (x # xs) =
     (if prev = 0 then None else Some (x / prev - 1)) # pct_change_from x xs"

definition pct_change :: "real list \<Rightarrow> real option list" where
  "pct_change xs = (case xs of [] \<Rightarrow> [] | x # rest \<Rightarrow> None # pct_change_from x rest)"

text \<open>
  A whole run: the asset column starts at \<^verbatim>\<open>ASSET_VALUE\<close> in every row, the loop
  starts at the second row with the initial cash and no holdings, and the return column
  is derived at the end.
\<close>

definition run ::
  "('s \<Rightarrow> 'r \<Rightarrow> error + 's \<times> (nat \<times> real) option) \<Rightarrow> 's \<Rightarrow> ('r \<Rightarrow> nat) \<Rightarrow> 'r list
     \<Rightarrow> error + trading_data" where
  "run bar init label data =
     (case bar_loop bar (map label data) (tl data)
             (init, replicate (length data) ASSET_VALUE) of
        Inl e \<Rightarrow> Inl e
      | Inr (st, asset) \<Rightarrow>
          Inr \<lparr>Index = map label data, Asset = asset, Return = pct_change asset\<rparr>)"

definition momentum_algo :: "row list \<Rightarrow> int \<Rightarrow> real \<Rightarrow> error + trading_data" where
  "momentum_algo data rsi_threshold atr_multiplier =
     run (momentum_algo_bar rsi_threshold atr_multiplier) (ASSET_VALUE, []) Date data"

definition dynamic_momentum_algo :: "row list \<Rightarrow> int \<Rightarrow> error + trading_data" where
  "dynamic_momentum_algo data rsi_threshold =
     run (dynamic_momentum_algo_bar rsi_threshold) (ASSET_VALUE, []) Date data"

definition reversion_algo :: "row list \<Rightarrow> real \<Rightarrow> error + trading_data" where
  "reversion_algo data atr_multiplier =
     run (reversion_algo_bar atr_multiplier) (ASSET_VALUE, []) Date data"

definition dynamic_reversion_algo :: "row list \<Rightarrow> error + trading_data" where
  "dynamic_reversion_algo data = run dynamic_reversion_algo_bar (ASSET_VALUE, []) Date data"

definition algo :: "hrow list \<Rightarrow> int \<Rightarrow> real \<Rightarrow> real \<Rightarrow> error + trading_data" where
  "algo data momentum_rsi_threshold momentum_atr_multiplier reversion_atr_multiplier =
     run (algo_bar momentum_rsi_threshold momentum_atr_multiplier reversion_atr_multiplier)
       (ASSET_VALUE, [], []) Date data"

definition dynamic_algo :: "hrow list \<Rightarrow> int \<Rightarrow> error + trading_data" where
  "dynamic_algo data momentum_rsi_threshold =
     run (dynamic_algo_bar momentum_rsi_threshold) (ASSET_VALUE, [], []) Date data"

section \<open>The specification's wording and concrete inputs\<close>

text \<open>
  The downside deviation as the specification words it: the root of the mean of
  \<open>min(0, r - risk_free_rate)\<^sup>2\<close> over the returns.
\<close>

definition downside_deviation_spec :: "real list \<Rightarrow> real \<Rightarrow> real" where
  "downside_deviation_spec returns risk_free_rate =
     sqrt (mean (map (\<lambda>r. (min 0 (r - risk_free_rate)) ^ 2) returns))"

text \<open>A flat output table of four rows.\<close>

definition flat_table :: trading_data where
  "flat_table =
     \<lparr>Index = [0, 1, 2, 3],
      Asset = [ASSET_VALUE, ASSET_VALUE, ASSET_VALUE, ASSET_VALUE],
      Return = [None, Some 0, Some 0, Some 0]\<rparr>"

text \<open>A table with one loss of 3 percent followed by three gains of 1 percent.\<close>

definition sortino_table :: trading_data where
  "sortino_table =
     \<lparr>Index = [0, 1, 2, 3, 4],
      Asset = [100, 97, 9797 / 100, 989497 / 10000, 99939197 / 1000000],
      Return = [None, Some (- 3 / 100), Some (1 / 100), Some (1 / 100), Some (1 / 100)]\<rparr>"

text \<open>A table whose second period loses the whole capital.\<close>

definition wipeout_table :: trading_data where
  "wipeout_table =
     \<lparr>Index = [0, 1, 2], Asset = [100, 50, 0], Return = [None, Some (- 1 / 2), Some (- 1)]\<rparr>"

text \<open>The output table of a run over a single row.\<close>

definition single_row_table :: trading_data where
  "single_row_table = \<lparr>Index = [0], Asset = [ASSET_VALUE], Return = [None]\<rparr>"

text \<open>A table that gains 5 percent over two rows.\<close>

definition gain_table :: trading_data where
  "gain_table =
     \<lparr>Index = [0, 1], Asset = [ASSET_VALUE, 210000000], Return = [None, Some (5 / 100)]\<rparr>"

text \<open>
  The mark-to-market value of a position as the specification words it: the signed
  current notional, positive for a LONG and negative for a SHORT.
\<close>

definition mark_to_market :: "real \<Rightarrow> position \<Rightarrow> real" where
  "mark_to_market price pos =
     (case pos_type pos of
        LONG \<Rightarrow> price * price_multiplier * of_int (quantity pos)
      | SHORT \<Rightarrow> - (price * price_multiplier * of_int (quantity pos)))"

text \<open>
  The states the loop of a run can be in between two rows: the initial state, and every
  state that an iteration \<open>bar\<close> reaches from such a state without raising.
\<close>

inductive reachable :: "('s \<Rightarrow> 'r \<Rightarrow> error + 's \<times> (nat \<times> real) option) \<Rightarrow> 's \<Rightarrow> 's \<Rightarrow> bool"
  for bar :: "'s \<Rightarrow> 'r \<Rightarrow> error + 's \<times> (nat \<times> real) option" and init :: 's where
  reachable_init: "reachable bar init init"
| reachable_step: "reachable bar init st \<Longrightarrow> bar st row = Inr (st', out) \<Longrightarrow> reachable bar init st'"

text \<open>
  Concrete positions and rows: a LONG of 5 contracts entered at 100 from a cash of
  22000000, rows that keep it, rows on which the initial state enters, and the positions
  these entries and a same-row reopening create.
\<close>

definition long_pos :: position where
  "long_pos = \<lparr>entry_date = 1, pos_type = LONG, entry_price = 100, quantity = 5,
               stop_loss = 90, take_profit = 110\<rparr>"

definition entered_pos :: position where
  "entered_pos = \<lparr>entry_date = 1, pos_type = LONG, entry_price = 100, quantity = 45,
                  stop_loss = 90, take_profit = 110\<rparr>"

definition reopened_pos :: position where
  "reopened_pos = \<lparr>entry_date = 2, pos_type = LONG, entry_price = 120, quantity = 4,
                   stop_loss = 110, take_profit = 130\<rparr>"

definition hold_row :: row where
  "hold_row = \<lparr>Date = 2, Close = 105, MACD_diff = Some 1, RSI = Some 40, ATR = Some 5,
               ATR_short = Some 6, ATR_long = Some 5\<rparr>"

definition hybrid_hold_row :: hrow where
  "hybrid_hold_row =
     \<lparr>Date = 2, Close = 105,
      MACD_diff_mom = Some 1, RSI_mom = Some 40, ATR_mom = Some 5,
      ATR_mom_short = Some 6, ATR_mom_long = Some 5,
      MACD_diff_rev = Some 1, RSI_rev = Some 40, ATR_rev = Some 5,
      ATR_rev_short = Some 6, ATR_rev_long = Some 5\<rparr>"

definition entry_row :: row where
  "entry_row = \<lparr>Date = 1, Close = 100, MACD_diff = Some 1, RSI = Some 60, ATR = Some 5,
                ATR_short = Some 6, ATR_long = Some 5\<rparr>"

definition reversion_entry_row :: row where
  "reversion_entry_row = \<lparr>Date = 1, Close = 100, MACD_diff = Some 1, RSI = Some 20, ATR = Some 5,
                ATR_short = Some 6, ATR_long = Some 5\<rparr>"

definition hybrid_entry_row :: hrow where
  "hybrid_entry_row =
     \<lparr>Date = 1, Close = 100,
      MACD_diff_mom = Some 1, RSI_mom = Some 60, ATR_mom = Some 5,
      ATR_mom_short = Some 6, ATR_mom_long = Some 5,
      MACD_diff_rev = Some 1, RSI_rev = Some 20, ATR_rev = Some 5,
      ATR_rev_short = Some 6, ATR_rev_long = Some 5\<rparr>"

definition hybrid_short_row :: hrow where
  "hybrid_short_row =
     \<lparr>Date = 1, Close = 400,
      MACD_diff_mom = Some (- 1), RSI_mom = Some 40, ATR_mom = Some 5,
      ATR_mom_short = Some 6, ATR_mom_long = Some 5,
      MACD_diff_rev = Some (- 1), RSI_rev = Some 75, ATR_rev = Some 5,
      ATR_rev_short = Some 6, ATR_rev_long = Some 5\<rparr>"

text \<open>
  A row on which both strategies enter a SHORT at 400, its single-strategy counterpart,
  and the positions the entries create from the initial cash.
\<close>

definition uncapped_short :: position where
  "uncapped_short = \<lparr>entry_date = 1, pos_type = SHORT, entry_price = 400, quantity = 11,
                     stop_loss = 410, take_profit = 390\<rparr>"

definition capped_short :: position where
  "capped_short = \<lparr>entry_date = 1, pos_type = SHORT, entry_price = 400, quantity = 3,
                   stop_loss = 410, take_profit = 390\<rparr>"

definition short_row :: row where
  "short_row = \<lparr>Date = 1, Close = 400, MACD_diff = Some (- 1), RSI = Some 40, ATR = Some 5,
                ATR_short = Some 6, ATR_long = Some 5\<rparr>"

text \<open>First rows of a table: the indicators are still undefined.\<close>

definition first_row :: row where
  "first_row = \<lparr>Date = 0, Close = 100, MACD_diff = None, RSI = None, ATR = None,
                ATR_short = None, ATR_long = None\<rparr>"

definition hybrid_first_row :: hrow where
  "hybrid_first_row =
     \<lparr>Date = 0, Close = 100,
      MACD_diff_mom = None, RSI_mom = None, ATR_mom = None,
      ATR_mom_short = None, ATR_mom_long = None,
      MACD_diff_rev = None, RSI_rev = None, ATR_rev = None,
      ATR_rev_short = None, ATR_rev_long = None\<rparr>"

text \<open>
  The output table of a run that holds 5 contracts from a close of 900 to a close of
  900.6: the percentage is 0.0328125, a tie in the sixth decimal.
\<close>

definition tie_table :: trading_data where
  "tie_table =
     \<lparr>Index = [0, 1, 2], Asset = [ASSET_VALUE, ASSET_VALUE, 200065625],
      Return = [None, Some 0, Some (21 / 64000)]\<rparr>"

text \<open>The output tables of the runs over three rows evaluated below.\<close>

definition single_run_table :: trading_data where
  "single_run_table =
     \<lparr>Index = [0, 1, 2], Asset = [200000000, 200000000, 204921875],
      Return = [None, Some 0, Some (63 / 2560)]\<rparr>"

definition hybrid_run_table :: trading_data where
  "hybrid_run_table =
     \<lparr>Index = [0, 1, 2], Asset = [200000000, 200000000, 209843750],
      Return = [None, Some 0, Some (63 / 1280)]\<rparr>"

section \<open>Properties of the metrics\<close>

lemma ldd_loop_zeros:
  "\<forall>r \<in> set xs. r = 0 \<Longrightarrow> 0 \<le> ldd \<Longrightarrow> ldd_loop xs c c 0 ldd = ldd"
  by (induction xs arbitrary: ldd) (simp_all add: Let_def)

text \<open>
  Claim C5, as the code has it. On a return series that is not empty and all zeros,
  \<open>longest_drawdown\<close> returns 0: a period that ends level with the peak counts as
  reaching it (the test is \<^verbatim>\<open>cur_asset >= peak\<close>), so no period is counted as a
  drawdown.
\<close>

theorem longest_drawdown_flat:
  assumes "dropna (Return d) \<noteq> []" and "\<forall>r \<in> set (dropna (Return d)). r = 0"
  shows "longest_drawdown d = Inr 0"
proof -
  have "- 1 \<notin> set (dropna (Return d))"
    using assms(2) by fastforce
  with assms show ?thesis
    by (simp add: longest_drawdown_def Let_def ldd_loop_zeros)
qed

theorem longest_drawdown_flat_witness:
  "dropna (Return flat_table) \<noteq> [] \<and> longest_drawdown flat_table = Inr 0"
  using longest_drawdown_flat [of flat_table] by (simp add: flat_table_def)

text \<open>
  The claim as the specification states it (the full length of the series) fails on the
  flat table: its dropped return series has three zeros and the result is 0, not 3.
\<close>

theorem longest_drawdown_flat_counterexample:
  "dropna (Return flat_table) = [0, 0, 0] \<and>
   longest_drawdown flat_table = Inr 0 \<and>
   longest_drawdown flat_table \<noteq> Inr (int (length (dropna (Return flat_table))))"
  by (simp add: flat_table_def longest_drawdown_def Let_def)

text \<open>
  Claim C6. \<open>maximum_drawdown\<close> and \<open>longest_drawdown\<close> raise exactly when the dropped
  return series is empty or holds the value -1, the first error on an empty series and
  the second on a series with -1; on every other input they return. \<open>sharpe_ratio\<close> and
  \<open>sortino_ratio\<close> never raise the error of the lost capital: they raise exactly when
  the series is empty.
\<close>

theorem drawdown_errors:
  "(maximum_drawdown d = Inl PeriodReturnsEmpty \<longleftrightarrow> dropna (Return d) = []) \<and>
   (maximum_drawdown d = Inl AllCapitalLost
      \<longleftrightarrow> dropna (Return d) \<noteq> [] \<and> - 1 \<in> set (dropna (Return d))) \<and>
   ((\<exists>e. maximum_drawdown d = Inl e)
      \<longleftrightarrow> dropna (Return d) = [] \<or> - 1 \<in> set (dropna (Return d))) \<and>
   (longest_drawdown d = Inl PeriodReturnsEmpty \<longleftrightarrow> dropna (Return d) = []) \<and>
   (longest_drawdown d = Inl AllCapitalLost
      \<longleftrightarrow> dropna (Return d) \<noteq> [] \<and> - 1 \<in> set (dropna (Return d))) \<and>
   ((\<exists>e. longest_drawdown d = Inl e)
      \<longleftrightarrow> dropna (Return d) = [] \<or> - 1 \<in> set (dropna (Return d))) \<and>
   sharpe_ratio d rf \<noteq> Inl AllCapitalLost \<and>
   sortino_ratio d rf \<noteq> Inl AllCapitalLost \<and>
   ((\<exists>e. sharpe_ratio d rf = Inl e) \<longleftrightarrow> dropna (Return d) = []) \<and>
   ((\<exists>e. sortino_ratio d rf = Inl e) \<longleftrightarrow> dropna (Return d) = [])"
  by (auto simp: maximum_drawdown_def longest_drawdown_def sharpe_ratio_def sortino_ratio_def
        Let_def split: option.splits)

theorem drawdown_errors_witness:
  "maximum_drawdown wipeout_table = Inl AllCapitalLost \<and>
   longest_drawdown wipeout_table = Inl AllCapitalLost \<and>
   (\<nexists>e. sharpe_ratio wipeout_table default_risk_free_return = Inl e) \<and>
   (\<nexists>e. sortino_ratio wipeout_table default_risk_free_return = Inl e) \<and>
   maximum_drawdown single_row_table = Inl PeriodReturnsEmpty \<and>
   (\<nexists>e. maximum_drawdown gain_table = Inl e) \<and>
   (\<nexists>e. longest_drawdown gain_table = Inl e)"
  using drawdown_errors [of wipeout_table default_risk_free_return]
    drawdown_errors [of single_row_table default_risk_free_return]
    drawdown_errors [of gain_table default_risk_free_return]
  by (simp add: wipeout_table_def single_row_table_def gain_table_def)

lemma downside_risk_spec: "downside_risk rs rf = downside_deviation_spec rs rf"
proof -
  have "(\<lambda>val. if rf < val then 0 else (val - rf) ^ 2) = (\<lambda>r. (min 0 (r - rf)) ^ 2)"
    by (rule ext) (simp add: min_def)
  then show ?thesis
    by (simp add: downside_risk_def downside_deviation_spec_def)
qed

lemma sortino_ratio_unfold:
  "sortino_ratio d rf =
     (if dropna (Return d) = [] then Inl PeriodReturnsEmpty
      else if downside_deviation_spec (dropna (Return d)) rf = 0 then Inr 0
      else Inr (py_round ((sqrt 252 * mean (dropna (Return d)) - rf)
                           / downside_deviation_spec (dropna (Return d)) rf) 6))"
  by (simp add: sortino_ratio_def Let_def downside_risk_spec)

text \<open>
  Claim C7, as the code has it. \<open>sortino_ratio\<close> fails on an empty dropped return
  series; otherwise it is 0 when the downside deviation is 0, and else the quotient
  \<open>(sqrt 252 * mean returns - risk_free_rate) / downside_deviation\<close> rounded to 6
  decimal places. The downside deviation compares each return with the annual rate as
  it is.
\<close>

theorem sortino_ratio_rounded:
  "sortino_ratio d rf =
     (if dropna (Return d) = [] then Inl PeriodReturnsEmpty
      else if downside_deviation_spec (dropna (Return d)) rf = 0 then Inr 0
      else Inr (py_round ((sqrt 252 * mean (dropna (Return d)) - rf)
                           / downside_deviation_spec (dropna (Return d)) rf) 6))"
  by (rule sortino_ratio_unfold)

lemma sortino_table_deviation:
  "downside_deviation_spec (dropna (Return sortino_table)) (5 / 1000) = 175 / 10000"
proof -
  have "downside_deviation_spec (dropna (Return sortino_table)) (5 / 1000)
          = sqrt ((175 / 10000) ^ 2)"
    by (simp add: downside_deviation_spec_def sortino_table_def mean_def power2_eq_square)
  then show ?thesis by (simp del: power_divide)
qed

text \<open>
  The claim as the specification states it (the quotient itself) fails on
  \<open>sortino_table\<close> with the rate 0.005: the quotient is \<open>- 2 / 7\<close> and the function
  returns \<open>- 0.285714\<close>.
\<close>

theorem sortino_ratio_counterexample:
  "dropna (Return sortino_table) \<noteq> [] \<and>
   downside_deviation_spec (dropna (Return sortino_table)) (5 / 1000) \<noteq> 0 \<and>
   (sqrt 252 * mean (dropna (Return sortino_table)) - 5 / 1000)
      / downside_deviation_spec (dropna (Return sortino_table)) (5 / 1000) = - 2 / 7 \<and>
   sortino_ratio sortino_table (5 / 1000) = Inr (- 285714 / 1000000) \<and>
   sortino_ratio sortino_table (5 / 1000)
     \<noteq> Inr ((sqrt 252 * mean (dropna (Return sortino_table)) - 5 / 1000)
              / downside_deviation_spec (dropna (Return sortino_table)) (5 / 1000))"
proof -
  have m: "mean (dropna (Return sortino_table)) = 0"
    by (simp add: sortino_table_def mean_def)
  have ne: "dropna (Return sortino_table) \<noteq> []"
    by (simp add: sortino_table_def)
  have q: "(sqrt 252 * mean (dropna (Return sortino_table)) - 5 / 1000)
      / downside_deviation_spec (dropna (Return sortino_table)) (5 / 1000) = - 2 / 7"
    unfolding m sortino_table_deviation by simp
  have r: "py_round (- 2 / 7) 6 = - 285714 / 1000000"
    by (simp add: py_round_def round_half_even_def Let_def)
  have nz: "downside_deviation_spec (dropna (Return sortino_table)) (5 / 1000) \<noteq> 0"
    unfolding sortino_table_deviation by simp
  have "sortino_ratio sortino_table (5 / 1000) = Inr (py_round (- 2 / 7) 6)"
    unfolding sortino_ratio_unfold q [symmetric] using ne nz by (simp only: if_False)
  then have s: "sortino_ratio sortino_table (5 / 1000) = Inr (- 285714 / 1000000)"
    by (simp only: r)
  have "sortino_ratio sortino_table (5 / 1000) \<noteq> Inr (- 2 / 7)"
    unfolding s by simp
  with ne nz q s show ?thesis by (simp only: simp_thms)
qed

lemma round_with_tie_near:
  "\<exists>k :: int. round_with_tie up x n = of_int k / 10 ^ n \<and>
      \<bar>of_int k / 10 ^ n - x\<bar> \<le> 5 / 10 ^ Suc n"
proof -
  define y where "y = x * 10 ^ n"
  define k :: int where
    "k = (if y - of_int \<lfloor>y\<rfloor> < 1 / 2 then \<lfloor>y\<rfloor>
          else if 1 / 2 < y - of_int \<lfloor>y\<rfloor> then \<lfloor>y\<rfloor> + 1
          else if up then \<lfloor>y\<rfloor> + 1 else \<lfloor>y\<rfloor>)"
  have r: "round_with_tie up x n = of_int k / 10 ^ n"
    by (simp add: round_with_tie_def Let_def k_def y_def)
  have "of_int \<lfloor>y\<rfloor> \<le> y" and "y < of_int \<lfloor>y\<rfloor> + 1"
    by linarith+
  then have near: "\<bar>of_int k - y\<bar> \<le> 1 / 2"
    by (auto simp: k_def)
  have "of_int k / 10 ^ n - x = (of_int k - y) / 10 ^ n"
    by (simp add: y_def diff_divide_distrib)
  then have "\<bar>of_int k / 10 ^ n - x\<bar> = \<bar>of_int k - y\<bar> / 10 ^ n"
    by (simp add: abs_divide)
  also have "\<dots> \<le> (1 / 2) / 10 ^ n"
    by (rule divide_right_mono) (use near in simp_all)
  also have "\<dots> = 5 / 10 ^ Suc n"
    by simp
  finally show ?thesis using r by blast
qed

lemma round_with_tie_zero: "round_with_tie up 0 n = 0"
  by (simp add: round_with_tie_def)

text \<open>
  Claim C10. On a table whose asset column is not empty, \<open>holding_period_returns\<close> raises
  no error; when the first asset value is not 0 (it is \<open>ASSET_VALUE\<close> in the output
  table of every run over distinct labels, see \<open>output_first_asset\<close> below) the result is
  \<open>(final / initial - 1) * 100\<close> rounded to 6 decimal places: a multiple of \<open>10 ^ -6\<close>
  at most half a unit of the sixth decimal away from it, whichever way a tie falls. On a
  table of a single row the result is 0, while the four other metrics fail there.
\<close>

theorem holding_period_returns_total:
  assumes "Asset d \<noteq> []"
  shows "(\<forall>e. holding_period_returns tie_up d \<noteq> Inl e) \<and>
         (hd (Asset d) \<noteq> 0 \<longrightarrow>
            (\<exists>k :: int.
               holding_period_returns tie_up d = Inr (Some (of_int k / 10 ^ 6)) \<and>
               \<bar>of_int k / 10 ^ 6 - (last (Asset d) / hd (Asset d) - 1) * 100\<bar>
                 \<le> 5 / 10 ^ 7)) \<and>
         (length (Asset d) = 1 \<and> hd (Asset d) \<noteq> 0 \<and> Return d = [None] \<longrightarrow>
            holding_period_returns tie_up d = Inr (Some 0) \<and>
            maximum_drawdown d = Inl PeriodReturnsEmpty \<and>
            longest_drawdown d = Inl PeriodReturnsEmpty \<and>
            sharpe_ratio d rf = Inl PeriodReturnsEmpty \<and>
            sortino_ratio d rf = Inl PeriodReturnsEmpty)"
proof (intro conjI)
  show "\<forall>e. holding_period_returns tie_up d \<noteq> Inl e"
    using assms by (simp add: holding_period_returns_def Let_def)
next
  show "hd (Asset d) \<noteq> 0 \<longrightarrow>
          (\<exists>k :: int.
             holding_period_returns tie_up d = Inr (Some (of_int k / 10 ^ 6)) \<and>
             \<bar>of_int k / 10 ^ 6 - (last (Asset d) / hd (Asset d) - 1) * 100\<bar>
               \<le> 5 / 10 ^ 7)"
  proof
    assume nz: "hd (Asset d) \<noteq> 0"
    from round_with_tie_near
      [of "tie_up (last (Asset d)) (hd (Asset d))"
          "(last (Asset d) / hd (Asset d) - 1) * 100" 6]
    obtain k :: int where
      "round_with_tie (tie_up (last (Asset d)) (hd (Asset d)))
         ((last (Asset d) / hd (Asset d) - 1) * 100) 6 = of_int k / 10 ^ 6"
      and "\<bar>of_int k / 10 ^ 6 - (last (Asset d) / hd (Asset d) - 1) * 100\<bar> \<le> 5 / 10 ^ Suc 6"
      by blast
    with assms nz show "\<exists>k :: int.
             holding_period_returns tie_up d = Inr (Some (of_int k / 10 ^ 6)) \<and>
             \<bar>of_int k / 10 ^ 6 - (last (Asset d) / hd (Asset d) - 1) * 100\<bar>
               \<le> 5 / 10 ^ 7"
      by (intro exI [of _ k]) (simp add: holding_period_returns_def Let_def)
  qed
next
  have single: "last xs = hd xs" if "length xs = 1" for xs :: "real list"
    using that by (cases xs) simp_all
  show "length (Asset d) = 1 \<and> hd (Asset d) \<noteq> 0 \<and> Return d = [None] \<longrightarrow>
            holding_period_returns tie_up d = Inr (Some 0) \<and>
            maximum_drawdown d = Inl PeriodReturnsEmpty \<and>
            longest_drawdown d = Inl PeriodReturnsEmpty \<and>
            sharpe_ratio d rf = Inl PeriodReturnsEmpty \<and>
            sortino_ratio d rf = Inl PeriodReturnsEmpty"
    using assms
    by (auto simp: holding_period_returns_def Let_def single round_with_tie_zero
          maximum_drawdown_def longest_drawdown_def sharpe_ratio_def sortino_ratio_def)
qed

theorem holding_period_returns_total_witness:
  "Asset single_row_table \<noteq> [] \<and>
   holding_period_returns (\<lambda>cur init. True) single_row_table = Inr (Some 0) \<and>
   maximum_drawdown single_row_table = Inl PeriodReturnsEmpty \<and>
   longest_drawdown single_row_table = Inl PeriodReturnsEmpty \<and>
   sharpe_ratio single_row_table default_risk_free_return = Inl PeriodReturnsEmpty \<and>
   sortino_ratio single_row_table default_risk_free_return = Inl PeriodReturnsEmpty \<and>
   Asset gain_table \<noteq> [] \<and> hd (Asset gain_table) \<noteq> 0 \<and>
   holding_period_returns (\<lambda>cur init. True) gain_table = Inr (Some 5) \<and>
   Asset tie_table \<noteq> [] \<and> hd (Asset tie_table) \<noteq> 0 \<and>
   (last (Asset tie_table) / hd (Asset tie_table) - 1) * 100 = 328125 / 10 ^ 7 \<and>
   holding_period_returns (\<lambda>cur init. True) tie_table = Inr (Some (32813 / 10 ^ 6)) \<and>
   holding_period_returns (\<lambda>cur init. False) tie_table = Inr (Some (32812 / 10 ^ 6)) \<and>
   \<bar>32813 / 10 ^ 6 - (328125 / 10 ^ 7 :: real)\<bar> \<le> 5 / 10 ^ 7 \<and>
   \<bar>32812 / 10 ^ 6 - (328125 / 10 ^ 7 :: real)\<bar> \<le> 5 / 10 ^ 7"
  using holding_period_returns_total
      [of single_row_table "\<lambda>cur init. True" default_risk_free_return]
    holding_period_returns_total [of gain_table "\<lambda>cur init. True" default_risk_free_return]
    holding_period_returns_total [of tie_table "\<lambda>cur init. True" default_risk_free_return]
    holding_period_returns_total [of tie_table "\<lambda>cur init. False" default_risk_free_return]
  by (simp add: single_row_table_def gain_table_def tie_table_def ASSET_VALUE_def
        holding_period_returns_def round_with_tie_def Let_def)

section \<open>Properties of the simulation\<close>

subsection \<open>The exit loop and the entry blocks\<close>

lemma total_unrealized_mark:
  "total_unrealized p hs = (\<Sum>pos\<leftarrow>hs. mark_to_market p pos)"
proof -
  have "(\<lambda>pos. if pos_type pos = LONG then p * price_multiplier * of_int (quantity pos)
                else - p * price_multiplier * of_int (quantity pos)) = mark_to_market p"
    by (rule ext) (simp add: mark_to_market_def split: pos_type.splits)
  then show ?thesis by (simp add: total_unrealized_def)
qed

lemma close_positions_length:
  "length (snd (close_positions c p snap st)) \<le> length (snd st)"
proof (induction snap arbitrary: st)
  case Nil
  then show ?case by (cases st) simp
next
  case (Cons pos snap)
  obtain cash hs where st: "st = (cash, hs)" by (cases st)
  have r: "length (remove1 pos hs) \<le> length hs"
    by (simp add: length_remove1)
  show ?case
    unfolding st using Cons.IH [of "(cash, hs)"]
      Cons.IH [of "(cash + (of_int (quantity pos) * p * price_multiplier - of_int (quantity pos) * TAX * MULTIPLIER), remove1 pos hs)"]
      Cons.IH [of "(cash - (of_int (quantity pos) * p * price_multiplier + of_int (quantity pos) * TAX * MULTIPLIER), remove1 pos hs)"] r
    by (auto split: pos_type.splits)
qed

text \<open>
  An entry moves the cash by the notional of the position it opens, so at the entry price
  it leaves the sum of cash and unrealized term as it was.
\<close>

lemma open_long_value:
  "fst (open_long d p atr m q st) + total_unrealized p (snd (open_long d p atr m q st))
     = fst st + total_unrealized p (snd st)"
  by (cases st) (simp add: open_long_def total_unrealized_def algebra_simps)

lemma open_short_value:
  "fst (open_short d p atr m q st) + total_unrealized p (snd (open_short d p atr m q st))
     = fst st + total_unrealized p (snd st)"
  by (cases st) (simp add: open_short_def total_unrealized_def algebra_simps)

lemma open_long_length:
  "snd st = [] \<Longrightarrow> length (snd (open_long d p atr m q st)) \<le> Suc 0"
  by (cases st) (simp add: open_long_def)

lemma open_short_length:
  "snd st = [] \<Longrightarrow> length (snd (open_short d p atr m q st)) \<le> Suc 0"
  by (cases st) (simp add: open_short_def)

lemma momentum_entry_value:
  assumes "momentum_entry thr m d p rsi macd atr st = Inr st'"
  shows "fst st' + total_unrealized p (snd st') = fst st + total_unrealized p (snd st)"
  using assms
  by (cases st) (auto simp: momentum_entry_def open_long_value open_short_value
        split: if_splits sum.splits)

lemma momentum_entry_length:
  assumes "momentum_entry thr m d p rsi macd atr st = Inr st'" and "length (snd st) \<le> 1"
  shows "length (snd st') \<le> 1"
  using assms
  by (cases st) (auto simp: momentum_entry_def open_long_length open_short_length
        split: if_splits sum.splits)

lemma reversion_entry_value:
  assumes "reversion_entry m d p rsi macd atr st = Inr st'"
  shows "fst st' + total_unrealized p (snd st') = fst st + total_unrealized p (snd st)"
  using assms
  by (cases st) (auto simp: reversion_entry_def open_long_value open_short_value
        split: if_splits sum.splits)

lemma reversion_entry_length:
  assumes "reversion_entry m d p rsi macd atr st = Inr st'" and "length (snd st) \<le> 1"
  shows "length (snd st') \<le> 1"
  using assms
  by (cases st) (auto simp: reversion_entry_def open_long_length open_short_length
        split: if_splits sum.splits)

lemma hybrid_momentum_entry_value:
  assumes "hybrid_momentum_entry thr m d p rsi macd atr avail st = Inr st'"
  shows "fst st' + total_unrealized p (snd st') = fst st + total_unrealized p (snd st)"
  using assms
  by (cases st) (auto simp: hybrid_momentum_entry_def open_long_value open_short_value
        split: if_splits sum.splits)

lemma hybrid_momentum_entry_length:
  assumes "hybrid_momentum_entry thr m d p rsi macd atr avail st = Inr st'"
    and "length (snd st) \<le> 1"
  shows "length (snd st') \<le> 1"
  using assms
  by (cases st) (auto simp: hybrid_momentum_entry_def open_long_length open_short_length
        split: if_splits sum.splits)

lemma hybrid_reversion_entry_value:
  assumes "hybrid_reversion_entry m d p rsi macd atr avail st = Inr st'"
  shows "fst st' + total_unrealized p (snd st') = fst st + total_unrealized p (snd st)"
  using assms
  by (cases st) (auto simp: hybrid_reversion_entry_def open_long_value open_short_value
        split: if_splits sum.splits)

lemma hybrid_reversion_entry_length:
  assumes "hybrid_reversion_entry m d p rsi macd atr avail st = Inr st'"
    and "length (snd st) \<le> 1"
  shows "length (snd st') \<le> 1"
  using assms
  by (cases st) (auto simp: hybrid_reversion_entry_def open_long_length open_short_length
        split: if_splits sum.splits)

lemma total_unrealized_append:
  "total_unrealized p (xs @ ys) = total_unrealized p xs + total_unrealized p ys"
  by (simp add: total_unrealized_def)

lemma hybrid_entries_value:
  assumes "hybrid_entries thr m1 m2 d p rsi_m macd_m atr_m rsi_r macd_r atr_r st = Inr st'"
  shows "fst st' + total_unrealized p (fst (snd st') @ snd (snd st'))
           = fst st + total_unrealized p (fst (snd st) @ snd (snd st))"
proof -
  obtain cash hm hr where st: "st = (cash, hm, hr)" by (cases st)
  from assms obtain cash1 hm1 where
    m: "hybrid_momentum_entry thr m1 d p rsi_m macd_m atr_m (cash / 2) (cash, hm) = Inr (cash1, hm1)"
    unfolding st by (auto simp: hybrid_entries_def Let_def split: sum.splits)
  from assms m obtain cash2 hr1 where
    r: "hybrid_reversion_entry m2 d p rsi_r macd_r atr_r (cash / 2) (cash1, hr) = Inr (cash2, hr1)"
    and st': "st' = (cash2, hm1, hr1)"
    unfolding st by (auto simp: hybrid_entries_def Let_def split: sum.splits)
  from hybrid_momentum_entry_value [OF m] hybrid_reversion_entry_value [OF r]
  show ?thesis
    unfolding st st' by (simp add: total_unrealized_append)
qed

lemma hybrid_entries_length:
  assumes "hybrid_entries thr m1 m2 d p rsi_m macd_m atr_m rsi_r macd_r atr_r st = Inr st'"
    and "length (fst (snd st)) \<le> 1" and "length (snd (snd st)) \<le> 1"
  shows "length (fst (snd st')) \<le> 1 \<and> length (snd (snd st')) \<le> 1"
proof -
  obtain cash hm hr where st: "st = (cash, hm, hr)" by (cases st)
  from assms(1) obtain cash1 hm1 where
    m: "hybrid_momentum_entry thr m1 d p rsi_m macd_m atr_m (cash / 2) (cash, hm) = Inr (cash1, hm1)"
    unfolding st by (auto simp: hybrid_entries_def Let_def split: sum.splits)
  from assms(1) m obtain cash2 hr1 where
    r: "hybrid_reversion_entry m2 d p rsi_r macd_r atr_r (cash / 2) (cash1, hr) = Inr (cash2, hr1)"
    and st': "st' = (cash2, hm1, hr1)"
    unfolding st by (auto simp: hybrid_entries_def Let_def split: sum.splits)
  from hybrid_momentum_entry_length [OF m] hybrid_reversion_entry_length [OF r] assms(2,3)
  show ?thesis
    unfolding st st' by simp
qed

lemma hybrid_exits_length:
  "length (fst (snd (hybrid_exits thr p rsi_m macd_m rsi_r macd_r st))) \<le> length (fst (snd st)) \<and>
   length (snd (snd (hybrid_exits thr p rsi_m macd_m rsi_r macd_r st))) \<le> length (snd (snd st))"
proof -
  obtain cash hm hr where st: "st = (cash, hm, hr)" by (cases st)
  obtain cash1 hm1 where
    m: "close_positions (momentum_exit_cond thr p rsi_m macd_m) p hm (cash, hm) = (cash1, hm1)"
    by (cases "close_positions (momentum_exit_cond thr p rsi_m macd_m) p hm (cash, hm)")
  obtain cash2 hr1 where
    r: "close_positions (hybrid_reversion_exit_cond p rsi_r macd_r) p hr (cash1, hr) = (cash2, hr1)"
    by (cases "close_positions (hybrid_reversion_exit_cond p rsi_r macd_r) p hr (cash1, hr)")
  from close_positions_length [of "momentum_exit_cond thr p rsi_m macd_m" p hm "(cash, hm)"]
    close_positions_length [of "hybrid_reversion_exit_cond p rsi_r macd_r" p hr "(cash1, hr)"]
  show ?thesis
    unfolding st by (simp add: hybrid_exits_def m r)
qed

subsection \<open>One position per track\<close>

lemma momentum_body_length:
  assumes "momentum_body thr m d p rsi macd atr st = Inr (st', a)" and "length (snd st) \<le> 1"
  shows "length (snd st') \<le> 1"
proof -
  from assms(1) have e: "momentum_entry thr m d p rsi macd atr (momentum_exits thr p rsi macd st) = Inr st'"
    by (auto simp: momentum_body_def Let_def split: sum.splits)
  have "length (snd (momentum_exits thr p rsi macd st)) \<le> 1"
    unfolding momentum_exits_def
    using close_positions_length [of "momentum_exit_cond thr p rsi macd" p "snd st" st] assms(2)
    by simp
  with e show ?thesis by (rule momentum_entry_length)
qed

lemma reversion_body_length:
  assumes "reversion_body m d p rsi macd atr st = Inr (st', a)" and "length (snd st) \<le> 1"
  shows "length (snd st') \<le> 1"
proof -
  from assms(1) have e: "reversion_entry m d p rsi macd atr (reversion_exits p rsi macd st) = Inr st'"
    by (auto simp: reversion_body_def Let_def split: sum.splits)
  have "length (snd (reversion_exits p rsi macd st)) \<le> 1"
    unfolding reversion_exits_def
    using close_positions_length [of "reversion_exit_cond p rsi macd" p "snd st" st] assms(2)
    by simp
  with e show ?thesis by (rule reversion_entry_length)
qed

lemma hybrid_body_length:
  assumes "hybrid_body thr m1 m2 d p rsi_m macd_m atr_m rsi_r macd_r atr_r st = Inr (st', a)"
    and "length (fst (snd st)) \<le> 1 \<and> length (snd (snd st)) \<le> 1"
  shows "length (fst (snd st')) \<le> 1 \<and> length (snd (snd st')) \<le> 1"
proof -
  let ?x = "hybrid_exits thr p rsi_m macd_m rsi_r macd_r st"
  from assms(1) have e: "hybrid_entries thr m1 m2 d p rsi_m macd_m atr_m rsi_r macd_r atr_r ?x = Inr st'"
    by (auto simp: hybrid_body_def Let_def split: sum.splits)
  from hybrid_exits_length [of thr p rsi_m macd_m rsi_r macd_r st] assms(2)
  have "length (fst (snd ?x)) \<le> 1" and "length (snd (snd ?x)) \<le> 1"
    by simp_all
  with e show ?thesis by (rule hybrid_entries_length)
qed

lemma momentum_algo_bar_length:
  assumes "momentum_algo_bar thr m st row = Inr (st', out)" and "length (snd st) \<le> 1"
  shows "length (snd st') \<le> 1"
  using assms
  by (auto simp: momentum_algo_bar_def split: if_splits sum.splits dest: momentum_body_length)

lemma dynamic_momentum_algo_bar_length:
  assumes "dynamic_momentum_algo_bar thr st row = Inr (st', out)" and "length (snd st) \<le> 1"
  shows "length (snd st') \<le> 1"
  using assms
  by (auto simp: dynamic_momentum_algo_bar_def Let_def split: if_splits sum.splits
        dest: momentum_body_length)

lemma reversion_algo_bar_length:
  assumes "reversion_algo_bar m st row = Inr (st', out)" and "length (snd st) \<le> 1"
  shows "length (snd st') \<le> 1"
  using assms
  by (auto simp: reversion_algo_bar_def split: if_splits sum.splits dest: reversion_body_length)

lemma dynamic_reversion_algo_bar_length:
  assumes "dynamic_reversion_algo_bar st row = Inr (st', out)" and "length (snd st) \<le> 1"
  shows "length (snd st') \<le> 1"
  using assms
  by (auto simp: dynamic_reversion_algo_bar_def Let_def split: if_splits sum.splits
        dest: reversion_body_length)

lemma algo_bar_length:
  assumes "algo_bar thr m1 m2 st row = Inr (st', out)"
    and "length (fst (snd st)) \<le> 1 \<and> length (snd (snd st)) \<le> 1"
  shows "length (fst (snd st')) \<le> 1 \<and> length (snd (snd st')) \<le> 1"
proof (cases "hrow_undefined row")
  case True
  with assms show ?thesis by (simp add: algo_bar_def)
next
  case False
  with assms(1) obtain a where
    "hybrid_body thr m1 m2 (Date row) (Close row) (the (RSI_mom row)) (the (MACD_diff_mom row))
       (the (ATR_mom row)) (the (RSI_rev row)) (the (MACD_diff_rev row)) (the (ATR_rev row)) st
     = Inr (st', a)"
    by (auto simp: algo_bar_def split: sum.splits)
  then show ?thesis using assms(2) by (rule hybrid_body_length)
qed

lemma dynamic_algo_bar_length:
  assumes "dynamic_algo_bar thr st row = Inr (st', out)"
    and "length (fst (snd st)) \<le> 1 \<and> length (snd (snd st)) \<le> 1"
  shows "length (fst (snd st')) \<le> 1 \<and> length (snd (snd st')) \<le> 1"
proof (cases "hrow_undefined row")
  case True
  with assms show ?thesis by (simp add: dynamic_algo_bar_def)
next
  case False
  with assms(1) obtain a m2 where
    "hybrid_body thr 2 m2 (Date row) (Close row) (the (RSI_mom row)) (the (MACD_diff_mom row))
       (the (ATR_mom row)) (the (RSI_rev row)) (the (MACD_diff_rev row)) (the (ATR_rev row)) st
     = Inr (st', a)"
    by (auto simp: dynamic_algo_bar_def Let_def split: sum.splits)
  then show ?thesis using assms(2) by (rule hybrid_body_length)
qed

lemma reachable_invariant:
  assumes "reachable bar init st" and "P init"
    and "\<And>s row s' out. P s \<Longrightarrow> bar s row = Inr (s', out) \<Longrightarrow> P s'"
  shows "P st"
  using assms(1)
proof (induction rule: reachable.induct)
  case reachable_init
  show ?case by (rule assms(2))
next
  case (reachable_step st row st' out)
  then show ?case using assms(3) by blast
qed

lemma bar_loop_reachable:
  "bar_loop bar index rows (st, asset) = Inr (st', asset') \<Longrightarrow> reachable bar init st
     \<Longrightarrow> reachable bar init st'"
proof (induction rows arbitrary: st asset)
  case Nil
  then show ?case by simp
next
  case (Cons row rows)
  from Cons.prems(1) obtain s1 out where b: "bar st row = Inr (s1, out)"
    by (auto split: sum.splits)
  have r1: "reachable bar init s1"
    using Cons.prems(2) b by (rule reachable_step)
  show ?case
  proof (cases out)
    case None
    with Cons.prems(1) b have "bar_loop bar index rows (s1, asset) = Inr (st', asset')"
      by simp
    then show ?thesis using r1 by (rule Cons.IH)
  next
    case (Some dv)
    obtain date v where dv: "dv = (date, v)" by (cases dv)
    with Some Cons.prems(1) b
    have "bar_loop bar index rows (s1, loc_set index date v asset) = Inr (st', asset')"
      by simp
    then show ?thesis using r1 by (rule Cons.IH)
  qed
qed

text \<open>
  Claim C8. In every state that the loop of any of the six functions reaches from its
  initial state (the initial cash, no holdings), each holdings list has at most one
  position. The exit loop never lengthens a list, and the entry block appends only to an
  empty list. The last conjunct says that the state of a run after any number of rows is
  such a reachable state.
\<close>

theorem at_most_one_open_position:
  "(reachable (momentum_algo_bar rsi_threshold atr_multiplier) (ASSET_VALUE, []) st
      \<longrightarrow> length (snd st) \<le> 1) \<and>
   (reachable (dynamic_momentum_algo_bar rsi_threshold) (ASSET_VALUE, []) st
      \<longrightarrow> length (snd st) \<le> 1) \<and>
   (reachable (reversion_algo_bar atr_multiplier) (ASSET_VALUE, []) st
      \<longrightarrow> length (snd st) \<le> 1) \<and>
   (reachable dynamic_reversion_algo_bar (ASSET_VALUE, []) st
      \<longrightarrow> length (snd st) \<le> 1) \<and>
   (reachable (algo_bar rsi_threshold atr_multiplier reversion_atr_multiplier)
        (ASSET_VALUE, [], []) hst
      \<longrightarrow> length (fst (snd hst)) \<le> 1 \<and> length (snd (snd hst)) \<le> 1) \<and>
   (reachable (dynamic_algo_bar rsi_threshold) (ASSET_VALUE, [], []) hst
      \<longrightarrow> length (fst (snd hst)) \<le> 1 \<and> length (snd (snd hst)) \<le> 1) \<and>
   length (snd (close_positions exit_cond cur_price (snd st) st)) \<le> length (snd st) \<and>
   (bar_loop bar index rows (init, asset) = Inr (st', asset') \<longrightarrow> reachable bar init st')"
proof -
  have 1: "length (snd st) \<le> 1"
    if "reachable (momentum_algo_bar rsi_threshold atr_multiplier) (ASSET_VALUE, []) st"
    using that by (rule reachable_invariant) (simp, erule (1) momentum_algo_bar_length)
  have 2: "length (snd st) \<le> 1"
    if "reachable (dynamic_momentum_algo_bar rsi_threshold) (ASSET_VALUE, []) st"
    using that by (rule reachable_invariant) (simp, erule (1) dynamic_momentum_algo_bar_length)
  have 3: "length (snd st) \<le> 1"
    if "reachable (reversion_algo_bar atr_multiplier) (ASSET_VALUE, []) st"
    using that by (rule reachable_invariant) (simp, erule (1) reversion_algo_bar_length)
  have 4: "length (snd st) \<le> 1"
    if "reachable dynamic_reversion_algo_bar (ASSET_VALUE, []) st"
    using that by (rule reachable_invariant) (simp, erule (1) dynamic_reversion_algo_bar_length)
  have 5: "length (fst (snd hst)) \<le> 1 \<and> length (snd (snd hst)) \<le> 1"
    if "reachable (algo_bar rsi_threshold atr_multiplier reversion_atr_multiplier)
          (ASSET_VALUE, [], []) hst"
    using that by (rule reachable_invariant) (simp, erule (1) algo_bar_length)
  have 6: "length (fst (snd hst)) \<le> 1 \<and> length (snd (snd hst)) \<le> 1"
    if "reachable (dynamic_algo_bar rsi_threshold) (ASSET_VALUE, [], []) hst"
    using that by (rule reachable_invariant) (simp, erule (1) dynamic_algo_bar_length)
  have 7: "reachable bar init st'"
    if "bar_loop bar index rows (init, asset) = Inr (st', asset')"
    using that reachable_init by (rule bar_loop_reachable)
  from 1 2 3 4 5 6 7 close_positions_length show ?thesis
    by blast
qed

subsection \<open>The asset value of a processed row\<close>

lemma momentum_body_unfold:
  "momentum_body thr m d p rsi macd atr st = Inr (st', a) \<longleftrightarrow>
     momentum_entry thr m d p rsi macd atr (momentum_exits thr p rsi macd st) = Inr st' \<and>
     a = fst (momentum_exits thr p rsi macd st)
           + total_unrealized p (snd (momentum_exits thr p rsi macd st))"
  by (auto simp: momentum_body_def Let_def split: sum.splits)

lemma reversion_body_unfold:
  "reversion_body m d p rsi macd atr st = Inr (st', a) \<longleftrightarrow>
     reversion_entry m d p rsi macd atr (reversion_exits p rsi macd st) = Inr st' \<and>
     a = fst (reversion_exits p rsi macd st)
           + total_unrealized p (snd (reversion_exits p rsi macd st))"
  by (auto simp: reversion_body_def Let_def split: sum.splits)

lemma hybrid_body_unfold:
  "hybrid_body thr m1 m2 d p rsi_m macd_m atr_m rsi_r macd_r atr_r st = Inr (st', a) \<longleftrightarrow>
     hybrid_entries thr m1 m2 d p rsi_m macd_m atr_m rsi_r macd_r atr_r
       (hybrid_exits thr p rsi_m macd_m rsi_r macd_r st) = Inr st' \<and>
     a = fst (hybrid_exits thr p rsi_m macd_m rsi_r macd_r st)
           + total_unrealized p
               (fst (snd (hybrid_exits thr p rsi_m macd_m rsi_r macd_r st))
                @ snd (snd (hybrid_exits thr p rsi_m macd_m rsi_r macd_r st)))"
  by (auto simp: hybrid_body_def Let_def split: sum.splits)

lemma momentum_algo_bar_processed:
  "momentum_algo_bar thr m st row = Inr (st', Some (date, a)) \<longleftrightarrow>
     \<not> (RSI row = None \<or> MACD_diff row = None \<or> ATR row = None) \<and> date = Date row \<and>
     momentum_body thr m (Date row) (Close row) (the (RSI row)) (the (MACD_diff row))
       (the (ATR row)) st = Inr (st', a)"
  by (auto simp: momentum_algo_bar_def split: sum.splits)

lemma dynamic_momentum_algo_bar_processed:
  "dynamic_momentum_algo_bar thr st row = Inr (st', Some (date, a)) \<longleftrightarrow>
     \<not> (RSI row = None \<or> MACD_diff row = None \<or> ATR row = None) \<and> date = Date row \<and>
     momentum_body thr (if nan_gt (ATR_short row) (ATR_long row) then 2 else 15 / 10)
       (Date row) (Close row) (the (RSI row)) (the (MACD_diff row)) (the (ATR row)) st
     = Inr (st', a)"
  by (auto simp: dynamic_momentum_algo_bar_def Let_def split: sum.splits)

lemma reversion_algo_bar_processed:
  "reversion_algo_bar m st row = Inr (st', Some (date, a)) \<longleftrightarrow>
     \<not> (RSI row = None \<or> MACD_diff row = None \<or> ATR row = None) \<and> date = Date row \<and>
     reversion_body m (Date row) (Close row) (the (RSI row)) (the (MACD_diff row))
       (the (ATR row)) st = Inr (st', a)"
  by (auto simp: reversion_algo_bar_def split: sum.splits)

lemma dynamic_reversion_algo_bar_processed:
  "dynamic_reversion_algo_bar st row = Inr (st', Some (date, a)) \<longleftrightarrow>
     \<not> (RSI row = None \<or> MACD_diff row = None \<or> ATR row = None) \<and> date = Date row \<and>
     reversion_body (if nan_gt (ATR_short row) (ATR_long row) then 2 else 15 / 10)
       (Date row) (Close row) (the (RSI row)) (the (MACD_diff row)) (the (ATR row)) st
     = Inr (st', a)"
  by (auto simp: dynamic_reversion_algo_bar_def Let_def split: sum.splits)

lemma algo_bar_processed:
  "algo_bar thr m1 m2 st row = Inr (st', Some (date, a)) \<longleftrightarrow>
     \<not> hrow_undefined row \<and> date = Date row \<and>
     hybrid_body thr m1 m2 (Date row) (Close row) (the (RSI_mom row)) (the (MACD_diff_mom row))
       (the (ATR_mom row)) (the (RSI_rev row)) (the (MACD_diff_rev row)) (the (ATR_rev row)) st
     = Inr (st', a)"
  by (auto simp: algo_bar_def split: sum.splits)

lemma dynamic_algo_bar_processed:
  "dynamic_algo_bar thr st row = Inr (st', Some (date, a)) \<longleftrightarrow>
     \<not> hrow_undefined row \<and> date = Date row \<and>
     hybrid_body thr 2 (if nan_gt (ATR_rev_short row) (ATR_rev_long row) then 2 else 15 / 10)
       (Date row) (Close row) (the (RSI_mom row)) (the (MACD_diff_mom row))
       (the (ATR_mom row)) (the (RSI_rev row)) (the (MACD_diff_rev row)) (the (ATR_rev row)) st
     = Inr (st', a)"
  by (auto simp: dynamic_algo_bar_def Let_def split: sum.splits)

lemma open_long_single:
  "open_long d p atr m q (cash, []) = (cash1, [pos]) \<Longrightarrow>
     0 < q \<and> quantity pos = q \<and> entry_price pos = p \<and> entry_date pos = d \<and> pos_type pos = LONG \<and>
     cash1 = cash - of_int q * p * price_multiplier"
  by (auto simp: open_long_def split: if_splits)

lemma open_short_single:
  "open_short d p atr m q (cash, []) = (cash1, [pos]) \<Longrightarrow>
     0 < q \<and> quantity pos = q \<and> entry_price pos = p \<and> entry_date pos = d \<and> pos_type pos = SHORT \<and>
     cash1 = cash + of_int q * p * price_multiplier"
  by (auto simp: open_short_def split: if_splits)

lemma momentum_entry_long:
  assumes "momentum_entry thr m d p rsi macd atr (cash, []) = Inr (cash1, [pos])"
    and "pos_type pos = LONG"
  shows "0 < quantity pos \<and> entry_price pos = p \<and> entry_date pos = d \<and>
         cash1 = cash - of_int (quantity pos) * p * price_multiplier"
  using assms
  by (auto simp: momentum_entry_def split: if_splits sum.splits
        dest!: open_long_single open_short_single)

lemma reversion_entry_long:
  assumes "reversion_entry m d p rsi macd atr (cash, []) = Inr (cash1, [pos])"
    and "pos_type pos = LONG"
  shows "0 < quantity pos \<and> entry_price pos = p \<and> entry_date pos = d \<and>
         cash1 = cash - of_int (quantity pos) * p * price_multiplier"
  using assms
  by (auto simp: reversion_entry_def split: if_splits sum.splits
        dest!: open_long_single open_short_single)

lemma hybrid_momentum_entry_long:
  assumes "hybrid_momentum_entry thr m d p rsi macd atr avail (cash, []) = Inr (cash1, [pos])"
    and "pos_type pos = LONG"
  shows "0 < quantity pos \<and> entry_price pos = p \<and> entry_date pos = d \<and>
         cash1 = cash - of_int (quantity pos) * p * price_multiplier"
  using assms
  by (auto simp: hybrid_momentum_entry_def split: if_splits sum.splits
        dest!: open_long_single open_short_single)

lemma hybrid_reversion_entry_long:
  assumes "hybrid_reversion_entry m d p rsi macd atr avail (cash, []) = Inr (cash1, [pos])"
    and "pos_type pos = LONG"
  shows "0 < quantity pos \<and> entry_price pos = p \<and> entry_date pos = d \<and>
         cash1 = cash - of_int (quantity pos) * p * price_multiplier"
  using assms
  by (auto simp: hybrid_reversion_entry_def split: if_splits sum.splits
        dest!: open_long_single open_short_single)

lemma open_long_flat: "open_long d p atr m q (cash, []) = (cash1, []) \<Longrightarrow> cash1 = cash"
  by (auto simp: open_long_def split: if_splits)

lemma open_short_flat: "open_short d p atr m q (cash, []) = (cash1, []) \<Longrightarrow> cash1 = cash"
  by (auto simp: open_short_def split: if_splits)

lemma hybrid_momentum_entry_flat:
  "hybrid_momentum_entry thr m d p rsi macd atr avail (cash, []) = Inr (cash1, []) \<Longrightarrow> cash1 = cash"
  by (auto simp: hybrid_momentum_entry_def split: if_splits sum.splits
        dest!: open_long_flat open_short_flat)

lemma hybrid_reversion_entry_flat:
  "hybrid_reversion_entry m d p rsi macd atr avail (cash, []) = Inr (cash1, []) \<Longrightarrow> cash1 = cash"
  by (auto simp: hybrid_reversion_entry_def split: if_splits sum.splits
        dest!: open_long_flat open_short_flat)

lemma close_positions_single:
  "close_positions c p [pos] (cash, [pos]) =
     (if c pos then
        (case pos_type pos of
           LONG \<Rightarrow> (cash + (of_int (quantity pos) * p * price_multiplier
                            - of_int (quantity pos) * TAX * MULTIPLIER), [])
         | SHORT \<Rightarrow> (cash - (of_int (quantity pos) * p * price_multiplier
                             + of_int (quantity pos) * TAX * MULTIPLIER), []))
      else (cash, [pos]))"
  by (simp split: pos_type.splits)

lemma momentum_exits_keep:
  "\<not> momentum_exit_cond thr p rsi macd pos \<Longrightarrow>
     momentum_exits thr p rsi macd (cash, [pos]) = (cash, [pos])"
  by (simp add: momentum_exits_def close_positions_single)

lemma reversion_exits_keep:
  "\<not> reversion_exit_cond p rsi macd pos \<Longrightarrow>
     reversion_exits p rsi macd (cash, [pos]) = (cash, [pos])"
  by (simp add: reversion_exits_def close_positions_single)

lemma momentum_body_long_pnl:
  assumes b1: "momentum_body thr m d1 p1 rsi1 macd1 atr1 st = Inr ((cash1, [pos]), a1)"
    and flat: "snd (momentum_exits thr p1 rsi1 macd1 st) = []"
    and lng: "pos_type pos = LONG"
    and keep: "\<not> momentum_exit_cond thr p2 rsi2 macd2 pos"
    and b2: "momentum_body thr m' d2 p2 rsi2 macd2 atr2 (cash1, [pos]) = Inr (st2, a2)"
  shows "entry_price pos = p1 \<and>
         a2 = a1 + of_int (quantity pos) * (p2 - entry_price pos) * price_multiplier"
proof -
  obtain cx where x: "momentum_exits thr p1 rsi1 macd1 st = (cx, [])"
    using flat by (cases "momentum_exits thr p1 rsi1 macd1 st") simp
  from b1 have e: "momentum_entry thr m d1 p1 rsi1 macd1 atr1 (cx, []) = Inr (cash1, [pos])"
    and a1: "a1 = cx"
    by (simp_all add: momentum_body_unfold x total_unrealized_def)
  from momentum_entry_long [OF e lng]
  have ep: "entry_price pos = p1"
    and c1: "cash1 = cx - of_int (quantity pos) * p1 * price_multiplier"
    by simp_all
  from b2 have "a2 = cash1 + total_unrealized p2 [pos]"
    by (simp add: momentum_body_unfold momentum_exits_keep [OF keep])
  with lng c1 a1 ep show ?thesis
    by (simp add: total_unrealized_def algebra_simps)
qed

lemma reversion_body_long_pnl:
  assumes b1: "reversion_body m d1 p1 rsi1 macd1 atr1 st = Inr ((cash1, [pos]), a1)"
    and flat: "snd (reversion_exits p1 rsi1 macd1 st) = []"
    and lng: "pos_type pos = LONG"
    and keep: "\<not> reversion_exit_cond p2 rsi2 macd2 pos"
    and b2: "reversion_body m' d2 p2 rsi2 macd2 atr2 (cash1, [pos]) = Inr (st2, a2)"
  shows "entry_price pos = p1 \<and>
         a2 = a1 + of_int (quantity pos) * (p2 - entry_price pos) * price_multiplier"
proof -
  obtain cx where x: "reversion_exits p1 rsi1 macd1 st = (cx, [])"
    using flat by (cases "reversion_exits p1 rsi1 macd1 st") simp
  from b1 have e: "reversion_entry m d1 p1 rsi1 macd1 atr1 (cx, []) = Inr (cash1, [pos])"
    and a1: "a1 = cx"
    by (simp_all add: reversion_body_unfold x total_unrealized_def)
  from reversion_entry_long [OF e lng]
  have ep: "entry_price pos = p1"
    and c1: "cash1 = cx - of_int (quantity pos) * p1 * price_multiplier"
    by simp_all
  from b2 have "a2 = cash1 + total_unrealized p2 [pos]"
    by (simp add: reversion_body_unfold reversion_exits_keep [OF keep])
  with lng c1 a1 ep show ?thesis
    by (simp add: total_unrealized_def algebra_simps)
qed

lemma hybrid_exits_flat: "hybrid_exits thr p rsi_m macd_m rsi_r macd_r (cash, [], []) = (cash, [], [])"
  by (simp add: hybrid_exits_def)

lemma hybrid_exits_momentum_single:
  "hybrid_exits thr p rsi_m macd_m rsi_r macd_r (cash, [pos], []) =
     (case close_positions (momentum_exit_cond thr p rsi_m macd_m) p [pos] (cash, [pos]) of
        (cash1, hm1) \<Rightarrow> (cash1, hm1, []))"
  by (simp add: hybrid_exits_def split: prod.splits)

lemma hybrid_exits_reversion_single:
  "hybrid_exits thr p rsi_m macd_m rsi_r macd_r (cash, [], [pos]) =
     (case close_positions (hybrid_reversion_exit_cond p rsi_r macd_r) p [pos] (cash, [pos]) of
        (cash1, hr1) \<Rightarrow> (cash1, [], hr1))"
  by (simp add: hybrid_exits_def split: prod.splits)

lemma hybrid_entries_split:
  "hybrid_entries thr m1 m2 d p rsi_m macd_m atr_m rsi_r macd_r atr_r (cash, hm, hr)
     = Inr (cash2, hm1, hr1) \<longleftrightarrow>
   (\<exists>cash1.
      hybrid_momentum_entry thr m1 d p rsi_m macd_m atr_m (cash / 2) (cash, hm) = Inr (cash1, hm1) \<and>
      hybrid_reversion_entry m2 d p rsi_r macd_r atr_r (cash / 2) (cash1, hr) = Inr (cash2, hr1))"
  by (auto simp: hybrid_entries_def Let_def split: sum.splits)

lemma hybrid_entered_momentum_long:
  assumes "hybrid_entries thr m1 m2 d p rsi_m macd_m atr_m rsi_r macd_r atr_r (cash, [], [])
             = Inr (cash2, [pos], [])"
    and "pos_type pos = LONG"
  shows "0 < quantity pos \<and> entry_price pos = p \<and> entry_date pos = d \<and>
         cash2 = cash - of_int (quantity pos) * p * price_multiplier"
proof -
  from assms(1) obtain cash1 where
    m: "hybrid_momentum_entry thr m1 d p rsi_m macd_m atr_m (cash / 2) (cash, []) = Inr (cash1, [pos])"
    and r: "hybrid_reversion_entry m2 d p rsi_r macd_r atr_r (cash / 2) (cash1, []) = Inr (cash2, [])"
    unfolding hybrid_entries_split by blast
  from hybrid_momentum_entry_long [OF m assms(2)] hybrid_reversion_entry_flat [OF r]
  show ?thesis by simp
qed

lemma hybrid_entered_reversion_long:
  assumes "hybrid_entries thr m1 m2 d p rsi_m macd_m atr_m rsi_r macd_r atr_r (cash, [], [])
             = Inr (cash2, [], [pos])"
    and "pos_type pos = LONG"
  shows "0 < quantity pos \<and> entry_price pos = p \<and> entry_date pos = d \<and>
         cash2 = cash - of_int (quantity pos) * p * price_multiplier"
proof -
  from assms(1) obtain cash1 where
    m: "hybrid_momentum_entry thr m1 d p rsi_m macd_m atr_m (cash / 2) (cash, []) = Inr (cash1, [])"
    and r: "hybrid_reversion_entry m2 d p rsi_r macd_r atr_r (cash / 2) (cash1, []) = Inr (cash2, [pos])"
    unfolding hybrid_entries_split by blast
  from hybrid_reversion_entry_long [OF r assms(2)] hybrid_momentum_entry_flat [OF m]
  show ?thesis by simp
qed

lemma hybrid_body_momentum_long_pnl:
  assumes b1: "hybrid_body thr m1 m2 d1 p1 rsi_m1 macd_m1 atr_m1 rsi_r1 macd_r1 atr_r1 hst
                 = Inr ((cash1, [pos], []), a1)"
    and flat: "snd (hybrid_exits thr p1 rsi_m1 macd_m1 rsi_r1 macd_r1 hst) = ([], [])"
    and lng: "pos_type pos = LONG"
    and keep: "\<not> momentum_exit_cond thr p2 rsi_m2 macd_m2 pos"
    and b2: "hybrid_body thr m1' m2' d2 p2 rsi_m2 macd_m2 atr_m2 rsi_r2 macd_r2 atr_r2
               (cash1, [pos], []) = Inr (hst2, a2)"
  shows "entry_price pos = p1 \<and>
         a2 = a1 + of_int (quantity pos) * (p2 - entry_price pos) * price_multiplier"
proof -
  obtain cx where x: "hybrid_exits thr p1 rsi_m1 macd_m1 rsi_r1 macd_r1 hst = (cx, [], [])"
    using flat by (cases "hybrid_exits thr p1 rsi_m1 macd_m1 rsi_r1 macd_r1 hst") simp
  from b1 have e: "hybrid_entries thr m1 m2 d1 p1 rsi_m1 macd_m1 atr_m1 rsi_r1 macd_r1 atr_r1
                     (cx, [], []) = Inr (cash1, [pos], [])"
    and a1: "a1 = cx"
    by (simp_all add: hybrid_body_unfold x total_unrealized_def)
  from hybrid_entered_momentum_long [OF e lng]
  have ep: "entry_price pos = p1"
    and c1: "cash1 = cx - of_int (quantity pos) * p1 * price_multiplier"
    by simp_all
  have k: "hybrid_exits thr p2 rsi_m2 macd_m2 rsi_r2 macd_r2 (cash1, [pos], []) = (cash1, [pos], [])"
    using keep by (simp add: hybrid_exits_momentum_single close_positions_single)
  from b2 have "a2 = cash1 + total_unrealized p2 [pos]"
    by (simp add: hybrid_body_unfold k)
  with lng c1 a1 ep show ?thesis
    by (simp add: total_unrealized_def algebra_simps)
qed

lemma hybrid_body_reversion_long_pnl:
  assumes b1: "hybrid_body thr m1 m2 d1 p1 rsi_m1 macd_m1 atr_m1 rsi_r1 macd_r1 atr_r1 hst
                 = Inr ((cash1, [], [pos]), a1)"
    and flat: "snd (hybrid_exits thr p1 rsi_m1 macd_m1 rsi_r1 macd_r1 hst) = ([], [])"
    and lng: "pos_type pos = LONG"
    and keep: "\<not> hybrid_reversion_exit_cond p2 rsi_r2 macd_r2 pos"
    and b2: "hybrid_body thr m1' m2' d2 p2 rsi_m2 macd_m2 atr_m2 rsi_r2 macd_r2 atr_r2
               (cash1, [], [pos]) = Inr (hst2, a2)"
  shows "entry_price pos = p1 \<and>
         a2 = a1 + of_int (quantity pos) * (p2 - entry_price pos) * price_multiplier"
proof -
  obtain cx where x: "hybrid_exits thr p1 rsi_m1 macd_m1 rsi_r1 macd_r1 hst = (cx, [], [])"
    using flat by (cases "hybrid_exits thr p1 rsi_m1 macd_m1 rsi_r1 macd_r1 hst") simp
  from b1 have e: "hybrid_entries thr m1 m2 d1 p1 rsi_m1 macd_m1 atr_m1 rsi_r1 macd_r1 atr_r1
                     (cx, [], []) = Inr (cash1, [], [pos])"
    and a1: "a1 = cx"
    by (simp_all add: hybrid_body_unfold x total_unrealized_def)
  from hybrid_entered_reversion_long [OF e lng]
  have ep: "entry_price pos = p1"
    and c1: "cash1 = cx - of_int (quantity pos) * p1 * price_multiplier"
    by simp_all
  have k: "hybrid_exits thr p2 rsi_m2 macd_m2 rsi_r2 macd_r2 (cash1, [], [pos]) = (cash1, [], [pos])"
    using keep by (simp add: hybrid_exits_reversion_single close_positions_single)
  from b2 have "a2 = cash1 + total_unrealized p2 [pos]"
    by (simp add: hybrid_body_unfold k)
  with lng c1 a1 ep show ?thesis
    by (simp add: total_unrealized_def algebra_simps)
qed

lemmas bar_defs =
  momentum_algo_bar_def dynamic_momentum_algo_bar_def reversion_algo_bar_def
  dynamic_reversion_algo_bar_def algo_bar_def dynamic_algo_bar_def hrow_undefined_def nan_gt_def

lemmas body_defs =
  momentum_body_def reversion_body_def hybrid_body_def momentum_exits_def reversion_exits_def
  hybrid_exits_def hybrid_entries_def momentum_entry_def reversion_entry_def
  hybrid_momentum_entry_def hybrid_reversion_entry_def momentum_exit_cond_def
  reversion_exit_cond_def hybrid_reversion_exit_cond_def open_long_def open_short_def
  floor_quantity_def total_unrealized_def Let_def

lemmas const_defs =
  price_multiplier_def MULTIPLIER_def MARGIN_RATIO_def ACCOUNT_RATIO_def TAX_def ASSET_VALUE_def

lemma entry_bars:
  "momentum_algo_bar 30 2 (ASSET_VALUE, []) entry_row
     = Inr ((101562500, [entered_pos]), Some (1, 200000000))"
  "dynamic_momentum_algo_bar 30 (ASSET_VALUE, []) entry_row
     = Inr ((101562500, [entered_pos]), Some (1, 200000000))"
  "reversion_algo_bar 2 (ASSET_VALUE, []) reversion_entry_row
     = Inr ((101562500, [entered_pos]), Some (1, 200000000))"
  "dynamic_reversion_algo_bar (ASSET_VALUE, []) reversion_entry_row
     = Inr ((101562500, [entered_pos]), Some (1, 200000000))"
  "algo_bar 30 2 2 (ASSET_VALUE, [], []) hybrid_entry_row
     = Inr ((3125000, [entered_pos], [entered_pos]), Some (1, 200000000))"
  "dynamic_algo_bar 30 (ASSET_VALUE, [], []) hybrid_entry_row
     = Inr ((3125000, [entered_pos], [entered_pos]), Some (1, 200000000))"
  by (simp_all add: bar_defs body_defs const_defs entry_row_def reversion_entry_row_def
        hybrid_entry_row_def entered_pos_def)

theorem at_most_one_open_position_witness:
  "reachable (momentum_algo_bar 30 2) (ASSET_VALUE, []) (101562500, [entered_pos]) \<and>
   reachable (dynamic_momentum_algo_bar 30) (ASSET_VALUE, []) (101562500, [entered_pos]) \<and>
   reachable (reversion_algo_bar 2) (ASSET_VALUE, []) (101562500, [entered_pos]) \<and>
   reachable dynamic_reversion_algo_bar (ASSET_VALUE, []) (101562500, [entered_pos]) \<and>
   reachable (algo_bar 30 2 2) (ASSET_VALUE, [], []) (3125000, [entered_pos], [entered_pos]) \<and>
   reachable (dynamic_algo_bar 30) (ASSET_VALUE, [], []) (3125000, [entered_pos], [entered_pos]) \<and>
   bar_loop (algo_bar 30 2 2) [0, 1] [hybrid_entry_row]
       ((ASSET_VALUE, [], []), [ASSET_VALUE, ASSET_VALUE])
     = Inr ((3125000, [entered_pos], [entered_pos]), [ASSET_VALUE, ASSET_VALUE]) \<and>
   length (snd (101562500 :: real, [entered_pos])) \<le> 1 \<and>
   length (fst (snd (3125000 :: real, [entered_pos], [entered_pos]))) \<le> 1 \<and>
   length (snd (snd (3125000 :: real, [entered_pos], [entered_pos]))) \<le> 1"
proof -
  note step = reachable_step [OF reachable_init]
  have l: "bar_loop (algo_bar 30 2 2) [0, 1] [hybrid_entry_row]
       ((ASSET_VALUE, [], []), [ASSET_VALUE, ASSET_VALUE])
     = Inr ((3125000, [entered_pos], [entered_pos]), [ASSET_VALUE, ASSET_VALUE])"
    by (subst bar_loop.simps, subst entry_bars) (simp add: loc_set_def ASSET_VALUE_def)
  have r: "reachable (momentum_algo_bar 30 2) (ASSET_VALUE, []) (101562500, [entered_pos])"
    "reachable (dynamic_momentum_algo_bar 30) (ASSET_VALUE, []) (101562500, [entered_pos])"
    "reachable (reversion_algo_bar 2) (ASSET_VALUE, []) (101562500, [entered_pos])"
    "reachable dynamic_reversion_algo_bar (ASSET_VALUE, []) (101562500, [entered_pos])"
    "reachable (algo_bar 30 2 2) (ASSET_VALUE, [], []) (3125000, [entered_pos], [entered_pos])"
    "reachable (dynamic_algo_bar 30) (ASSET_VALUE, [], []) (3125000, [entered_pos], [entered_pos])"
    by (rule step, rule entry_bars)+
  show ?thesis
    using r l
      at_most_one_open_position [where rsi_threshold = 30 and atr_multiplier = 2
        and reversion_atr_multiplier = 2 and st = "(101562500, [entered_pos])"
        and hst = "(3125000, [entered_pos], [entered_pos])"
        and bar = "algo_bar 30 2 2" and index = "[0, 1]" and rows = "[hybrid_entry_row]"
        and init = "(ASSET_VALUE, [], [])" and asset = "[ASSET_VALUE, ASSET_VALUE]"
        and st' = "(3125000, [entered_pos], [entered_pos])"
        and asset' = "[ASSET_VALUE, ASSET_VALUE]"]
    by simp
qed

lemma hold_bars:
  "momentum_algo_bar 30 2 (11062500, [long_pos]) hold_row
     = Inr ((11062500, [long_pos]), Some (2, 22546875))"
  "dynamic_momentum_algo_bar 30 (11062500, [long_pos]) hold_row
     = Inr ((11062500, [long_pos]), Some (2, 22546875))"
  "reversion_algo_bar 2 (11062500, [long_pos]) hold_row
     = Inr ((11062500, [long_pos]), Some (2, 22546875))"
  "dynamic_reversion_algo_bar (11062500, [long_pos]) hold_row
     = Inr ((11062500, [long_pos]), Some (2, 22546875))"
  "algo_bar 30 2 2 (11062500, [long_pos], []) hybrid_hold_row
     = Inr ((11062500, [long_pos], []), Some (2, 22546875))"
  "dynamic_algo_bar 30 (11062500, [long_pos], []) hybrid_hold_row
     = Inr ((11062500, [long_pos], []), Some (2, 22546875))"
  by (simp_all add: bar_defs body_defs const_defs hold_row_def hybrid_hold_row_def long_pos_def)

lemma hold_exits:
  "momentum_exits 30 105 40 1 (11062500, [long_pos]) = (11062500, [long_pos])"
  "reversion_exits 105 40 1 (11062500, [long_pos]) = (11062500, [long_pos])"
  "hybrid_exits 30 105 40 1 40 1 (11062500, [long_pos], []) = (11062500, [long_pos], [])"
  "hybrid_exits 30 105 40 1 40 1 (11062500, [], [long_pos]) = (11062500, [], [long_pos])"
  by (simp_all add: body_defs long_pos_def)

lemma long_entry_bodies:
  "momentum_body 30 2 1 100 60 1 5 (22000000, []) = Inr ((11062500, [long_pos]), 22000000)"
  "reversion_body 2 1 100 20 1 5 (22000000, []) = Inr ((11062500, [long_pos]), 22000000)"
  "hybrid_body 30 2 2 1 100 60 1 5 40 1 5 (22000000, [], [])
     = Inr ((11062500, [long_pos], []), 22000000)"
  "hybrid_body 30 2 2 1 100 40 1 5 20 1 5 (22000000, [], [])
     = Inr ((11062500, [], [long_pos]), 22000000)"
  by (simp_all add: body_defs const_defs long_pos_def)

lemma long_hold_bodies:
  "momentum_body 30 2 2 105 40 1 5 (11062500, [long_pos])
     = Inr ((11062500, [long_pos]), 22546875)"
  "reversion_body 2 2 105 40 1 5 (11062500, [long_pos])
     = Inr ((11062500, [long_pos]), 22546875)"
  "hybrid_body 30 2 2 2 105 40 1 5 40 1 5 (11062500, [long_pos], [])
     = Inr ((11062500, [long_pos], []), 22546875)"
  "hybrid_body 30 2 2 2 105 40 1 5 40 1 5 (11062500, [], [long_pos])
     = Inr ((11062500, [], [long_pos]), 22546875)"
  by (simp_all add: body_defs const_defs long_pos_def)

lemma long_pos_facts:
  "pos_type long_pos = LONG" "quantity long_pos = 5" "entry_price long_pos = 100"
  "\<not> momentum_exit_cond 30 105 40 1 long_pos"
  "\<not> reversion_exit_cond 105 40 1 long_pos"
  "\<not> hybrid_reversion_exit_cond 105 40 1 long_pos"
  "momentum_exit_cond 30 120 40 1 long_pos"
  "momentum_exit_cond 30 120 60 1 long_pos"
  "reversion_exit_cond 120 20 1 long_pos"
  "hybrid_reversion_exit_cond 120 40 1 long_pos"
  "mark_to_market 105 long_pos = 11484375"
  by (simp_all add: long_pos_def momentum_exit_cond_def reversion_exit_cond_def
        hybrid_reversion_exit_cond_def mark_to_market_def const_defs)

subsection \<open>The SHORT quantity\<close>

lemma open_short_in:
  "pos \<in> set (snd (open_short d p atr m q (cash, []))) \<Longrightarrow> pos_type pos = SHORT \<and> quantity pos = q"
  by (auto simp: open_short_def split: if_splits)

lemma open_long_in:
  "pos \<in> set (snd (open_long d p atr m q (cash, []))) \<Longrightarrow> pos_type pos = LONG"
  by (auto simp: open_long_def split: if_splits)

text \<open>
  The entry blocks with the cap: a SHORT they open has the quantity
  \<open>min (floor (available / (price * price_multiplier))) 3\<close>. The momentum entry of the
  two-strategy functions opens the floor itself.
\<close>

lemma short_quantity_capped:
  "(momentum_entry thr m d p rsi macd atr (cash, []) = Inr st' \<and> pos \<in> set (snd st') \<and>
    pos_type pos = SHORT \<longrightarrow>
      quantity pos = min \<lfloor>cash / 2 / (p * price_multiplier)\<rfloor> 3) \<and>
   (reversion_entry m d p rsi macd atr (cash, []) = Inr st' \<and> pos \<in> set (snd st') \<and>
    pos_type pos = SHORT \<longrightarrow>
      quantity pos = min \<lfloor>cash / 2 / (p * price_multiplier)\<rfloor> 3) \<and>
   (hybrid_reversion_entry m d p rsi macd atr available_cash (cash, []) = Inr st' \<and>
    pos \<in> set (snd st') \<and> pos_type pos = SHORT \<longrightarrow>
      quantity pos = min \<lfloor>available_cash / (p * price_multiplier)\<rfloor> 3)"
  apply (intro conjI)
  subgoal
    by (auto simp: momentum_entry_def floor_quantity_def split: if_splits
          dest: open_short_in open_long_in)
  subgoal
    by (auto simp: reversion_entry_def floor_quantity_def split: if_splits
          dest: open_short_in open_long_in)
  subgoal
    by (auto simp: hybrid_reversion_entry_def floor_quantity_def split: if_splits
          dest: open_short_in open_long_in)
  done

lemma short_quantity_hybrid_momentum:
  "hybrid_momentum_entry thr m d p rsi macd atr available_cash (cash, []) = Inr st' \<Longrightarrow>
   pos \<in> set (snd st') \<Longrightarrow> pos_type pos = SHORT \<Longrightarrow>
     quantity pos = \<lfloor>available_cash / (p * price_multiplier)\<rfloor>"
  by (auto simp: hybrid_momentum_entry_def floor_quantity_def split: if_splits
        dest: open_short_in open_long_in)

text \<open>
  Claim C1 at a concrete row. With the initial cash and a close of 400 the floor of the
  quantity is 11, so the cap gives 3. On a row where both strategies of \<open>algo\<close> and of
  \<open>dynamic_algo\<close> enter a SHORT, the reversion position has quantity 3 and the momentum
  position has quantity 11; the momentum entry of \<open>momentum_algo\<close> on the same
  indicators opens 3.
\<close>

theorem hybrid_momentum_short_uncapped:
  "algo_bar 30 2 2 (ASSET_VALUE, [], []) hybrid_short_row
     = Inr ((322500000, [uncapped_short], [capped_short]), Some (1, 200000000)) \<and>
   dynamic_algo_bar 30 (ASSET_VALUE, [], []) hybrid_short_row
     = Inr ((322500000, [uncapped_short], [capped_short]), Some (1, 200000000)) \<and>
   momentum_algo_bar 30 2 (ASSET_VALUE, []) short_row
     = Inr ((226250000, [capped_short]), Some (1, 200000000)) \<and>
   pos_type uncapped_short = SHORT \<and>
   quantity uncapped_short = 11 \<and>
   \<lfloor>ASSET_VALUE / 2 / (Close hybrid_short_row * price_multiplier)\<rfloor> = 11 \<and>
   min \<lfloor>ASSET_VALUE / 2 / (Close hybrid_short_row * price_multiplier)\<rfloor> 3 = 3"
  by (simp add: bar_defs body_defs const_defs hybrid_short_row_def short_row_def
        uncapped_short_def capped_short_def)

subsection \<open>Exits before entries\<close>

lemma momentum_exits_single_out:
  "snd st = [pos] \<Longrightarrow> momentum_exit_cond thr p rsi macd pos \<Longrightarrow>
     snd (momentum_exits thr p rsi macd st) = []"
  by (cases st) (simp add: momentum_exits_def split: pos_type.splits)

lemma reversion_exits_single_out:
  "snd st = [pos] \<Longrightarrow> reversion_exit_cond p rsi macd pos \<Longrightarrow>
     snd (reversion_exits p rsi macd st) = []"
  by (cases st) (simp add: reversion_exits_def split: pos_type.splits)

lemma hybrid_exits_momentum_out:
  assumes "fst (snd hst) = [pos]" and "momentum_exit_cond thr p rsi macd pos"
  shows "fst (snd (hybrid_exits thr p rsi macd rsi_rev macd_rev hst)) = []"
proof -
  obtain cash hr where hst: "hst = (cash, [pos], hr)"
    using assms(1) by (cases hst) auto
  show ?thesis
    unfolding hst using assms(2)
    by (simp add: hybrid_exits_def split: prod.splits pos_type.splits)
qed

lemma hybrid_exits_reversion_out:
  assumes "snd (snd hst) = [pos]" and "hybrid_reversion_exit_cond p rsi_rev macd_rev pos"
  shows "snd (snd (hybrid_exits thr p rsi macd rsi_rev macd_rev hst)) = []"
proof -
  obtain cash hm where hst: "hst = (cash, hm, [pos])"
    using assms(1) by (cases hst) auto
  show ?thesis
    unfolding hst using assms(2)
    by (simp add: hybrid_exits_def split: prod.splits pos_type.splits)
qed

lemma reopen_bodies:
  "momentum_body 30 2 2 120 60 1 5 (11062500, [long_pos])
     = Inr ((13452500, [reopened_pos]), 23952500)"
  "reversion_body 2 2 120 20 1 5 (11062500, [long_pos])
     = Inr ((13452500, [reopened_pos]), 23952500)"
  "hybrid_body 30 2 2 2 120 60 1 5 40 1 5 (11062500, [long_pos], [])
     = Inr ((13452500, [reopened_pos], []), 23952500)"
  "hybrid_body 30 2 2 2 120 40 1 5 20 1 5 (11062500, [], [long_pos])
     = Inr ((13452500, [], [reopened_pos]), 23952500)"
  by (simp_all add: body_defs const_defs long_pos_def reopened_pos_def)

text \<open>
  Claim C3. In each loop body the entry blocks run on the state the exit loops leave, and
  a track whose only position meets its exit condition is flat at that point. So the
  entry of a row is decided on the flat track and sized from the cash after the close: in
  the four concrete runs below a track leaves the LONG entered on row 1 and opens a new
  LONG on the same row 2, of quantity 4 (from the cash after the exit) and not 2 (from
  the cash before it).
\<close>

theorem exits_before_entries:
  "(momentum_body thr m d p rsi macd atr st = Inr (st', a) \<longrightarrow>
      momentum_entry thr m d p rsi macd atr (momentum_exits thr p rsi macd st) = Inr st') \<and>
   (reversion_body m d p rsi macd atr st = Inr (st', a) \<longrightarrow>
      reversion_entry m d p rsi macd atr (reversion_exits p rsi macd st) = Inr st') \<and>
   (hybrid_body thr m m_rev d p rsi macd atr rsi_rev macd_rev atr_rev hst = Inr (hst', a) \<longrightarrow>
      hybrid_entries thr m m_rev d p rsi macd atr rsi_rev macd_rev atr_rev
        (hybrid_exits thr p rsi macd rsi_rev macd_rev hst) = Inr hst') \<and>
   (snd st = [pos] \<and> momentum_exit_cond thr p rsi macd pos \<longrightarrow>
      snd (momentum_exits thr p rsi macd st) = []) \<and>
   (snd st = [pos] \<and> reversion_exit_cond p rsi macd pos \<longrightarrow>
      snd (reversion_exits p rsi macd st) = []) \<and>
   (fst (snd hst) = [pos] \<and> momentum_exit_cond thr p rsi macd pos \<longrightarrow>
      fst (snd (hybrid_exits thr p rsi macd rsi_rev macd_rev hst)) = []) \<and>
   (snd (snd hst) = [pos] \<and> hybrid_reversion_exit_cond p rsi_rev macd_rev pos \<longrightarrow>
      snd (snd (hybrid_exits thr p rsi macd rsi_rev macd_rev hst)) = []) \<and>
   momentum_body 30 2 2 120 60 1 5 (11062500, [long_pos])
     = Inr ((13452500, [reopened_pos]), 23952500) \<and>
   reversion_body 2 2 120 20 1 5 (11062500, [long_pos])
     = Inr ((13452500, [reopened_pos]), 23952500) \<and>
   hybrid_body 30 2 2 2 120 60 1 5 40 1 5 (11062500, [long_pos], [])
     = Inr ((13452500, [reopened_pos], []), 23952500) \<and>
   hybrid_body 30 2 2 2 120 40 1 5 20 1 5 (11062500, [], [long_pos])
     = Inr ((13452500, [], [reopened_pos]), 23952500) \<and>
   entry_date long_pos = 1 \<and> entry_date reopened_pos = 2 \<and> quantity reopened_pos = 4 \<and>
   \<lfloor>23952500 / 2 / (120 * price_multiplier)\<rfloor> = 4 \<and>
   \<lfloor>11062500 / 2 / (120 * price_multiplier)\<rfloor> = 2"
  apply (intro conjI)
  subgoal by (simp add: momentum_body_unfold)
  subgoal by (simp add: reversion_body_unfold)
  subgoal by (simp add: hybrid_body_unfold)
  subgoal by (intro impI, elim conjE) (rule momentum_exits_single_out)
  subgoal by (intro impI, elim conjE) (rule reversion_exits_single_out)
  subgoal by (intro impI, elim conjE) (rule hybrid_exits_momentum_out)
  subgoal by (intro impI, elim conjE) (rule hybrid_exits_reversion_out)
  subgoal by (rule reopen_bodies)
  subgoal by (rule reopen_bodies)
  subgoal by (rule reopen_bodies)
  subgoal by (rule reopen_bodies)
  subgoal by (simp add: long_pos_def)
  subgoal by (simp add: reopened_pos_def)
  subgoal by (simp add: reopened_pos_def)
  subgoal by (simp add: const_defs)
  subgoal by (simp add: const_defs)
  done

lemma reopen_conds:
  "momentum_exit_cond 30 120 60 1 long_pos"
  "reversion_exit_cond 120 20 1 long_pos"
  "hybrid_reversion_exit_cond 120 20 1 long_pos"
  by (simp_all add: long_pos_def momentum_exit_cond_def reversion_exit_cond_def
        hybrid_reversion_exit_cond_def)

theorem exits_before_entries_witness:
  "momentum_body 30 2 2 120 60 1 5 (11062500, [long_pos])
     = Inr ((13452500, [reopened_pos]), 23952500) \<and>
   momentum_exit_cond 30 120 60 1 long_pos \<and>
   snd (momentum_exits 30 120 60 1 (11062500, [long_pos])) = [] \<and>
   momentum_entry 30 2 2 120 60 1 5 (momentum_exits 30 120 60 1 (11062500, [long_pos]))
     = Inr (13452500, [reopened_pos]) \<and>
   reversion_body 2 2 120 20 1 5 (11062500, [long_pos])
     = Inr ((13452500, [reopened_pos]), 23952500) \<and>
   reversion_exit_cond 120 20 1 long_pos \<and>
   snd (reversion_exits 120 20 1 (11062500, [long_pos])) = [] \<and>
   reversion_entry 2 2 120 20 1 5 (reversion_exits 120 20 1 (11062500, [long_pos]))
     = Inr (13452500, [reopened_pos]) \<and>
   hybrid_body 30 2 2 2 120 60 1 5 40 1 5 (11062500, [long_pos], [])
     = Inr ((13452500, [reopened_pos], []), 23952500) \<and>
   fst (snd (hybrid_exits 30 120 60 1 40 1 (11062500, [long_pos], []))) = [] \<and>
   hybrid_entries 30 2 2 2 120 60 1 5 40 1 5
       (hybrid_exits 30 120 60 1 40 1 (11062500, [long_pos], []))
     = Inr (13452500, [reopened_pos], []) \<and>
   hybrid_body 30 2 2 2 120 40 1 5 20 1 5 (11062500, [], [long_pos])
     = Inr ((13452500, [], [reopened_pos]), 23952500) \<and>
   hybrid_reversion_exit_cond 120 20 1 long_pos \<and>
   snd (snd (hybrid_exits 30 120 40 1 20 1 (11062500, [], [long_pos]))) = [] \<and>
   hybrid_entries 30 2 2 2 120 40 1 5 20 1 5
       (hybrid_exits 30 120 40 1 20 1 (11062500, [], [long_pos]))
     = Inr (13452500, [], [reopened_pos])"
proof -
  note mom = exits_before_entries [where thr = 30 and m = 2 and m_rev = 2 and d = 2
      and p = 120 and rsi = 60 and macd = 1 and atr = 5 and rsi_rev = 40 and macd_rev = 1
      and atr_rev = 5 and st = "(11062500, [long_pos])" and st' = "(13452500, [reopened_pos])"
      and a = 23952500 and hst = "(11062500, [long_pos], [])"
      and hst' = "(13452500, [reopened_pos], [])" and pos = long_pos]
  note rev = exits_before_entries [where thr = 30 and m = 2 and m_rev = 2 and d = 2
      and p = 120 and rsi = 20 and macd = 1 and atr = 5 and rsi_rev = 20 and macd_rev = 1
      and atr_rev = 5 and st = "(11062500, [long_pos])" and st' = "(13452500, [reopened_pos])"
      and a = 23952500 and hst = "(11062500, [], [long_pos])"
      and hst' = "(13452500, [], [reopened_pos])" and pos = long_pos]
  note hrev = exits_before_entries [where thr = 30 and m = 2 and m_rev = 2 and d = 2
      and p = 120 and rsi = 40 and macd = 1 and atr = 5 and rsi_rev = 20 and macd_rev = 1
      and atr_rev = 5 and st = "(11062500, [long_pos])" and st' = "(13452500, [reopened_pos])"
      and a = 23952500 and hst = "(11062500, [], [long_pos])"
      and hst' = "(13452500, [], [reopened_pos])" and pos = long_pos]
  have m1: "momentum_entry 30 2 2 120 60 1 5 (momentum_exits 30 120 60 1 (11062500, [long_pos]))
     = Inr (13452500, [reopened_pos])"
    using mom [THEN conjunct1] reopen_bodies(1) by (rule mp)
  have m4: "snd (momentum_exits 30 120 60 1 (11062500, [long_pos])) = []"
    using mom [THEN conjunct2, THEN conjunct2, THEN conjunct2, THEN conjunct1]
      reopen_conds(1) by simp
  have r2: "reversion_entry 2 2 120 20 1 5 (reversion_exits 120 20 1 (11062500, [long_pos]))
     = Inr (13452500, [reopened_pos])"
    using rev [THEN conjunct2, THEN conjunct1] reopen_bodies(2) by (rule mp)
  have r5: "snd (reversion_exits 120 20 1 (11062500, [long_pos])) = []"
    using rev [THEN conjunct2, THEN conjunct2, THEN conjunct2, THEN conjunct2, THEN conjunct1]
      reopen_conds(2) by simp
  have h3: "hybrid_entries 30 2 2 2 120 60 1 5 40 1 5
       (hybrid_exits 30 120 60 1 40 1 (11062500, [long_pos], []))
     = Inr (13452500, [reopened_pos], [])"
    using mom [THEN conjunct2, THEN conjunct2, THEN conjunct1] reopen_bodies(3) by (rule mp)
  have h6: "fst (snd (hybrid_exits 30 120 60 1 40 1 (11062500, [long_pos], []))) = []"
    using mom [THEN conjunct2, THEN conjunct2, THEN conjunct2, THEN conjunct2, THEN conjunct2,
        THEN conjunct1] reopen_conds(1) by simp
  have h3r: "hybrid_entries 30 2 2 2 120 40 1 5 20 1 5
       (hybrid_exits 30 120 40 1 20 1 (11062500, [], [long_pos]))
     = Inr (13452500, [], [reopened_pos])"
    using hrev [THEN conjunct2, THEN conjunct2, THEN conjunct1] reopen_bodies(4) by (rule mp)
  have h7: "snd (snd (hybrid_exits 30 120 40 1 20 1 (11062500, [], [long_pos]))) = []"
    using hrev [THEN conjunct2, THEN conjunct2, THEN conjunct2, THEN conjunct2, THEN conjunct2,
        THEN conjunct2, THEN conjunct1] reopen_conds(3) by simp
  from m1 m4 r2 r5 h3 h6 h3r h7 reopen_bodies reopen_conds show ?thesis
    by (intro conjI)
qed

subsection \<open>The cash of a LONG round trip\<close>

lemma close_long_single:
  "pos_type pos = LONG \<Longrightarrow> c pos \<Longrightarrow>
     close_positions c p [pos] (cash, [pos])
       = (cash + (of_int (quantity pos) * p * price_multiplier
                  - of_int (quantity pos) * TAX * MULTIPLIER), [])"
  by (simp add: close_positions_single)

lemma momentum_long_round_trip:
  assumes b: "momentum_body thr m d_in p_in rsi_in macd_in atr_in (cash, [])
                = Inr ((cash_in, [pos]), a_in)"
    and lng: "pos_type pos = LONG"
    and out: "momentum_exit_cond thr p_out rsi_out macd_out pos"
  shows "0 < quantity pos \<and> entry_price pos = p_in \<and>
         cash_in = cash - of_int (quantity pos) * p_in * price_multiplier \<and>
         momentum_exits thr p_out rsi_out macd_out (cash_in, [pos])
           = (cash - of_int (quantity pos) * p_in * price_multiplier
                + of_int (quantity pos) * p_out * price_multiplier
                - of_int (quantity pos) * TAX * MULTIPLIER, [])"
proof -
  from b have e: "momentum_entry thr m d_in p_in rsi_in macd_in atr_in (cash, [])
                    = Inr (cash_in, [pos])"
    by (simp add: momentum_body_unfold momentum_exits_def)
  from momentum_entry_long [OF e lng]
  have q: "0 < quantity pos" and ep: "entry_price pos = p_in"
    and c: "cash_in = cash - of_int (quantity pos) * p_in * price_multiplier"
    by simp_all
  have "momentum_exits thr p_out rsi_out macd_out (cash_in, [pos])
          = (cash_in + (of_int (quantity pos) * p_out * price_multiplier
                        - of_int (quantity pos) * TAX * MULTIPLIER), [])"
    using lng out by (simp add: momentum_exits_def close_long_single)
  with q ep c show ?thesis by simp
qed

lemma reversion_long_round_trip:
  assumes b: "reversion_body m d_in p_in rsi_in macd_in atr_in (cash, [])
                = Inr ((cash_in, [pos]), a_in)"
    and lng: "pos_type pos = LONG"
    and out: "reversion_exit_cond p_out rsi_out macd_out pos"
  shows "0 < quantity pos \<and> entry_price pos = p_in \<and>
         cash_in = cash - of_int (quantity pos) * p_in * price_multiplier \<and>
         reversion_exits p_out rsi_out macd_out (cash_in, [pos])
           = (cash - of_int (quantity pos) * p_in * price_multiplier
                + of_int (quantity pos) * p_out * price_multiplier
                - of_int (quantity pos) * TAX * MULTIPLIER, [])"
proof -
  from b have e: "reversion_entry m d_in p_in rsi_in macd_in atr_in (cash, [])
                    = Inr (cash_in, [pos])"
    by (simp add: reversion_body_unfold reversion_exits_def)
  from reversion_entry_long [OF e lng]
  have q: "0 < quantity pos" and ep: "entry_price pos = p_in"
    and c: "cash_in = cash - of_int (quantity pos) * p_in * price_multiplier"
    by simp_all
  have "reversion_exits p_out rsi_out macd_out (cash_in, [pos])
          = (cash_in + (of_int (quantity pos) * p_out * price_multiplier
                        - of_int (quantity pos) * TAX * MULTIPLIER), [])"
    using lng out by (simp add: reversion_exits_def close_long_single)
  with q ep c show ?thesis by simp
qed

lemma hybrid_momentum_long_round_trip:
  assumes b: "hybrid_body thr m m_rev d_in p_in rsi_in macd_in atr_in rsi_rev_in macd_rev_in
                atr_rev_in (cash, [], []) = Inr ((cash_in, [pos], []), a_in)"
    and lng: "pos_type pos = LONG"
    and out: "momentum_exit_cond thr p_out rsi_out macd_out pos"
  shows "0 < quantity pos \<and> entry_price pos = p_in \<and>
         cash_in = cash - of_int (quantity pos) * p_in * price_multiplier \<and>
         hybrid_exits thr p_out rsi_out macd_out rsi_rev_out macd_rev_out (cash_in, [pos], [])
           = (cash - of_int (quantity pos) * p_in * price_multiplier
                + of_int (quantity pos) * p_out * price_multiplier
                - of_int (quantity pos) * TAX * MULTIPLIER, [], [])"
proof -
  from b have e: "hybrid_entries thr m m_rev d_in p_in rsi_in macd_in atr_in rsi_rev_in
                    macd_rev_in atr_rev_in (cash, [], []) = Inr (cash_in, [pos], [])"
    by (simp add: hybrid_body_unfold hybrid_exits_flat)
  from hybrid_entered_momentum_long [OF e lng]
  have q: "0 < quantity pos" and ep: "entry_price pos = p_in"
    and c: "cash_in = cash - of_int (quantity pos) * p_in * price_multiplier"
    by simp_all
  have "hybrid_exits thr p_out rsi_out macd_out rsi_rev_out macd_rev_out (cash_in, [pos], [])
          = (cash_in + (of_int (quantity pos) * p_out * price_multiplier
                        - of_int (quantity pos) * TAX * MULTIPLIER), [], [])"
    using lng out by (simp add: hybrid_exits_momentum_single close_long_single)
  with q ep c show ?thesis by simp
qed

lemma hybrid_reversion_long_round_trip:
  assumes b: "hybrid_body thr m m_rev d_in p_in rsi_in macd_in atr_in rsi_rev_in macd_rev_in
                atr_rev_in (cash, [], []) = Inr ((cash_in, [], [pos]), a_in)"
    and lng: "pos_type pos = LONG"
    and out: "hybrid_reversion_exit_cond p_out rsi_rev_out macd_rev_out pos"
  shows "0 < quantity pos \<and> entry_price pos = p_in \<and>
         cash_in = cash - of_int (quantity pos) * p_in * price_multiplier \<and>
         hybrid_exits thr p_out rsi_out macd_out rsi_rev_out macd_rev_out (cash_in, [], [pos])
           = (cash - of_int (quantity pos) * p_in * price_multiplier
                + of_int (quantity pos) * p_out * price_multiplier
                - of_int (quantity pos) * TAX * MULTIPLIER, [], [])"
proof -
  from b have e: "hybrid_entries thr m m_rev d_in p_in rsi_in macd_in atr_in rsi_rev_in
                    macd_rev_in atr_rev_in (cash, [], []) = Inr (cash_in, [], [pos])"
    by (simp add: hybrid_body_unfold hybrid_exits_flat)
  from hybrid_entered_reversion_long [OF e lng]
  have q: "0 < quantity pos" and ep: "entry_price pos = p_in"
    and c: "cash_in = cash - of_int (quantity pos) * p_in * price_multiplier"
    by simp_all
  have "hybrid_exits thr p_out rsi_out macd_out rsi_rev_out macd_rev_out (cash_in, [], [pos])
          = (cash_in + (of_int (quantity pos) * p_out * price_multiplier
                        - of_int (quantity pos) * TAX * MULTIPLIER), [], [])"
    using lng out by (simp add: hybrid_exits_reversion_single close_long_single)
  with q ep c show ?thesis by simp
qed

text \<open>
  Claim C4. A LONG opened from a flat account with cash \<open>cash\<close> at price \<open>p_in\<close>
  leaves the cash \<open>cash - quantity * p_in * price_multiplier\<close>, and the exit loop of a
  row at price \<open>p_out\<close> on which the position meets its exit condition leaves
  \<open>cash - quantity * p_in * price_multiplier + quantity * p_out * price_multiplier
  - quantity * TAX * MULTIPLIER\<close> and no position; for the momentum and the reversion
  functions and for both tracks of the two-strategy functions.
\<close>

theorem long_round_trip_cash:
  "(momentum_body thr m d_in p_in rsi_in macd_in atr_in (cash, [])
      = Inr ((cash_in, [pos]), a_in) \<and>
    pos_type pos = LONG \<and> momentum_exit_cond thr p_out rsi_out macd_out pos \<longrightarrow>
      0 < quantity pos \<and> entry_price pos = p_in \<and>
      cash_in = cash - of_int (quantity pos) * p_in * price_multiplier \<and>
      momentum_exits thr p_out rsi_out macd_out (cash_in, [pos])
        = (cash - of_int (quantity pos) * p_in * price_multiplier
             + of_int (quantity pos) * p_out * price_multiplier
             - of_int (quantity pos) * TAX * MULTIPLIER, [])) \<and>
   (reversion_body m d_in p_in rsi_in macd_in atr_in (cash, [])
      = Inr ((cash_in, [pos]), a_in) \<and>
    pos_type pos = LONG \<and> reversion_exit_cond p_out rsi_out macd_out pos \<longrightarrow>
      0 < quantity pos \<and> entry_price pos = p_in \<and>
      cash_in = cash - of_int (quantity pos) * p_in * price_multiplier \<and>
      reversion_exits p_out rsi_out macd_out (cash_in, [pos])
        = (cash - of_int (quantity pos) * p_in * price_multiplier
             + of_int (quantity pos) * p_out * price_multiplier
             - of_int (quantity pos) * TAX * MULTIPLIER, [])) \<and>
   (hybrid_body thr m m_rev d_in p_in rsi_in macd_in atr_in rsi_rev_in macd_rev_in atr_rev_in
      (cash, [], []) = Inr ((cash_in, [pos], []), a_in) \<and>
    pos_type pos = LONG \<and> momentum_exit_cond thr p_out rsi_out macd_out pos \<longrightarrow>
      0 < quantity pos \<and> entry_price pos = p_in \<and>
      cash_in = cash - of_int (quantity pos) * p_in * price_multiplier \<and>
      hybrid_exits thr p_out rsi_out macd_out rsi_rev_out macd_rev_out (cash_in, [pos], [])
        = (cash - of_int (quantity pos) * p_in * price_multiplier
             + of_int (quantity pos) * p_out * price_multiplier
             - of_int (quantity pos) * TAX * MULTIPLIER, [], [])) \<and>
   (hybrid_body thr m m_rev d_in p_in rsi_in macd_in atr_in rsi_rev_in macd_rev_in atr_rev_in
      (cash, [], []) = Inr ((cash_in, [], [pos]), a_in) \<and>
    pos_type pos = LONG \<and> hybrid_reversion_exit_cond p_out rsi_rev_out macd_rev_out pos \<longrightarrow>
      0 < quantity pos \<and> entry_price pos = p_in \<and>
      cash_in = cash - of_int (quantity pos) * p_in * price_multiplier \<and>
      hybrid_exits thr p_out rsi_out macd_out rsi_rev_out macd_rev_out (cash_in, [], [pos])
        = (cash - of_int (quantity pos) * p_in * price_multiplier
             + of_int (quantity pos) * p_out * price_multiplier
             - of_int (quantity pos) * TAX * MULTIPLIER, [], []))"
  apply (intro conjI)
  subgoal by (intro impI, elim conjE) (rule momentum_long_round_trip; assumption)
  subgoal by (intro impI, elim conjE) (rule reversion_long_round_trip; assumption)
  subgoal by (intro impI, elim conjE) (rule hybrid_momentum_long_round_trip; assumption)
  subgoal by (intro impI, elim conjE) (rule hybrid_reversion_long_round_trip; assumption)
  done

theorem long_round_trip_cash_witness:
  "hybrid_body 30 2 2 1 100 60 1 5 40 1 5 (22000000, [], [])
     = Inr ((11062500, [long_pos], []), 22000000) \<and>
   pos_type long_pos = LONG \<and> quantity long_pos = 5 \<and> entry_price long_pos = 100 \<and>
   momentum_exit_cond 30 120 40 1 long_pos \<and>
   (11062500 :: real) = 22000000 - 5 * 100 * price_multiplier \<and>
   hybrid_exits 30 120 40 1 40 1 (11062500, [long_pos], [])
     = (22000000 - 5 * 100 * price_multiplier + 5 * 120 * price_multiplier
          - 5 * TAX * MULTIPLIER, [], []) \<and>
   22000000 - 5 * 100 * price_multiplier + 5 * 120 * price_multiplier - 5 * TAX * MULTIPLIER
     = (23952500 :: real) \<and>
   momentum_body 30 2 1 100 60 1 5 (22000000, []) = Inr ((11062500, [long_pos]), 22000000) \<and>
   momentum_exits 30 120 40 1 (11062500, [long_pos])
     = (22000000 - 5 * 100 * price_multiplier + 5 * 120 * price_multiplier
          - 5 * TAX * MULTIPLIER, []) \<and>
   reversion_body 2 1 100 20 1 5 (22000000, []) = Inr ((11062500, [long_pos]), 22000000) \<and>
   reversion_exit_cond 120 40 1 long_pos \<and>
   reversion_exits 120 40 1 (11062500, [long_pos])
     = (22000000 - 5 * 100 * price_multiplier + 5 * 120 * price_multiplier
          - 5 * TAX * MULTIPLIER, []) \<and>
   hybrid_body 30 2 2 1 100 40 1 5 20 1 5 (22000000, [], [])
     = Inr ((11062500, [], [long_pos]), 22000000) \<and>
   hybrid_reversion_exit_cond 120 40 1 long_pos \<and>
   hybrid_exits 30 120 40 1 40 1 (11062500, [], [long_pos])
     = (22000000 - 5 * 100 * price_multiplier + 5 * 120 * price_multiplier
          - 5 * TAX * MULTIPLIER, [], [])"
proof -
  have rc: "reversion_exit_cond 120 40 1 long_pos"
    by (simp add: reversion_exit_cond_def long_pos_def)
  note mom = long_round_trip_cash [where thr = 30 and m = 2 and m_rev = 2 and d_in = 1
      and p_in = 100 and rsi_in = 60 and macd_in = 1 and atr_in = 5 and rsi_rev_in = 40
      and macd_rev_in = 1 and atr_rev_in = 5 and cash = 22000000 and cash_in = 11062500
      and pos = long_pos and a_in = 22000000 and p_out = 120 and rsi_out = 40
      and macd_out = 1 and rsi_rev_out = 40 and macd_rev_out = 1]
  note rev = long_round_trip_cash [where thr = 30 and m = 2 and m_rev = 2 and d_in = 1
      and p_in = 100 and rsi_in = 20 and macd_in = 1 and atr_in = 5 and rsi_rev_in = 20
      and macd_rev_in = 1 and atr_rev_in = 5 and cash = 22000000 and cash_in = 11062500
      and pos = long_pos and a_in = 22000000 and p_out = 120 and rsi_out = 40
      and macd_out = 1 and rsi_rev_out = 40 and macd_rev_out = 1]
  note hrev = long_round_trip_cash [where thr = 30 and m = 2 and m_rev = 2 and d_in = 1
      and p_in = 100 and rsi_in = 40 and macd_in = 1 and atr_in = 5 and rsi_rev_in = 20
      and macd_rev_in = 1 and atr_rev_in = 5 and cash = 22000000 and cash_in = 11062500
      and pos = long_pos and a_in = 22000000 and p_out = 120 and rsi_out = 40
      and macd_out = 1 and rsi_rev_out = 40 and macd_rev_out = 1]
  have t1: "momentum_exits 30 120 40 1 (11062500, [long_pos])
     = (22000000 - 5 * 100 * price_multiplier + 5 * 120 * price_multiplier
          - 5 * TAX * MULTIPLIER, [])"
    using mom [THEN conjunct1] unfolding long_entry_bodies
    by (simp add: long_pos_facts)
  have t2: "reversion_exits 120 40 1 (11062500, [long_pos])
     = (22000000 - 5 * 100 * price_multiplier + 5 * 120 * price_multiplier
          - 5 * TAX * MULTIPLIER, [])"
    using rev [THEN conjunct2, THEN conjunct1] unfolding long_entry_bodies
    by (simp add: long_pos_facts rc)
  have t3: "hybrid_exits 30 120 40 1 40 1 (11062500, [long_pos], [])
     = (22000000 - 5 * 100 * price_multiplier + 5 * 120 * price_multiplier
          - 5 * TAX * MULTIPLIER, [], [])"
    using mom [THEN conjunct2, THEN conjunct2, THEN conjunct1] unfolding long_entry_bodies
    by (simp add: long_pos_facts)
  have t4: "hybrid_exits 30 120 40 1 40 1 (11062500, [], [long_pos])
     = (22000000 - 5 * 100 * price_multiplier + 5 * 120 * price_multiplier
          - 5 * TAX * MULTIPLIER, [], [])"
    using hrev [THEN conjunct2, THEN conjunct2, THEN conjunct2] unfolding long_entry_bodies
    by (simp add: long_pos_facts)
  have n: "(11062500 :: real) = 22000000 - 5 * 100 * price_multiplier"
    "22000000 - 5 * 100 * price_multiplier + 5 * 120 * price_multiplier - 5 * TAX * MULTIPLIER
       = (23952500 :: real)"
    by (simp_all add: const_defs)
  from t1 t2 t3 t4 n long_entry_bodies long_pos_facts rc show ?thesis
    by (intro conjI)
qed

subsection \<open>Whole runs\<close>

text \<open>
  The loop starts at the second row and writes at the label of the row it processes. When
  the labels are distinct the first row of the output keeps the initial value, so the
  first asset value of an output table is \<open>ASSET_VALUE\<close>.
\<close>

lemma loc_set_length: "length (loc_set index date v column) = min (length index) (length column)"
  by (simp add: loc_set_def)

lemma loc_set_nth:
  "i < length index \<Longrightarrow> i < length column \<Longrightarrow>
     loc_set index date v column ! i = (if index ! i = date then v else column ! i)"
  by (simp add: loc_set_def)

lemma bar_loop_first_kept:
  assumes "bar_loop bar index rows (st, asset) = Inr (st', asset')"
    and "\<And>s row s' d v. bar s row = Inr (s', Some (d, v)) \<Longrightarrow> d = label row"
    and "i < length index" and "length asset = length index"
    and "index ! i \<notin> label ` set rows"
  shows "length asset' = length index \<and> asset' ! i = asset ! i"
  using assms(1,4,5)
proof (induction rows arbitrary: st asset)
  case Nil
  then show ?case by simp
next
  case (Cons row rows)
  from Cons.prems(1) obtain s1 out where b: "bar st row = Inr (s1, out)"
    by (auto split: sum.splits)
  have rest: "index ! i \<notin> label ` set rows" and this_row: "index ! i \<noteq> label row"
    using Cons.prems(3) by auto
  show ?case
  proof (cases out)
    case None
    with Cons.prems(1) b have "bar_loop bar index rows (s1, asset) = Inr (st', asset')"
      by simp
    from Cons.IH [OF this Cons.prems(2) rest] show ?thesis .
  next
    case (Some dv)
    obtain d v where dv: "dv = (d, v)" by (cases dv)
    have d: "d = label row"
      using b Some dv assms(2) by blast
    from Some dv Cons.prems(1) b
    have l: "bar_loop bar index rows (s1, loc_set index d v asset) = Inr (st', asset')"
      by simp
    have len: "length (loc_set index d v asset) = length index"
      using Cons.prems(2) by (simp add: loc_set_length)
    have "loc_set index d v asset ! i = asset ! i"
      using assms(3) Cons.prems(2) this_row d by (simp add: loc_set_nth)
    with Cons.IH [OF l len rest] show ?thesis by simp
  qed
qed

lemma run_first_asset:
  assumes "run bar init label data = Inr t"
    and "\<And>s row s' d v. bar s row = Inr (s', Some (d, v)) \<Longrightarrow> d = label row"
    and "data \<noteq> []" and "distinct (map label data)"
  shows "Asset t \<noteq> [] \<and> hd (Asset t) = ASSET_VALUE"
proof -
  obtain r rest where data: "data = r # rest"
    using assms(3) by (cases data) auto
  from assms(1) obtain st asset where
    l: "bar_loop bar (map label data) (tl data) (init, replicate (length data) ASSET_VALUE)
          = Inr (st, asset)"
    and t: "Asset t = asset"
    by (auto simp: run_def split: sum.splits)
  have "map label data ! 0 \<notin> label ` set (tl data)"
    using assms(4) unfolding data by auto
  with bar_loop_first_kept [where i = 0, OF l assms(2)]
  have "length asset = length data" and "asset ! 0 = ASSET_VALUE"
    unfolding data by simp_all
  then show ?thesis
    unfolding t data by (cases asset) simp_all
qed

lemma bar_labels:
  "momentum_algo_bar thr m st row = Inr (st', Some (d, v)) \<Longrightarrow> d = Date row"
  "dynamic_momentum_algo_bar thr st row = Inr (st', Some (d, v)) \<Longrightarrow> d = Date row"
  "reversion_algo_bar m st row = Inr (st', Some (d, v)) \<Longrightarrow> d = Date row"
  "dynamic_reversion_algo_bar st row = Inr (st', Some (d, v)) \<Longrightarrow> d = Date row"
  "algo_bar thr m m_rev hst hrow = Inr (hst', Some (d, v)) \<Longrightarrow> d = Date hrow"
  "dynamic_algo_bar thr hst hrow = Inr (hst', Some (d, v)) \<Longrightarrow> d = Date hrow"
  by (simp_all add: momentum_algo_bar_processed dynamic_momentum_algo_bar_processed
        reversion_algo_bar_processed dynamic_reversion_algo_bar_processed algo_bar_processed
        dynamic_algo_bar_processed)

lemma output_first_asset:
  "momentum_algo data thr m = Inr t \<Longrightarrow> data \<noteq> [] \<Longrightarrow> distinct (map Date data)
     \<Longrightarrow> Asset t \<noteq> [] \<and> hd (Asset t) = ASSET_VALUE"
  "dynamic_momentum_algo data thr = Inr t \<Longrightarrow> data \<noteq> [] \<Longrightarrow> distinct (map Date data)
     \<Longrightarrow> Asset t \<noteq> [] \<and> hd (Asset t) = ASSET_VALUE"
  "reversion_algo data m = Inr t \<Longrightarrow> data \<noteq> [] \<Longrightarrow> distinct (map Date data)
     \<Longrightarrow> Asset t \<noteq> [] \<and> hd (Asset t) = ASSET_VALUE"
  "dynamic_reversion_algo data = Inr t \<Longrightarrow> data \<noteq> [] \<Longrightarrow> distinct (map Date data)
     \<Longrightarrow> Asset t \<noteq> [] \<and> hd (Asset t) = ASSET_VALUE"
  "algo hdata thr m m_rev = Inr t \<Longrightarrow> hdata \<noteq> [] \<Longrightarrow> distinct (map Date hdata)
     \<Longrightarrow> Asset t \<noteq> [] \<and> hd (Asset t) = ASSET_VALUE"
  "dynamic_algo hdata thr = Inr t \<Longrightarrow> hdata \<noteq> [] \<Longrightarrow> distinct (map Date hdata)
     \<Longrightarrow> Asset t \<noteq> [] \<and> hd (Asset t) = ASSET_VALUE"
  unfolding momentum_algo_def dynamic_momentum_algo_def reversion_algo_def
    dynamic_reversion_algo_def algo_def dynamic_algo_def
  by (erule run_first_asset; (erule bar_labels | assumption))+

text \<open>
  Runs over tables of three rows: an entry on the second row, held on the third. The
  single-strategy runs return \<open>single_run_table\<close>, the two-strategy runs
  \<open>hybrid_run_table\<close>.
\<close>

lemma example_runs:
  "momentum_algo [first_row, entry_row, hold_row] 30 2 = Inr single_run_table"
  "dynamic_momentum_algo [first_row, entry_row, hold_row] 30 = Inr single_run_table"
  "reversion_algo [first_row, reversion_entry_row, hold_row] 2 = Inr single_run_table"
  "dynamic_reversion_algo [first_row, reversion_entry_row, hold_row] = Inr single_run_table"
  "algo [hybrid_first_row, hybrid_entry_row, hybrid_hold_row] 30 2 2 = Inr hybrid_run_table"
  "dynamic_algo [hybrid_first_row, hybrid_entry_row, hybrid_hold_row] 30 = Inr hybrid_run_table"
  by (simp_all add: momentum_algo_def dynamic_momentum_algo_def reversion_algo_def
        dynamic_reversion_algo_def algo_def dynamic_algo_def run_def bar_defs body_defs
        const_defs loc_set_def pct_change_def first_row_def entry_row_def hold_row_def
        reversion_entry_row_def hybrid_first_row_def hybrid_entry_row_def hybrid_hold_row_def
        single_run_table_def hybrid_run_table_def)

subsection \<open>The asset column of a run\<close>

lemma bar_loop_append:
  "bar_loop bar index (xs @ ys) s =
     (case bar_loop bar index xs s of Inl e \<Rightarrow> Inl e | Inr s' \<Rightarrow> bar_loop bar index ys s')"
proof (induction xs arbitrary: s)
  case Nil
  show ?case by (cases s) simp
next
  case (Cons x xs)
  obtain st asset where s: "s = (st, asset)" by (cases s)
  show ?case
    unfolding s by (simp add: Cons.IH split: sum.splits prod.splits option.splits)
qed

lemma run_asset_at:
  assumes r: "run bar init label data = Inr t"
    and labels: "\<And>s row s' d v. bar s row = Inr (s', Some (d, v)) \<Longrightarrow> d = label row"
    and dist: "distinct (map label data)"
    and data: "data = first # pre @ row # post"
  shows "\<exists>st asset st' out.
           bar_loop bar (map label data) pre (init, replicate (length data) ASSET_VALUE)
             = Inr (st, asset) \<and>
           bar st row = Inr (st', out) \<and>
           Index t ! Suc (length pre) = label row \<and>
           Asset t ! Suc (length pre) = (case out of None \<Rightarrow> ASSET_VALUE | Some (d, v) \<Rightarrow> v)"
proof -
  let ?idx = "map label data"
  let ?i = "Suc (length pre)"
  let ?a0 = "replicate (length data) ASSET_VALUE"
  from r obtain stf where
    l: "bar_loop bar ?idx (pre @ row # post) (init, ?a0) = Inr (stf, Asset t)"
    and ix: "Index t = ?idx"
    unfolding data by (auto simp: run_def split: sum.splits)
  from l obtain st asset where
    p: "bar_loop bar ?idx pre (init, ?a0) = Inr (st, asset)"
    and q: "bar_loop bar ?idx (row # post) (st, asset) = Inr (stf, Asset t)"
    by (auto simp: bar_loop_append split: sum.splits)
  from q obtain st' out where b: "bar st row = Inr (st', out)"
    by (auto split: sum.splits)
  have i: "?i < length ?idx" and ii: "?idx ! ?i = label row"
    unfolding data by (simp_all add: nth_append)
  have "label row \<notin> label ` set pre" and "label row \<notin> label ` set post"
    using dist unfolding data by auto
  then have npre: "?idx ! ?i \<notin> label ` set pre" and npost: "?idx ! ?i \<notin> label ` set post"
    by (simp_all only: ii not_False_eq_True)
  have len0: "length ?a0 = length ?idx" by simp
  from bar_loop_first_kept [OF p labels i len0 npre]
  have len: "length asset = length ?idx" and mid: "asset ! ?i = ASSET_VALUE"
    using i by simp_all
  have "Asset t ! ?i = (case out of None \<Rightarrow> ASSET_VALUE | Some (d, v) \<Rightarrow> v)"
  proof (cases out)
    case None
    with q b have "bar_loop bar ?idx post (st', asset) = Inr (stf, Asset t)"
      by simp
    from bar_loop_first_kept [OF this labels i len npost] mid None
    show ?thesis by simp
  next
    case (Some dv)
    obtain d v where dv: "dv = (d, v)" by (cases dv)
    have d: "d = label row"
      using b Some dv labels by blast
    from q b Some dv
    have l2: "bar_loop bar ?idx post (st', loc_set ?idx d v asset) = Inr (stf, Asset t)"
      by simp
    have len2: "length (loc_set ?idx d v asset) = length ?idx"
      using len by (simp add: loc_set_length)
    have "loc_set ?idx d v asset ! ?i = v"
      using i len ii d by (simp add: loc_set_nth)
    with bar_loop_first_kept [OF l2 labels i len2 npost] Some dv
    show ?thesis by simp
  qed
  with p b ix ii show ?thesis by auto
qed

lemma momentum_algo_bar_written:
  assumes "\<not> (RSI row = None \<or> MACD_diff row = None \<or> ATR row = None)"
    and "momentum_algo_bar thr m st row = Inr (st', out)"
  shows "out = Some (Date row,
           (let x = momentum_exits thr (Close row) (the (RSI row)) (the (MACD_diff row)) st
            in fst x + (\<Sum>pos\<leftarrow>snd x. mark_to_market (Close row) pos)))"
  using assms
  by (auto simp: momentum_algo_bar_def momentum_body_unfold total_unrealized_mark Let_def split: sum.splits)

lemma momentum_algo_asset_at:
  assumes r: "momentum_algo data thr m = Inr t"
    and dist: "distinct (map Date data)"
    and data: "data = first # pre @ row # post"
    and defined: "\<not> (RSI row = None \<or> MACD_diff row = None \<or> ATR row = None)"
  shows "\<exists>st asset.
           bar_loop (momentum_algo_bar thr m) (map Date data) pre
               ((ASSET_VALUE, []), replicate (length data) ASSET_VALUE) = Inr (st, asset) \<and>
           Index t ! Suc (length pre) = Date row \<and>
           Asset t ! Suc (length pre) =
             (let x = momentum_exits thr (Close row) (the (RSI row)) (the (MACD_diff row)) st
              in fst x + (\<Sum>pos\<leftarrow>snd x. mark_to_market (Close row) pos))"
proof -
  have "\<exists>st asset st' out.
      bar_loop (momentum_algo_bar thr m) (map Date data) pre ((ASSET_VALUE, []), replicate (length data) ASSET_VALUE)
        = Inr (st, asset) \<and>
      momentum_algo_bar thr m st row = Inr (st', out) \<and>
      Index t ! Suc (length pre) = Date row \<and>
      Asset t ! Suc (length pre) = (case out of None \<Rightarrow> ASSET_VALUE | Some (d, v) \<Rightarrow> v)"
    by (rule run_asset_at [OF r [unfolded momentum_algo_def] _ dist data]) (rule bar_labels(1))
  then obtain st asset st' out where
    p: "bar_loop (momentum_algo_bar thr m) (map Date data) pre
          ((ASSET_VALUE, []), replicate (length data) ASSET_VALUE) = Inr (st, asset)"
    and b: "momentum_algo_bar thr m st row = Inr (st', out)"
    and ix: "Index t ! Suc (length pre) = Date row"
    and av: "Asset t ! Suc (length pre) = (case out of None \<Rightarrow> ASSET_VALUE | Some (d, v) \<Rightarrow> v)"
    by blast
  from av momentum_algo_bar_written [OF defined b] p ix show ?thesis
    by auto
qed

lemma dynamic_momentum_algo_bar_written:
  assumes "\<not> (RSI row = None \<or> MACD_diff row = None \<or> ATR row = None)"
    and "dynamic_momentum_algo_bar thr st row = Inr (st', out)"
  shows "out = Some (Date row,
           (let x = momentum_exits thr (Close row) (the (RSI row)) (the (MACD_diff row)) st
            in fst x + (\<Sum>pos\<leftarrow>snd x. mark_to_market (Close row) pos)))"
  using assms
  by (auto simp: dynamic_momentum_algo_bar_def momentum_body_unfold total_unrealized_mark Let_def split: sum.splits)

lemma dynamic_momentum_algo_asset_at:
  assumes r: "dynamic_momentum_algo data thr = Inr t"
    and dist: "distinct (map Date data)"
    and data: "data = first # pre @ row # post"
    and defined: "\<not> (RSI row = None \<or> MACD_diff row = None \<or> ATR row = None)"
  shows "\<exists>st asset.
           bar_loop (dynamic_momentum_algo_bar thr) (map Date data) pre
               ((ASSET_VALUE, []), replicate (length data) ASSET_VALUE) = Inr (st, asset) \<and>
           Index t ! Suc (length pre) = Date row \<and>
           Asset t ! Suc (length pre) =
             (let x = momentum_exits thr (Close row) (the (RSI row)) (the (MACD_diff row)) st
              in fst x + (\<Sum>pos\<leftarrow>snd x. mark_to_market (Close row) pos))"
proof -
  have "\<exists>st asset st' out.
      bar_loop (dynamic_momentum_algo_bar thr) (map Date data) pre ((ASSET_VALUE, []), replicate (length data) ASSET_VALUE)
        = Inr (st, asset) \<and>
      dynamic_momentum_algo_bar thr st row = Inr (st', out) \<and>
      Index t ! Suc (length pre) = Date row \<and>
      Asset t ! Suc (length pre) = (case out of None \<Rightarrow> ASSET_VALUE | Some (d, v) \<Rightarrow> v)"
    by (rule run_asset_at [OF r [unfolded dynamic_momentum_algo_def] _ dist data]) (rule bar_labels(2))
  then obtain st asset st' out where
    p: "bar_loop (dynamic_momentum_algo_bar thr) (map Date data) pre
          ((ASSET_VALUE, []), replicate (length data) ASSET_VALUE) = Inr (st, asset)"
    and b: "dynamic_momentum_algo_bar thr st row = Inr (st', out)"
    and ix: "Index t ! Suc (length pre) = Date row"
    and av: "Asset t ! Suc (length pre) = (case out of None \<Rightarrow> ASSET_VALUE | Some (d, v) \<Rightarrow> v)"
    by blast
  from av dynamic_momentum_algo_bar_written [OF defined b] p ix show ?thesis
    by auto
qed

lemma reversion_algo_bar_written:
  assumes "\<not> (RSI row = None \<or> MACD_diff row = None \<or> ATR row = None)"
    and "reversion_algo_bar m st row = Inr (st', out)"
  shows "out = Some (Date row,
           (let x = reversion_exits (Close row) (the (RSI row)) (the (MACD_diff row)) st
            in fst x + (\<Sum>pos\<leftarrow>snd x. mark_to_market (Close row) pos)))"
  using assms
  by (auto simp: reversion_algo_bar_def reversion_body_unfold total_unrealized_mark Let_def split: sum.splits)

lemma reversion_algo_asset_at:
  assumes r: "reversion_algo data m = Inr t"
    and dist: "distinct (map Date data)"
    and data: "data = first # pre @ row # post"
    and defined: "\<not> (RSI row = None \<or> MACD_diff row = None \<or> ATR row = None)"
  shows "\<exists>st asset.
           bar_loop (reversion_algo_bar m) (map Date data) pre
               ((ASSET_VALUE, []), replicate (length data) ASSET_VALUE) = Inr (st, asset) \<and>
           Index t ! Suc (length pre) = Date row \<and>
           Asset t ! Suc (length pre) =
             (let x = reversion_exits (Close row) (the (RSI row)) (the (MACD_diff row)) st
              in fst x + (\<Sum>pos\<leftarrow>snd x. mark_to_market (Close row) pos))"
proof -
  have "\<exists>st asset st' out.
      bar_loop (reversion_algo_bar m) (map Date data) pre ((ASSET_VALUE, []), replicate (length data) ASSET_VALUE)
        = Inr (st, asset) \<and>
      reversion_algo_bar m st row = Inr (st', out) \<and>
      Index t ! Suc (length pre) = Date row \<and>
      Asset t ! Suc (length pre) = (case out of None \<Rightarrow> ASSET_VALUE | Some (d, v) \<Rightarrow> v)"
    by (rule run_asset_at [OF r [unfolded reversion_algo_def] _ dist data]) (rule bar_labels(3))
  then obtain st asset st' out where
    p: "bar_loop (reversion_algo_bar m) (map Date data) pre
          ((ASSET_VALUE, []), replicate (length data) ASSET_VALUE) = Inr (st, asset)"
    and b: "reversion_algo_bar m st row = Inr (st', out)"
    and ix: "Index t ! Suc (length pre) = Date row"
    and av: "Asset t ! Suc (length pre) = (case out of None \<Rightarrow> ASSET_VALUE | Some (d, v) \<Rightarrow> v)"
    by blast
  from av reversion_algo_bar_written [OF defined b] p ix show ?thesis
    by auto
qed

lemma dynamic_reversion_algo_bar_written:
  assumes "\<not> (RSI row = None \<or> MACD_diff row = None \<or> ATR row = None)"
    and "dynamic_reversion_algo_bar st row = Inr (st', out)"
  shows "out = Some (Date row,
           (let x = reversion_exits (Close row) (the (RSI row)) (the (MACD_diff row)) st
            in fst x + (\<Sum>pos\<leftarrow>snd x. mark_to_market (Close row) pos)))"
  using assms
  by (auto simp: dynamic_reversion_algo_bar_def reversion_body_unfold total_unrealized_mark Let_def split: sum.splits)

lemma dynamic_reversion_algo_asset_at:
  assumes r: "dynamic_reversion_algo data = Inr t"
    and dist: "distinct (map Date data)"
    and data: "data = first # pre @ row # post"
    and defined: "\<not> (RSI row = None \<or> MACD_diff row = None \<or> ATR row = None)"
  shows "\<exists>st asset.
           bar_loop (dynamic_reversion_algo_bar) (map Date data) pre
               ((ASSET_VALUE, []), replicate (length data) ASSET_VALUE) = Inr (st, asset) \<and>
           Index t ! Suc (length pre) = Date row \<and>
           Asset t ! Suc (length pre) =
             (let x = reversion_exits (Close row) (the (RSI row)) (the (MACD_diff row)) st
              in fst x + (\<Sum>pos\<leftarrow>snd x. mark_to_market (Close row) pos))"
proof -
  have "\<exists>st asset st' out.
      bar_loop (dynamic_reversion_algo_bar) (map Date data) pre ((ASSET_VALUE, []), replicate (length data) ASSET_VALUE)
        = Inr (st, asset) \<and>
      dynamic_reversion_algo_bar st row = Inr (st', out) \<and>
      Index t ! Suc (length pre) = Date row \<and>
      Asset t ! Suc (length pre) = (case out of None \<Rightarrow> ASSET_VALUE | Some (d, v) \<Rightarrow> v)"
    by (rule run_asset_at [OF r [unfolded dynamic_reversion_algo_def] _ dist data]) (rule bar_labels(4))
  then obtain st asset st' out where
    p: "bar_loop (dynamic_reversion_algo_bar) (map Date data) pre
          ((ASSET_VALUE, []), replicate (length data) ASSET_VALUE) = Inr (st, asset)"
    and b: "dynamic_reversion_algo_bar st row = Inr (st', out)"
    and ix: "Index t ! Suc (length pre) = Date row"
    and av: "Asset t ! Suc (length pre) = (case out of None \<Rightarrow> ASSET_VALUE | Some (d, v) \<Rightarrow> v)"
    by blast
  from av dynamic_reversion_algo_bar_written [OF defined b] p ix show ?thesis
    by auto
qed

lemma algo_bar_written:
  assumes "\<not> hrow_undefined hrow"
    and "algo_bar thr m m2 hst hrow = Inr (hst', out)"
  shows "out = Some (Date hrow,
           (let x = hybrid_exits thr (Close hrow) (the (RSI_mom hrow)) (the (MACD_diff_mom hrow))
                 (the (RSI_rev hrow)) (the (MACD_diff_rev hrow)) hst
            in fst x + (\<Sum>pos\<leftarrow>fst (snd x) @ snd (snd x). mark_to_market (Close hrow) pos)))"
  using assms
  by (auto simp: algo_bar_def hybrid_body_unfold total_unrealized_mark Let_def split: sum.splits)

lemma algo_asset_at:
  assumes r: "algo hdata thr m m2 = Inr t"
    and dist: "distinct (map Date hdata)"
    and data: "hdata = hfirst # hpre @ hrow # hpost"
    and defined: "\<not> hrow_undefined hrow"
  shows "\<exists>hst asset.
           bar_loop (algo_bar thr m m2) (map Date hdata) hpre
               ((ASSET_VALUE, [], []), replicate (length hdata) ASSET_VALUE) = Inr (hst, asset) \<and>
           Index t ! Suc (length hpre) = Date hrow \<and>
           Asset t ! Suc (length hpre) =
             (let x = hybrid_exits thr (Close hrow) (the (RSI_mom hrow)) (the (MACD_diff_mom hrow))
                 (the (RSI_rev hrow)) (the (MACD_diff_rev hrow)) hst
              in fst x + (\<Sum>pos\<leftarrow>fst (snd x) @ snd (snd x).
                           mark_to_market (Close hrow) pos))"
proof -
  have "\<exists>st asset st' out.
      bar_loop (algo_bar thr m m2) (map Date hdata) hpre ((ASSET_VALUE, [], []), replicate (length hdata) ASSET_VALUE)
        = Inr (st, asset) \<and>
      algo_bar thr m m2 st hrow = Inr (st', out) \<and>
      Index t ! Suc (length hpre) = Date hrow \<and>
      Asset t ! Suc (length hpre) = (case out of None \<Rightarrow> ASSET_VALUE | Some (d, v) \<Rightarrow> v)"
    by (rule run_asset_at [OF r [unfolded algo_def] _ dist data]) (rule bar_labels(5))
  then obtain hst asset hst' out where
    p: "bar_loop (algo_bar thr m m2) (map Date hdata) hpre
          ((ASSET_VALUE, [], []), replicate (length hdata) ASSET_VALUE) = Inr (hst, asset)"
    and b: "algo_bar thr m m2 hst hrow = Inr (hst', out)"
    and ix: "Index t ! Suc (length hpre) = Date hrow"
    and av: "Asset t ! Suc (length hpre) = (case out of None \<Rightarrow> ASSET_VALUE | Some (d, v) \<Rightarrow> v)"
    by blast
  from av algo_bar_written [OF defined b] p ix show ?thesis
    by auto
qed

lemma dynamic_algo_bar_written:
  assumes "\<not> hrow_undefined hrow"
    and "dynamic_algo_bar thr hst hrow = Inr (hst', out)"
  shows "out = Some (Date hrow,
           (let x = hybrid_exits thr (Close hrow) (the (RSI_mom hrow)) (the (MACD_diff_mom hrow))
                 (the (RSI_rev hrow)) (the (MACD_diff_rev hrow)) hst
            in fst x + (\<Sum>pos\<leftarrow>fst (snd x) @ snd (snd x). mark_to_market (Close hrow) pos)))"
  using assms
  by (auto simp: dynamic_algo_bar_def hybrid_body_unfold total_unrealized_mark Let_def split: sum.splits)

lemma dynamic_algo_asset_at:
  assumes r: "dynamic_algo hdata thr = Inr t"
    and dist: "distinct (map Date hdata)"
    and data: "hdata = hfirst # hpre @ hrow # hpost"
    and defined: "\<not> hrow_undefined hrow"
  shows "\<exists>hst asset.
           bar_loop (dynamic_algo_bar thr) (map Date hdata) hpre
               ((ASSET_VALUE, [], []), replicate (length hdata) ASSET_VALUE) = Inr (hst, asset) \<and>
           Index t ! Suc (length hpre) = Date hrow \<and>
           Asset t ! Suc (length hpre) =
             (let x = hybrid_exits thr (Close hrow) (the (RSI_mom hrow)) (the (MACD_diff_mom hrow))
                 (the (RSI_rev hrow)) (the (MACD_diff_rev hrow)) hst
              in fst x + (\<Sum>pos\<leftarrow>fst (snd x) @ snd (snd x).
                           mark_to_market (Close hrow) pos))"
proof -
  have "\<exists>st asset st' out.
      bar_loop (dynamic_algo_bar thr) (map Date hdata) hpre ((ASSET_VALUE, [], []), replicate (length hdata) ASSET_VALUE)
        = Inr (st, asset) \<and>
      dynamic_algo_bar thr st hrow = Inr (st', out) \<and>
      Index t ! Suc (length hpre) = Date hrow \<and>
      Asset t ! Suc (length hpre) = (case out of None \<Rightarrow> ASSET_VALUE | Some (d, v) \<Rightarrow> v)"
    by (rule run_asset_at [OF r [unfolded dynamic_algo_def] _ dist data]) (rule bar_labels(6))
  then obtain hst asset hst' out where
    p: "bar_loop (dynamic_algo_bar thr) (map Date hdata) hpre
          ((ASSET_VALUE, [], []), replicate (length hdata) ASSET_VALUE) = Inr (hst, asset)"
    and b: "dynamic_algo_bar thr hst hrow = Inr (hst', out)"
    and ix: "Index t ! Suc (length hpre) = Date hrow"
    and av: "Asset t ! Suc (length hpre) = (case out of None \<Rightarrow> ASSET_VALUE | Some (d, v) \<Rightarrow> v)"
    by blast
  from av dynamic_algo_bar_written [OF defined b] p ix show ?thesis
    by auto
qed

text \<open>
  Claim C2. On a processed row each of the six functions computes the cash after the exit
  loops plus the sum of the signed current notionals of the positions still open on all
  tracks, and this is the value that stands in the asset column of the output table at
  the position of that row, when the labels of the table are distinct: the last six
  conjuncts take a run that returns the table \<open>t\<close>, split its input at a row with defined
  indicators, and give the value of \<open>Asset t\<close> there from the state the loop has reached
  before that row. With the cash flow of the entry this gives the profit of an open LONG:
  when a track that is flat after the exits of a row enters a LONG there, and a later row
  finds the account as that entry left it and does not close the position, the asset
  value of the later row is the asset value of the entry row plus
  \<open>quantity * (current_price - entry_price) * price_multiplier\<close>.
\<close>

theorem asset_value_mark_to_market:
  "(momentum_algo_bar thr m st row = Inr (st', Some (date, a)) \<longrightarrow>
      (let x = momentum_exits thr (Close row) (the (RSI row)) (the (MACD_diff row)) st
       in date = Date row \<and> a = fst x + (\<Sum>pos\<leftarrow>snd x. mark_to_market (Close row) pos))) \<and>
   (dynamic_momentum_algo_bar thr st row = Inr (st', Some (date, a)) \<longrightarrow>
      (let x = momentum_exits thr (Close row) (the (RSI row)) (the (MACD_diff row)) st
       in date = Date row \<and> a = fst x + (\<Sum>pos\<leftarrow>snd x. mark_to_market (Close row) pos))) \<and>
   (reversion_algo_bar m st row = Inr (st', Some (date, a)) \<longrightarrow>
      (let x = reversion_exits (Close row) (the (RSI row)) (the (MACD_diff row)) st
       in date = Date row \<and> a = fst x + (\<Sum>pos\<leftarrow>snd x. mark_to_market (Close row) pos))) \<and>
   (dynamic_reversion_algo_bar st row = Inr (st', Some (date, a)) \<longrightarrow>
      (let x = reversion_exits (Close row) (the (RSI row)) (the (MACD_diff row)) st
       in date = Date row \<and> a = fst x + (\<Sum>pos\<leftarrow>snd x. mark_to_market (Close row) pos))) \<and>
   (algo_bar thr m m2 hst hrow = Inr (hst', Some (date, a)) \<longrightarrow>
      (let x = hybrid_exits thr (Close hrow) (the (RSI_mom hrow)) (the (MACD_diff_mom hrow))
                 (the (RSI_rev hrow)) (the (MACD_diff_rev hrow)) hst
       in date = Date hrow \<and>
          a = fst x + (\<Sum>pos\<leftarrow>fst (snd x) @ snd (snd x). mark_to_market (Close hrow) pos))) \<and>
   (dynamic_algo_bar thr hst hrow = Inr (hst', Some (date, a)) \<longrightarrow>
      (let x = hybrid_exits thr (Close hrow) (the (RSI_mom hrow)) (the (MACD_diff_mom hrow))
                 (the (RSI_rev hrow)) (the (MACD_diff_rev hrow)) hst
       in date = Date hrow \<and>
          a = fst x + (\<Sum>pos\<leftarrow>fst (snd x) @ snd (snd x). mark_to_market (Close hrow) pos))) \<and>
   (momentum_body thr m d1 p1 rsi1 macd1 atr1 st = Inr ((cash1, [pos]), a1) \<and>
    snd (momentum_exits thr p1 rsi1 macd1 st) = [] \<and> pos_type pos = LONG \<and>
    \<not> momentum_exit_cond thr p2 rsi2 macd2 pos \<and>
    momentum_body thr m' d2 p2 rsi2 macd2 atr2 (cash1, [pos]) = Inr (st2, a2) \<longrightarrow>
      entry_price pos = p1 \<and>
      a2 = a1 + of_int (quantity pos) * (p2 - entry_price pos) * price_multiplier) \<and>
   (reversion_body m d1 p1 rsi1 macd1 atr1 st = Inr ((cash1, [pos]), a1) \<and>
    snd (reversion_exits p1 rsi1 macd1 st) = [] \<and> pos_type pos = LONG \<and>
    \<not> reversion_exit_cond p2 rsi2 macd2 pos \<and>
    reversion_body m' d2 p2 rsi2 macd2 atr2 (cash1, [pos]) = Inr (st2, a2) \<longrightarrow>
      entry_price pos = p1 \<and>
      a2 = a1 + of_int (quantity pos) * (p2 - entry_price pos) * price_multiplier) \<and>
   (hybrid_body thr m m2 d1 p1 rsi1 macd1 atr1 rsi_r1 macd_r1 atr_r1 hst
      = Inr ((cash1, [pos], []), a1) \<and>
    snd (hybrid_exits thr p1 rsi1 macd1 rsi_r1 macd_r1 hst) = ([], []) \<and> pos_type pos = LONG \<and>
    \<not> momentum_exit_cond thr p2 rsi2 macd2 pos \<and>
    hybrid_body thr m' m2' d2 p2 rsi2 macd2 atr2 rsi_r2 macd_r2 atr_r2 (cash1, [pos], [])
      = Inr (hst2, a2) \<longrightarrow>
      entry_price pos = p1 \<and>
      a2 = a1 + of_int (quantity pos) * (p2 - entry_price pos) * price_multiplier) \<and>
   (hybrid_body thr m m2 d1 p1 rsi1 macd1 atr1 rsi_r1 macd_r1 atr_r1 hst
      = Inr ((cash1, [], [pos]), a1) \<and>
    snd (hybrid_exits thr p1 rsi1 macd1 rsi_r1 macd_r1 hst) = ([], []) \<and> pos_type pos = LONG \<and>
    \<not> hybrid_reversion_exit_cond p2 rsi_r2 macd_r2 pos \<and>
    hybrid_body thr m' m2' d2 p2 rsi2 macd2 atr2 rsi_r2 macd_r2 atr_r2 (cash1, [], [pos])
      = Inr (hst2, a2) \<longrightarrow>
      entry_price pos = p1 \<and>
      a2 = a1 + of_int (quantity pos) * (p2 - entry_price pos) * price_multiplier) \<and>
   (momentum_algo data thr m = Inr t \<and> distinct (map Date data) \<and>
       data = first # pre @ row # post \<and>
       \<not> (RSI row = None \<or> MACD_diff row = None \<or> ATR row = None) \<longrightarrow>
         (\<exists>st asset.
                bar_loop (momentum_algo_bar thr m) (map Date data) pre
                    ((ASSET_VALUE, []), replicate (length data) ASSET_VALUE) = Inr (st, asset) \<and>
                Index t ! Suc (length pre) = Date row \<and>
                Asset t ! Suc (length pre) =
                  (let x = momentum_exits thr (Close row) (the (RSI row)) (the (MACD_diff row)) st
                   in fst x + (\<Sum>pos\<leftarrow>snd x. mark_to_market (Close row) pos)))) \<and>
   (dynamic_momentum_algo data thr = Inr t \<and> distinct (map Date data) \<and>
       data = first # pre @ row # post \<and>
       \<not> (RSI row = None \<or> MACD_diff row = None \<or> ATR row = None) \<longrightarrow>
         (\<exists>st asset.
                bar_loop (dynamic_momentum_algo_bar thr) (map Date data) pre
                    ((ASSET_VALUE, []), replicate (length data) ASSET_VALUE) = Inr (st, asset) \<and>
                Index t ! Suc (length pre) = Date row \<and>
                Asset t ! Suc (length pre) =
                  (let x = momentum_exits thr (Close row) (the (RSI row)) (the (MACD_diff row)) st
                   in fst x + (\<Sum>pos\<leftarrow>snd x. mark_to_market (Close row) pos)))) \<and>
   (reversion_algo data m = Inr t \<and> distinct (map Date data) \<and>
       data = first # pre @ row # post \<and>
       \<not> (RSI row = None \<or> MACD_diff row = None \<or> ATR row = None) \<longrightarrow>
         (\<exists>st asset.
                bar_loop (reversion_algo_bar m) (map Date data) pre
                    ((ASSET_VALUE, []), replicate (length data) ASSET_VALUE) = Inr (st, asset) \<and>
                Index t ! Suc (length pre) = Date row \<and>
                Asset t ! Suc (length pre) =
                  (let x = reversion_exits (Close row) (the (RSI row)) (the (MACD_diff row)) st
                   in fst x + (\<Sum>pos\<leftarrow>snd x. mark_to_market (Close row) pos)))) \<and>
   (dynamic_reversion_algo data = Inr t \<and> distinct (map Date data) \<and>
       data = first # pre @ row # post \<and>
       \<not> (RSI row = None \<or> MACD_diff row = None \<or> ATR row = None) \<longrightarrow>
         (\<exists>st asset.
                bar_loop (dynamic_reversion_algo_bar) (map Date data) pre
                    ((ASSET_VALUE, []), replicate (length data) ASSET_VALUE) = Inr (st, asset) \<and>
                Index t ! Suc (length pre) = Date row \<and>
                Asset t ! Suc (length pre) =
                  (let x = reversion_exits (Close row) (the (RSI row)) (the (MACD_diff row)) st
                   in fst x + (\<Sum>pos\<leftarrow>snd x. mark_to_market (Close row) pos)))) \<and>
   (algo hdata thr m m2 = Inr t \<and> distinct (map Date hdata) \<and>
       hdata = hfirst # hpre @ hrow # hpost \<and> \<not> hrow_undefined hrow \<longrightarrow>
         (\<exists>hst asset.
                bar_loop (algo_bar thr m m2) (map Date hdata) hpre
                    ((ASSET_VALUE, [], []), replicate (length hdata) ASSET_VALUE) = Inr (hst, asset) \<and>
                Index t ! Suc (length hpre) = Date hrow \<and>
                Asset t ! Suc (length hpre) =
                  (let x = hybrid_exits thr (Close hrow) (the (RSI_mom hrow)) (the (MACD_diff_mom hrow))
                      (the (RSI_rev hrow)) (the (MACD_diff_rev hrow)) hst
                   in fst x + (\<Sum>pos\<leftarrow>fst (snd x) @ snd (snd x).
                                mark_to_market (Close hrow) pos)))) \<and>
   (dynamic_algo hdata thr = Inr t \<and> distinct (map Date hdata) \<and>
       hdata = hfirst # hpre @ hrow # hpost \<and> \<not> hrow_undefined hrow \<longrightarrow>
         (\<exists>hst asset.
                bar_loop (dynamic_algo_bar thr) (map Date hdata) hpre
                    ((ASSET_VALUE, [], []), replicate (length hdata) ASSET_VALUE) = Inr (hst, asset) \<and>
                Index t ! Suc (length hpre) = Date hrow \<and>
                Asset t ! Suc (length hpre) =
                  (let x = hybrid_exits thr (Close hrow) (the (RSI_mom hrow)) (the (MACD_diff_mom hrow))
                      (the (RSI_rev hrow)) (the (MACD_diff_rev hrow)) hst
                   in fst x + (\<Sum>pos\<leftarrow>fst (snd x) @ snd (snd x).
                                mark_to_market (Close hrow) pos))))"
  apply (intro conjI)
  subgoal
    by (simp add: momentum_algo_bar_processed momentum_body_unfold total_unrealized_mark Let_def)
  subgoal
    by (simp add: dynamic_momentum_algo_bar_processed momentum_body_unfold total_unrealized_mark
          Let_def)
  subgoal
    by (simp add: reversion_algo_bar_processed reversion_body_unfold total_unrealized_mark Let_def)
  subgoal
    by (simp add: dynamic_reversion_algo_bar_processed reversion_body_unfold
          total_unrealized_mark Let_def)
  subgoal
    by (simp add: algo_bar_processed hybrid_body_unfold total_unrealized_mark Let_def)
  subgoal
    by (simp add: dynamic_algo_bar_processed hybrid_body_unfold total_unrealized_mark Let_def)
  subgoal
    by (intro impI, elim conjE) (rule momentum_body_long_pnl; assumption)
  subgoal
    by (intro impI, elim conjE) (rule reversion_body_long_pnl; assumption)
  subgoal
    by (intro impI, elim conjE) (rule hybrid_body_momentum_long_pnl; assumption)
  subgoal
    by (intro impI, elim conjE) (rule hybrid_body_reversion_long_pnl; assumption)
    subgoal
    by (intro impI, elim conjE) (rule momentum_algo_asset_at; assumption)
  subgoal
    by (intro impI, elim conjE) (rule dynamic_momentum_algo_asset_at; assumption)
  subgoal
    by (intro impI, elim conjE) (rule reversion_algo_asset_at; assumption)
  subgoal
    by (intro impI, elim conjE) (rule dynamic_reversion_algo_asset_at; assumption)
  subgoal
    by (intro impI, elim conjE) (rule algo_asset_at; assumption)
  subgoal
    by (intro impI, elim conjE) (rule dynamic_algo_asset_at; assumption)
  done

lemma run_prefixes:
  "bar_loop (momentum_algo_bar 30 2) [0, 1, 2] [entry_row]
       ((ASSET_VALUE, []), [ASSET_VALUE, ASSET_VALUE, ASSET_VALUE])
     = Inr ((101562500, [entered_pos]), [ASSET_VALUE, ASSET_VALUE, ASSET_VALUE])"
  "bar_loop (dynamic_momentum_algo_bar 30) [0, 1, 2] [entry_row]
       ((ASSET_VALUE, []), [ASSET_VALUE, ASSET_VALUE, ASSET_VALUE])
     = Inr ((101562500, [entered_pos]), [ASSET_VALUE, ASSET_VALUE, ASSET_VALUE])"
  "bar_loop (reversion_algo_bar 2) [0, 1, 2] [reversion_entry_row]
       ((ASSET_VALUE, []), [ASSET_VALUE, ASSET_VALUE, ASSET_VALUE])
     = Inr ((101562500, [entered_pos]), [ASSET_VALUE, ASSET_VALUE, ASSET_VALUE])"
  "bar_loop dynamic_reversion_algo_bar [0, 1, 2] [reversion_entry_row]
       ((ASSET_VALUE, []), [ASSET_VALUE, ASSET_VALUE, ASSET_VALUE])
     = Inr ((101562500, [entered_pos]), [ASSET_VALUE, ASSET_VALUE, ASSET_VALUE])"
  "bar_loop (algo_bar 30 2 2) [0, 1, 2] [hybrid_entry_row]
       ((ASSET_VALUE, [], []), [ASSET_VALUE, ASSET_VALUE, ASSET_VALUE])
     = Inr ((3125000, [entered_pos], [entered_pos]), [ASSET_VALUE, ASSET_VALUE, ASSET_VALUE])"
  "bar_loop (dynamic_algo_bar 30) [0, 1, 2] [hybrid_entry_row]
       ((ASSET_VALUE, [], []), [ASSET_VALUE, ASSET_VALUE, ASSET_VALUE])
     = Inr ((3125000, [entered_pos], [entered_pos]), [ASSET_VALUE, ASSET_VALUE, ASSET_VALUE])"
  by (subst bar_loop.simps, subst entry_bars, simp add: loc_set_def ASSET_VALUE_def)+

lemma run_tables:
  "map Date [first_row, entry_row, hold_row] = [0, 1, 2]"
  "map Date [first_row, reversion_entry_row, hold_row] = [0, 1, 2]"
  "map Date [hybrid_first_row, hybrid_entry_row, hybrid_hold_row] = [0, 1, 2]"
  "\<not> (RSI hold_row = None \<or> MACD_diff hold_row = None \<or> ATR hold_row = None)"
  "\<not> hrow_undefined hybrid_hold_row"
  by (simp_all add: first_row_def entry_row_def hold_row_def reversion_entry_row_def
        hybrid_first_row_def hybrid_entry_row_def hybrid_hold_row_def hrow_undefined_def)

lemma row_dates:
  "Date first_row = 0" "Date entry_row = 1" "Date hold_row = 2" "Date reversion_entry_row = 1"
  "Date hybrid_first_row = 0" "Date hybrid_entry_row = 1" "Date hybrid_hold_row = 2"
  by (simp_all add: first_row_def entry_row_def hold_row_def reversion_entry_row_def
        hybrid_first_row_def hybrid_entry_row_def hybrid_hold_row_def)

lemma held_exits:
  "momentum_exits 30 105 40 1 (101562500, [entered_pos]) = (101562500, [entered_pos])"
  "reversion_exits 105 40 1 (101562500, [entered_pos]) = (101562500, [entered_pos])"
  "hybrid_exits 30 105 40 1 40 1 (3125000, [entered_pos], [entered_pos])
     = (3125000, [entered_pos], [entered_pos])"
  by (simp_all add: body_defs entered_pos_def)

theorem asset_value_mark_to_market_witness:
  "momentum_algo_bar 30 2 (11062500, [long_pos]) hold_row
     = Inr ((11062500, [long_pos]), Some (2, 22546875)) \<and>
   dynamic_momentum_algo_bar 30 (11062500, [long_pos]) hold_row
     = Inr ((11062500, [long_pos]), Some (2, 22546875)) \<and>
   reversion_algo_bar 2 (11062500, [long_pos]) hold_row
     = Inr ((11062500, [long_pos]), Some (2, 22546875)) \<and>
   dynamic_reversion_algo_bar (11062500, [long_pos]) hold_row
     = Inr ((11062500, [long_pos]), Some (2, 22546875)) \<and>
   algo_bar 30 2 2 (11062500, [long_pos], []) hybrid_hold_row
     = Inr ((11062500, [long_pos], []), Some (2, 22546875)) \<and>
   dynamic_algo_bar 30 (11062500, [long_pos], []) hybrid_hold_row
     = Inr ((11062500, [long_pos], []), Some (2, 22546875)) \<and>
   (22546875 :: real) = 11062500 + mark_to_market 105 long_pos \<and>
   momentum_body 30 2 1 100 60 1 5 (22000000, []) = Inr ((11062500, [long_pos]), 22000000) \<and>
   momentum_body 30 2 2 105 40 1 5 (11062500, [long_pos])
     = Inr ((11062500, [long_pos]), 22546875) \<and>
   reversion_body 2 1 100 20 1 5 (22000000, []) = Inr ((11062500, [long_pos]), 22000000) \<and>
   reversion_body 2 2 105 40 1 5 (11062500, [long_pos])
     = Inr ((11062500, [long_pos]), 22546875) \<and>
   hybrid_body 30 2 2 1 100 60 1 5 40 1 5 (22000000, [], [])
     = Inr ((11062500, [long_pos], []), 22000000) \<and>
   hybrid_body 30 2 2 2 105 40 1 5 40 1 5 (11062500, [long_pos], [])
     = Inr ((11062500, [long_pos], []), 22546875) \<and>
   hybrid_body 30 2 2 1 100 40 1 5 20 1 5 (22000000, [], [])
     = Inr ((11062500, [], [long_pos]), 22000000) \<and>
   hybrid_body 30 2 2 2 105 40 1 5 40 1 5 (11062500, [], [long_pos])
     = Inr ((11062500, [], [long_pos]), 22546875) \<and>
   (22546875 :: real) = 22000000 + of_int (quantity long_pos) * (105 - entry_price long_pos)
                                     * price_multiplier \<and>
   momentum_algo [first_row, entry_row, hold_row] 30 2 = Inr single_run_table \<and>
   dynamic_momentum_algo [first_row, entry_row, hold_row] 30 = Inr single_run_table \<and>
   reversion_algo [first_row, reversion_entry_row, hold_row] 2 = Inr single_run_table \<and>
   dynamic_reversion_algo [first_row, reversion_entry_row, hold_row] = Inr single_run_table \<and>
   algo [hybrid_first_row, hybrid_entry_row, hybrid_hold_row] 30 2 2 = Inr hybrid_run_table \<and>
   dynamic_algo [hybrid_first_row, hybrid_entry_row, hybrid_hold_row] 30
     = Inr hybrid_run_table \<and>
   map Date [first_row, entry_row, hold_row] = [0, 1, 2] \<and>
   map Date [first_row, reversion_entry_row, hold_row] = [0, 1, 2] \<and>
   map Date [hybrid_first_row, hybrid_entry_row, hybrid_hold_row] = [0, 1, 2] \<and>
   Asset single_run_table ! 2 = 101562500 + mark_to_market 105 entered_pos \<and>
   Asset hybrid_run_table ! 2
     = 3125000 + (mark_to_market 105 entered_pos + mark_to_market 105 entered_pos) \<and>
   Asset single_run_table ! 2 = 204921875 \<and>
   Asset hybrid_run_table ! 2 = 209843750"
proof -
  have x: "momentum_exits 30 100 60 1 (22000000, []) = (22000000, [])"
    "reversion_exits 100 20 1 (22000000, []) = (22000000, [])"
    "hybrid_exits 30 100 60 1 40 1 (22000000, [], []) = (22000000, [], [])"
    "hybrid_exits 30 100 40 1 20 1 (22000000, [], []) = (22000000, [], [])"
    by (simp_all add: body_defs)
  have sel: "Close hold_row = 105" "the (RSI hold_row) = 40" "the (MACD_diff hold_row) = 1"
    "Date hold_row = 2" "Close hybrid_hold_row = 105" "the (RSI_mom hybrid_hold_row) = 40"
    "the (MACD_diff_mom hybrid_hold_row) = 1" "the (RSI_rev hybrid_hold_row) = 40"
    "the (MACD_diff_rev hybrid_hold_row) = 1" "Date hybrid_hold_row = 2"
    by (simp_all add: hold_row_def hybrid_hold_row_def)
  note bars = asset_value_mark_to_market [where thr = 30 and m = 2 and ?m2.0 = 2
      and st = "(11062500, [long_pos])" and row = hold_row and st' = "(11062500, [long_pos])"
      and date = 2 and a = 22546875 and hst = "(11062500, [long_pos], [])"
      and hrow = hybrid_hold_row and hst' = "(11062500, [long_pos], [])"]
  note mom = asset_value_mark_to_market [where thr = 30 and m = 2 and ?m2.0 = 2 and m' = 2
      and ?m2' = 2 and st = "(22000000, [])" and hst = "(22000000, [], [])" and ?d1.0 = 1
      and ?p1.0 = 100 and ?rsi1.0 = 60 and ?macd1.0 = 1 and ?atr1.0 = 5 and ?rsi_r1.0 = 40
      and ?macd_r1.0 = 1 and ?atr_r1.0 = 5 and ?cash1.0 = 11062500 and pos = long_pos
      and ?a1.0 = 22000000 and ?d2.0 = 2 and ?p2.0 = 105 and ?rsi2.0 = 40 and ?macd2.0 = 1
      and ?atr2.0 = 5 and ?rsi_r2.0 = 40 and ?macd_r2.0 = 1 and ?atr_r2.0 = 5
      and ?st2.0 = "(11062500, [long_pos])" and ?hst2.0 = "(11062500, [long_pos], [])"
      and ?a2.0 = 22546875]
  note rev = asset_value_mark_to_market [where thr = 30 and m = 2 and ?m2.0 = 2 and m' = 2
      and ?m2' = 2 and st = "(22000000, [])" and hst = "(22000000, [], [])" and ?d1.0 = 1
      and ?p1.0 = 100 and ?rsi1.0 = 20 and ?macd1.0 = 1 and ?atr1.0 = 5 and ?rsi_r1.0 = 20
      and ?macd_r1.0 = 1 and ?atr_r1.0 = 5 and ?cash1.0 = 11062500 and pos = long_pos
      and ?a1.0 = 22000000 and ?d2.0 = 2 and ?p2.0 = 105 and ?rsi2.0 = 40 and ?macd2.0 = 1
      and ?atr2.0 = 5 and ?rsi_r2.0 = 40 and ?macd_r2.0 = 1 and ?atr_r2.0 = 5
      and ?st2.0 = "(11062500, [long_pos])" and ?hst2.0 = "(11062500, [], [long_pos])"
      and ?a2.0 = 22546875]
  note hrev = asset_value_mark_to_market [where thr = 30 and m = 2 and ?m2.0 = 2 and m' = 2
      and ?m2' = 2 and st = "(22000000, [])" and hst = "(22000000, [], [])" and ?d1.0 = 1
      and ?p1.0 = 100 and ?rsi1.0 = 40 and ?macd1.0 = 1 and ?atr1.0 = 5 and ?rsi_r1.0 = 20
      and ?macd_r1.0 = 1 and ?atr_r1.0 = 5 and ?cash1.0 = 11062500 and pos = long_pos
      and ?a1.0 = 22000000 and ?d2.0 = 2 and ?p2.0 = 105 and ?rsi2.0 = 40 and ?macd2.0 = 1
      and ?atr2.0 = 5 and ?rsi_r2.0 = 40 and ?macd_r2.0 = 1 and ?atr_r2.0 = 5
      and ?st2.0 = "(11062500, [long_pos])" and ?hst2.0 = "(11062500, [], [long_pos])"
      and ?a2.0 = 22546875]
  have b1: "(22546875 :: real) = 11062500 + mark_to_market 105 long_pos"
    using bars [THEN conjunct1] unfolding hold_bars sel hold_exits
    by (simp add: Let_def)
  have b5: "(22546875 :: real) = 11062500 + mark_to_market 105 long_pos"
    using bars [THEN conjunct2, THEN conjunct2, THEN conjunct2, THEN conjunct2, THEN conjunct1]
    unfolding hold_bars sel hold_exits
    by (simp add: Let_def)
  have p7: "(22546875 :: real) = 22000000 + of_int (quantity long_pos)
              * (105 - entry_price long_pos) * price_multiplier"
    using mom [THEN conjunct2, THEN conjunct2, THEN conjunct2, THEN conjunct2, THEN conjunct2,
        THEN conjunct2, THEN conjunct1]
    unfolding long_entry_bodies long_hold_bodies x
    by (simp add: long_pos_facts)
  have p8: "(22546875 :: real) = 22000000 + of_int (quantity long_pos)
              * (105 - entry_price long_pos) * price_multiplier"
    using rev [THEN conjunct2, THEN conjunct2, THEN conjunct2, THEN conjunct2, THEN conjunct2,
        THEN conjunct2, THEN conjunct2, THEN conjunct1]
    unfolding long_entry_bodies long_hold_bodies x
    by (simp add: long_pos_facts)
  have p9: "(22546875 :: real) = 22000000 + of_int (quantity long_pos)
              * (105 - entry_price long_pos) * price_multiplier"
    using mom [THEN conjunct2, THEN conjunct2, THEN conjunct2, THEN conjunct2, THEN conjunct2,
        THEN conjunct2, THEN conjunct2, THEN conjunct2, THEN conjunct1]
    unfolding long_entry_bodies long_hold_bodies x
    by (simp add: long_pos_facts)
  have p10: "(22546875 :: real) = 22000000 + of_int (quantity long_pos)
              * (105 - entry_price long_pos) * price_multiplier"
    using hrev [THEN conjunct2, THEN conjunct2, THEN conjunct2, THEN conjunct2, THEN conjunct2,
        THEN conjunct2, THEN conjunct2, THEN conjunct2, THEN conjunct2, THEN conjunct1]
    unfolding long_entry_bodies long_hold_bodies x
    by (simp add: long_pos_facts)
  have r1: "Asset single_run_table ! 2 = 101562500 + mark_to_market 105 entered_pos"
  proof -
    have "\<exists>st asset.
        bar_loop (momentum_algo_bar 30 2) (map Date [first_row, entry_row, hold_row]) [entry_row]
          ((ASSET_VALUE, []), replicate (length [first_row, entry_row, hold_row]) ASSET_VALUE) = Inr (st, asset) \<and>
        Index single_run_table ! Suc (length [entry_row]) = Date hold_row \<and>
        Asset single_run_table ! Suc (length [entry_row]) =
          (let x = momentum_exits 30 (Close hold_row) (the (RSI hold_row)) (the (MACD_diff hold_row)) st
           in fst x + (\<Sum>pos\<leftarrow>snd x. mark_to_market (Close hold_row) pos))"
      by (rule asset_value_mark_to_market [where thr = 30 and m = 2 and ?m2.0 = 2
        and data = "[first_row, entry_row, hold_row]" and first = first_row and pre = "[entry_row]" and row = hold_row
        and post = "[]" and t = single_run_table,
          THEN conjunct2, THEN conjunct2, THEN conjunct2, THEN conjunct2, THEN conjunct2, THEN conjunct2, THEN conjunct2, THEN conjunct2, THEN conjunct2, THEN conjunct2, THEN conjunct1, rule_format])
        (simp add: example_runs run_tables row_dates)
    then obtain st asset where
      p: "bar_loop (momentum_algo_bar 30 2) [0, 1, 2] [entry_row]
            ((ASSET_VALUE, []), [ASSET_VALUE, ASSET_VALUE, ASSET_VALUE]) = Inr (st, asset)"
      and a: "Asset single_run_table ! Suc (length [entry_row]) =
          (let x = momentum_exits 30 105 40 1 st
           in fst x + (\<Sum>pos\<leftarrow>snd x. mark_to_market 105 pos))"
      unfolding run_tables sel by (auto simp: numeral_3_eq_3)
    from p have "st = (101562500, [entered_pos])"
      unfolding run_prefixes by simp
    with a show ?thesis
      by (simp add: held_exits Let_def numeral_2_eq_2)
  qed
  have r2: "Asset single_run_table ! 2 = 101562500 + mark_to_market 105 entered_pos"
  proof -
    have "\<exists>st asset.
        bar_loop (dynamic_momentum_algo_bar 30) (map Date [first_row, entry_row, hold_row]) [entry_row]
          ((ASSET_VALUE, []), replicate (length [first_row, entry_row, hold_row]) ASSET_VALUE) = Inr (st, asset) \<and>
        Index single_run_table ! Suc (length [entry_row]) = Date hold_row \<and>
        Asset single_run_table ! Suc (length [entry_row]) =
          (let x = momentum_exits 30 (Close hold_row) (the (RSI hold_row)) (the (MACD_diff hold_row)) st
           in fst x + (\<Sum>pos\<leftarrow>snd x. mark_to_market (Close hold_row) pos))"
      by (rule asset_value_mark_to_market [where thr = 30 and m = 2 and ?m2.0 = 2
        and data = "[first_row, entry_row, hold_row]" and first = first_row and pre = "[entry_row]" and row = hold_row
        and post = "[]" and t = single_run_table,
          THEN conjunct2, THEN conjunct2, THEN conjunct2, THEN conjunct2, THEN conjunct2, THEN conjunct2, THEN conjunct2, THEN conjunct2, THEN conjunct2, THEN conjunct2, THEN conjunct2, THEN conjunct1, rule_format])
        (simp add: example_runs run_tables row_dates)
    then obtain st asset where
      p: "bar_loop (dynamic_momentum_algo_bar 30) [0, 1, 2] [entry_row]
            ((ASSET_VALUE, []), [ASSET_VALUE, ASSET_VALUE, ASSET_VALUE]) = Inr (st, asset)"
      and a: "Asset single_run_table ! Suc (length [entry_row]) =
          (let x = momentum_exits 30 105 40 1 st
           in fst x + (\<Sum>pos\<leftarrow>snd x. mark_to_market 105 pos))"
      unfolding run_tables sel by (auto simp: numeral_3_eq_3)
    from p have "st = (101562500, [entered_pos])"
      unfolding run_prefixes by simp
    with a show ?thesis
      by (simp add: held_exits Let_def numeral_2_eq_2)
  qed
  have r3: "Asset single_run_table ! 2 = 101562500 + mark_to_market 105 entered_pos"
  proof -
    have "\<exists>st asset.
        bar_loop (reversion_algo_bar 2) (map Date [first_row, reversion_entry_row, hold_row]) [reversion_entry_row]
          ((ASSET_VALUE, []), replicate (length [first_row, reversion_entry_row, hold_row]) ASSET_VALUE) = Inr (st, asset) \<and>
        Index single_run_table ! Suc (length [reversion_entry_row]) = Date hold_row \<and>
        Asset single_run_table ! Suc (length [reversion_entry_row]) =
          (let x = reversion_exits (Close hold_row) (the (RSI hold_row)) (the (MACD_diff hold_row)) st
           in fst x + (\<Sum>pos\<leftarrow>snd x. mark_to_market (Close hold_row) pos))"
      by (rule asset_value_mark_to_market [where thr = 30 and m = 2 and ?m2.0 = 2
        and data = "[first_row, reversion_entry_row, hold_row]" and first = first_row and pre = "[reversion_entry_row]" and row = hold_row
        and post = "[]" and t = single_run_table,
          THEN conjunct2, THEN conjunct2, THEN conjunct2, THEN conjunct2, THEN conjunct2, THEN conjunct2, THEN conjunct2, THEN conjunct2, THEN conjunct2, THEN conjunct2, THEN conjunct2, THEN conjunct2, THEN conjunct1, rule_format])
        (simp add: example_runs run_tables row_dates)
    then obtain st asset where
      p: "bar_loop (reversion_algo_bar 2) [0, 1, 2] [reversion_entry_row]
            ((ASSET_VALUE, []), [ASSET_VALUE, ASSET_VALUE, ASSET_VALUE]) = Inr (st, asset)"
      and a: "Asset single_run_table ! Suc (length [reversion_entry_row]) =
          (let x = reversion_exits 105 40 1 st
           in fst x + (\<Sum>pos\<leftarrow>snd x. mark_to_market 105 pos))"
      unfolding run_tables sel by (auto simp: numeral_3_eq_3)
    from p have "st = (101562500, [entered_pos])"
      unfolding run_prefixes by simp
    with a show ?thesis
      by (simp add: held_exits Let_def numeral_2_eq_2)
  qed
  have r4: "Asset single_run_table ! 2 = 101562500 + mark_to_market 105 entered_pos"
  proof -
    have "\<exists>st asset.
        bar_loop (dynamic_reversion_algo_bar) (map Date [first_row, reversion_entry_row, hold_row]) [reversion_entry_row]
          ((ASSET_VALUE, []), replicate (length [first_row, reversion_entry_row, hold_row]) ASSET_VALUE) = Inr (st, asset) \<and>
        Index single_run_table ! Suc (length [reversion_entry_row]) = Date hold_row \<and>
        Asset single_run_table ! Suc (length [reversion_entry_row]) =
          (let x = reversion_exits (Close hold_row) (the (RSI hold_row)) (the (MACD_diff hold_row)) st
           in fst x + (\<Sum>pos\<leftarrow>snd x. mark_to_market (Close hold_row) pos))"
      by (rule asset_value_mark_to_market [where thr = 30 and m = 2 and ?m2.0 = 2
        and data = "[first_row, reversion_entry_row, hold_row]" and first = first_row and pre = "[reversion_entry_row]" and row = hold_row
        and post = "[]" and t = single_run_table,
          THEN conjunct2, THEN conjunct2, THEN conjunct2, THEN conjunct2, THEN conjunct2, THEN conjunct2, THEN conjunct2, THEN conjunct2, THEN conjunct2, THEN conjunct2, THEN conjunct2, THEN conjunct2, THEN conjunct2, THEN conjunct1, rule_format])
        (simp add: example_runs run_tables row_dates)
    then obtain st asset where
      p: "bar_loop (dynamic_reversion_algo_bar) [0, 1, 2] [reversion_entry_row]
            ((ASSET_VALUE, []), [ASSET_VALUE, ASSET_VALUE, ASSET_VALUE]) = Inr (st, asset)"
      and a: "Asset single_run_table ! Suc (length [reversion_entry_row]) =
          (let x = reversion_exits 105 40 1 st
           in fst x + (\<Sum>pos\<leftarrow>snd x. mark_to_market 105 pos))"
      unfolding run_tables sel by (auto simp: numeral_3_eq_3)
    from p have "st = (101562500, [entered_pos])"
      unfolding run_prefixes by simp
    with a show ?thesis
      by (simp add: held_exits Let_def numeral_2_eq_2)
  qed
  have r5: "Asset hybrid_run_table ! 2 = 3125000 + (mark_to_market 105 entered_pos + mark_to_market 105 entered_pos)"
  proof -
    have "\<exists>hst asset.
        bar_loop (algo_bar 30 2 2) (map Date [hybrid_first_row, hybrid_entry_row, hybrid_hold_row]) [hybrid_entry_row]
          ((ASSET_VALUE, [], []), replicate (length [hybrid_first_row, hybrid_entry_row, hybrid_hold_row]) ASSET_VALUE) = Inr (hst, asset) \<and>
        Index hybrid_run_table ! Suc (length [hybrid_entry_row]) = Date hybrid_hold_row \<and>
        Asset hybrid_run_table ! Suc (length [hybrid_entry_row]) =
          (let x = hybrid_exits 30 (Close hybrid_hold_row) (the (RSI_mom hybrid_hold_row))
                     (the (MACD_diff_mom hybrid_hold_row)) (the (RSI_rev hybrid_hold_row))
                     (the (MACD_diff_rev hybrid_hold_row)) hst
           in fst x + (\<Sum>pos\<leftarrow>fst (snd x) @ snd (snd x).
                        mark_to_market (Close hybrid_hold_row) pos))"
      by (rule asset_value_mark_to_market [where thr = 30 and m = 2 and ?m2.0 = 2
        and hdata = "[hybrid_first_row, hybrid_entry_row, hybrid_hold_row]" and hfirst = hybrid_first_row and hpre = "[hybrid_entry_row]" and hrow = hybrid_hold_row
        and hpost = "[]" and t = hybrid_run_table,
          THEN conjunct2, THEN conjunct2, THEN conjunct2, THEN conjunct2, THEN conjunct2, THEN conjunct2, THEN conjunct2, THEN conjunct2, THEN conjunct2, THEN conjunct2, THEN conjunct2, THEN conjunct2, THEN conjunct2, THEN conjunct2, THEN conjunct1, rule_format])
        (simp add: example_runs run_tables row_dates)
    then obtain st asset where
      p: "bar_loop (algo_bar 30 2 2) [0, 1, 2] [hybrid_entry_row]
            ((ASSET_VALUE, [], []), [ASSET_VALUE, ASSET_VALUE, ASSET_VALUE]) = Inr (st, asset)"
      and a: "Asset hybrid_run_table ! Suc (length [hybrid_entry_row]) =
          (let x = hybrid_exits 30 105 40 1 40 1 st
           in fst x + (\<Sum>pos\<leftarrow>fst (snd x) @ snd (snd x). mark_to_market 105 pos))"
      unfolding run_tables sel by (auto simp: numeral_3_eq_3)
    from p have "st = (3125000, [entered_pos], [entered_pos])"
      unfolding run_prefixes by simp
    with a show ?thesis
      by (simp add: held_exits Let_def numeral_2_eq_2)
  qed
  have r6: "Asset hybrid_run_table ! 2 = 3125000 + (mark_to_market 105 entered_pos + mark_to_market 105 entered_pos)"
  proof -
    have "\<exists>hst asset.
        bar_loop (dynamic_algo_bar 30) (map Date [hybrid_first_row, hybrid_entry_row, hybrid_hold_row]) [hybrid_entry_row]
          ((ASSET_VALUE, [], []), replicate (length [hybrid_first_row, hybrid_entry_row, hybrid_hold_row]) ASSET_VALUE) = Inr (hst, asset) \<and>
        Index hybrid_run_table ! Suc (length [hybrid_entry_row]) = Date hybrid_hold_row \<and>
        Asset hybrid_run_table ! Suc (length [hybrid_entry_row]) =
          (let x = hybrid_exits 30 (Close hybrid_hold_row) (the (RSI_mom hybrid_hold_row))
                     (the (MACD_diff_mom hybrid_hold_row)) (the (RSI_rev hybrid_hold_row))
                     (the (MACD_diff_rev hybrid_hold_row)) hst
           in fst x + (\<Sum>pos\<leftarrow>fst (snd x) @ snd (snd x).
                        mark_to_market (Close hybrid_hold_row) pos))"
      by (rule asset_value_mark_to_market [where thr = 30 and m = 2 and ?m2.0 = 2
        and hdata = "[hybrid_first_row, hybrid_entry_row, hybrid_hold_row]" and hfirst = hybrid_first_row and hpre = "[hybrid_entry_row]" and hrow = hybrid_hold_row
        and hpost = "[]" and t = hybrid_run_table,
          THEN conjunct2, THEN conjunct2, THEN conjunct2, THEN conjunct2, THEN conjunct2, THEN conjunct2, THEN conjunct2, THEN conjunct2, THEN conjunct2, THEN conjunct2, THEN conjunct2, THEN conjunct2, THEN conjunct2, THEN conjunct2, THEN conjunct2, rule_format])
        (simp add: example_runs run_tables row_dates)
    then obtain st asset where
      p: "bar_loop (dynamic_algo_bar 30) [0, 1, 2] [hybrid_entry_row]
            ((ASSET_VALUE, [], []), [ASSET_VALUE, ASSET_VALUE, ASSET_VALUE]) = Inr (st, asset)"
      and a: "Asset hybrid_run_table ! Suc (length [hybrid_entry_row]) =
          (let x = hybrid_exits 30 105 40 1 40 1 st
           in fst x + (\<Sum>pos\<leftarrow>fst (snd x) @ snd (snd x). mark_to_market 105 pos))"
      unfolding run_tables sel by (auto simp: numeral_3_eq_3)
    from p have "st = (3125000, [entered_pos], [entered_pos])"
      unfolding run_prefixes by simp
    with a show ?thesis
      by (simp add: held_exits Let_def numeral_2_eq_2)
  qed
  have v: "Asset single_run_table ! 2 = 204921875" "Asset hybrid_run_table ! 2 = 209843750"
    by (simp_all add: single_run_table_def hybrid_run_table_def)
  from hold_bars b1 b5 long_entry_bodies long_hold_bodies p7 p8 p9 p10 example_runs
    run_tables(1-3) r1 r2 r3 r4 r5 r6 v
  show ?thesis
    by (intro conjI)
qed

end
